theory Spec2Isabelle
  imports Complex_Main "HOL-Library.Sublist"
begin

section \<open>The platform clients of package integrations\<close>

text \<open>
  The package is a set of HTTP client wrappers (Go). Each wrapper builds a request, sends it
  with \<^verbatim>\<open>HTTPClient.Do\<close>, looks at the status code and decodes the body. The model passes
  the outside world explicitly: the remote server, the JSON decoder of \<^verbatim>\<open>encoding/json\<close>,
  the URL parser behind \<^verbatim>\<open>http.NewRequest\<close> and the file system are fields of an
  environment record; the requests sent, the seconds spent in \<^verbatim>\<open>time.Sleep\<close>, the lines
  printed and, for each request, the seconds slept when it was sent are fields of a state
  record that every wrapper takes and returns.
\<close>

subsection \<open>Values, errors, requests and responses\<close>

text \<open>A value of Go's \<^verbatim>\<open>interface{}\<close> as \<^verbatim>\<open>encoding/json\<close> produces it. An object lists its
  entries in the order in which a \<^verbatim>\<open>range\<close> over the Go map visits them.\<close>

datatype json =
    JNull
  | JBool bool
  | JNumber real
  | JString string
  | JArray "json list"
  | JObject "(string \<times> json) list"

text \<open>A Go \<^verbatim>\<open>error\<close> is its message; a run-time panic is kept apart from it, since no
  \<^verbatim>\<open>if err != nil\<close> catches it.\<close>

datatype error = Error string | Panic string

text \<open>\<^verbatim>\<open>url.Values\<close> as the list of the \<^verbatim>\<open>Add\<close> calls; a URL is the text before the query and
  the values handed to \<^verbatim>\<open>Encode\<close> (empty when the code formats the whole URL itself).\<close>

type_synonym url_values = "(string \<times> string) list"

datatype url = URL string url_values

text \<open>A request body: none (\<^verbatim>\<open>nil\<close>), the value given to \<^verbatim>\<open>json.Marshal\<close>, raw bytes, the
  values of a URL-encoded form, or the parts written to a \<^verbatim>\<open>multipart.Writer\<close> (field name
  and content).\<close>

datatype body =
  NoBody | JsonBody json | RawBody string | FormBody url_values
  | MultipartBody "(string \<times> string) list"

record request =
  Method :: string
  target :: url
  headers :: "(string \<times> string) list"
  payload :: body

record response =
  StatusCode :: int
  Body :: string

text \<open>What \<^verbatim>\<open>HTTPClient.Do\<close> returns: a transport error (its message) or a response.\<close>

type_synonym outcome = "string + response"

type_synonym exchange = "request \<times> outcome"

record world =
  trace :: "exchange list"
  slept :: nat
  printed :: "string list"
  sent_at :: "nat list"

subsection \<open>The structs decoded from response bodies\<close>

text \<open>\<^verbatim>\<open>time.Time\<close> is kept as an instant in seconds; no wrapper computes with it.\<close>

type_synonym Time = int

record MediaResponse =
  ID :: string
  StatusURL :: string

record Thread =
  Thread_ID :: string
  Thread_Title :: string
  Thread_Content :: string
  Thread_AuthorID :: string
  Thread_CreatedAt :: Time
  Thread_UpdatedAt :: Time

record Reply =
  Reply_ID :: string
  Reply_ThreadID :: string
  Reply_Content :: string
  Reply_AuthorID :: string
  Reply_ParentID :: string
  Reply_CreatedAt :: Time
  Reply_UpdatedAt :: Time

record Tweet =
  Tweet_ID :: string
  Tweet_Text :: string
  Tweet_CreatedAt :: Time
  Tweet_AuthorID :: string
  Tweet_ConversationID :: string
  Tweet_InReplyToTweetID :: string

record TweetResponse =
  Data :: Tweet

subsection \<open>The environment\<close>

text \<open>
  What the package calls and does not define. \<open>url_error\<close> is the URL check of
  \<^verbatim>\<open>http.NewRequest\<close>; \<open>server\<close> is \<^verbatim>\<open>HTTPClient.Do\<close>, which may answer differently each
  time, so it sees the exchanges so far; \<open>read_file\<close> is \<^verbatim>\<open>os.Open\<close> followed by
  \<^verbatim>\<open>io.ReadAll\<close>; \<open>unmarshal_map\<close> is \<^verbatim>\<open>json.Unmarshal\<close> into a
  \<^verbatim>\<open>map[string]interface{}\<close>, \<open>decode_map\<close> is \<^verbatim>\<open>json.NewDecoder(body).Decode\<close> into
  such a map, and the other decoders are \<^verbatim>\<open>Decode\<close> into the struct named. \<open>decode_as\<close> is
  \<^verbatim>\<open>Decode\<close> or \<^verbatim>\<open>Unmarshal\<close> into a value of the Go type named by its first argument, for
  the clients whose structs are not records here: the value decoded is given as JSON, with
  the fields the type has. Every decoder returns the message of its error or the decoded
  value. \<open>now\<close> is \<^verbatim>\<open>time.Now()\<close>, in seconds, read after the exchanges so far. \<open>os_Open\<close>
  is the error of \<^verbatim>\<open>os.Open\<close>, if any, and \<open>io_Copy\<close> is what \<^verbatim>\<open>io.Copy\<close> reads from the opened
  file, for the wrappers that tell the two errors apart. \<open>Sscanf\<close> is \<^verbatim>\<open>fmt.Sscanf\<close> with
  two pointers to empty strings: from the input and the format, what the two strings hold
  afterwards; \<open>Sprint\<close> is the text \<^verbatim>\<open>fmt\<close>
  writes for a value under a verb; \<open>RFC3339\<close> is \<^verbatim>\<open>Format(time.RFC3339)\<close>; \<open>Marshal\<close> is the text
  \<^verbatim>\<open>json.Marshal\<close> writes for a value, where the code uses the text itself; \<open>base64\<close> is the
  standard encoding \<^verbatim>\<open>SetBasicAuth\<close> applies.
\<close>

record env =
  url_error :: "url \<Rightarrow> string option"
  server :: "exchange list \<Rightarrow> request \<Rightarrow> outcome"
  read_file :: "string \<Rightarrow> string + string"
  unmarshal_map :: "string \<Rightarrow> string + (string \<times> json) list"
  decode_map :: "string \<Rightarrow> string + (string \<times> json) list"
  decode_MediaResponse :: "string \<Rightarrow> string + MediaResponse"
  decode_Thread :: "string \<Rightarrow> string + Thread"
  decode_Threads :: "string \<Rightarrow> string + Thread list"
  decode_Reply :: "string \<Rightarrow> string + Reply"
  decode_Replies :: "string \<Rightarrow> string + Reply list"
  decode_TweetResponse :: "string \<Rightarrow> string + TweetResponse"
  decode_TweetsResponse :: "string \<Rightarrow> string + Tweet list"
  decode_as :: "string \<Rightarrow> string \<Rightarrow> string + json"
  now :: "exchange list \<Rightarrow> int"
  os_Open :: "string \<Rightarrow> string option"
  io_Copy :: "string \<Rightarrow> string + string"
  Sscanf :: "string \<Rightarrow> string \<Rightarrow> string \<times> string"
  Sprint :: "string \<Rightarrow> json \<Rightarrow> string"
  RFC3339 :: "int \<Rightarrow> string"
  Marshal :: "json \<Rightarrow> string"
  base64 :: "string \<Rightarrow> string"

text \<open>\<^verbatim>\<open>http.NewRequest(method, url, body)\<close>: fails when the URL does not parse.\<close>

definition NewRequest :: "env \<Rightarrow> string \<Rightarrow> url \<Rightarrow> body \<Rightarrow> string + request" where
  "NewRequest E m u b =
     (case url_error E u of
        Some e \<Rightarrow> Inl e
      | None \<Rightarrow> Inr \<lparr>Method = m, target = u, headers = [], payload = b\<rparr>)"

text \<open>\<^verbatim>\<open>req.Header.Set\<close> / \<^verbatim>\<open>req.Header.Add\<close> on a fresh request.\<close>

definition Header_Set :: "string \<Rightarrow> string \<Rightarrow> request \<Rightarrow> request" where
  "Header_Set k v rq = rq\<lparr>headers := headers rq @ [(k, v)]\<rparr>"

text \<open>\<^verbatim>\<open>HTTPClient.Do(req)\<close>: the server answers knowing everything exchanged so far; the
  exchange is recorded, and with it the time at which the request was sent.\<close>

definition Do :: "env \<Rightarrow> request \<Rightarrow> world \<Rightarrow> outcome \<times> world" where
  "Do E rq w =
     (let r = server E (trace w) rq
      in (r, w\<lparr>trace := trace w @ [(rq, r)], sent_at := sent_at w @ [slept w]\<rparr>))"

text \<open>\<^verbatim>\<open>time.Sleep(n * time.Second)\<close>.\<close>

definition Sleep :: "nat \<Rightarrow> world \<Rightarrow> world" where
  "Sleep n w = w\<lparr>slept := slept w + n\<rparr>"

text \<open>The verb \<^verbatim>\<open>%d\<close> of \<^verbatim>\<open>fmt\<close>: decimal digits, a minus sign for a negative number.\<close>

fun digits :: "nat \<Rightarrow> string" where
  "digits n =
     (if n < 10 then [char_of (48 + n)]
      else digits (n div 10) @ [char_of (48 + n mod 10)])"

declare digits.simps [simp del]

definition itoa :: "int \<Rightarrow> string" where
  "itoa i = (if i < 0 then CHR ''-'' # digits (nat (- i)) else digits (nat i))"

subsection \<open>instagram.go\<close>

record InstagramClient =
  ig_AppID :: string
  ig_AppSecret :: string
  ig_RedirectURI :: string
  ig_AccessToken :: string
  ig_UserID :: string

definition BaseURL :: string where
  "BaseURL = ''https://graph.facebook.com/v17.0''"

text \<open>\<^verbatim>\<open>waitForMediaProcessing\<close>, lines 355-391: \<open>waitLoop\<close> is the \<^verbatim>\<open>for\<close> loop from counter
  \<open>i\<close> on, with \<^verbatim>\<open>maxAttempts\<close> = 30. The receiver is not read (the HTTP client lives in the
  environment); the error of \<^verbatim>\<open>io.ReadAll\<close> is dropped by the code, the body is what was
  read.\<close>

function waitLoop :: "env \<Rightarrow> string \<Rightarrow> nat \<Rightarrow> world \<Rightarrow> error option \<times> world" where
  "waitLoop E statusURL i w =
     (if i < 30 then
        (let w1 = Sleep 2 w in
         case NewRequest E ''GET'' (URL statusURL []) NoBody of
           Inl e \<Rightarrow> (Some (Error e), w1)
         | Inr statusReq \<Rightarrow>
            (case Do E statusReq w1 of
               (Inl e, w2) \<Rightarrow> (Some (Error e), w2)
             | (Inr statusResp, w2) \<Rightarrow>
                (case unmarshal_map E (Body statusResp) of
                   Inl e \<Rightarrow> (Some (Error e), w2)
                 | Inr statusData \<Rightarrow>
                    (case map_of statusData ''status_code'' of
                       Some (JString status) \<Rightarrow>
                         if status = ''FINISHED'' then (None, w2)
                         else if status = ''ERROR'' then
                           (Some (Error (''media processing failed: '' @ Body statusResp)), w2)
                         else waitLoop E statusURL (i + 1) w2
                     | _ \<Rightarrow> (Some (Error ''invalid status response''), w2)))))
      else (Some (Error ''media processing timed out''), w))"
  by pat_completeness auto
termination
  by (relation "measure (\<lambda>(E, u, i, w). 30 - i)") auto

definition waitForMediaProcessing :: "env \<Rightarrow> string \<Rightarrow> world \<Rightarrow> error option \<times> world" where
  "waitForMediaProcessing E statusURL w = waitLoop E statusURL 0 w"


declare waitLoop.simps [simp del]

subsection \<open>threads.go\<close>

record ThreadService =
  ts_BaseURL :: string
  ts_AuthToken :: string

text \<open>The error every \<^verbatim>\<open>ThreadService\<close> method builds from a response it does not accept:
  \<^verbatim>\<open>fmt.Errorf("API error (status %d): %s", resp.StatusCode, string(body))\<close>.\<close>

definition threads_api_error :: "response \<Rightarrow> error" where
  "threads_api_error resp =
     Error (''API error (status '' @ itoa (StatusCode resp) @ ''): '' @ Body resp)"

text \<open>\<^verbatim>\<open>req.Header.Set("Authorization", fmt.Sprintf("Bearer %s", s.AuthToken))\<close>.\<close>

definition ts_authorize :: "ThreadService \<Rightarrow> request \<Rightarrow> request" where
  "ts_authorize s rq = Header_Set ''Authorization'' (''Bearer '' @ ts_AuthToken s) rq"

text \<open>\<^verbatim>\<open>CreateThread\<close>, lines 51-95. \<^verbatim>\<open>json.Marshal\<close> of a map of strings cannot fail, so that
  branch is absent here and below; the payload lists its keys as \<^verbatim>\<open>Marshal\<close> writes them.\<close>

definition CreateThread ::
  "env \<Rightarrow> ThreadService \<Rightarrow> string \<Rightarrow> string \<Rightarrow> string \<Rightarrow> world \<Rightarrow> (error + Thread) \<times> world" where
  "CreateThread E s title content authorID w =
     (if title = [] then (Inl (Error ''title cannot be empty''), w)
      else if content = [] then (Inl (Error ''content cannot be empty''), w)
      else
        let payload = JObject [(''author_id'', JString authorID), (''content'', JString content),
                               (''title'', JString title)] in
        case NewRequest E ''POST'' (URL (ts_BaseURL s @ ''/threads'') []) (JsonBody payload) of
          Inl e \<Rightarrow> (Inl (Error (''error creating request: '' @ e)), w)
        | Inr req \<Rightarrow>
           (case Do E (ts_authorize s (Header_Set ''Content-Type'' ''application/json'' req)) w of
              (Inl e, w1) \<Rightarrow> (Inl (Error (''error sending request: '' @ e)), w1)
            | (Inr resp, w1) \<Rightarrow>
               if StatusCode resp \<noteq> 201 then (Inl (threads_api_error resp), w1)
               else
                 (case decode_Thread E (Body resp) of
                    Inl e \<Rightarrow> (Inl (Error (''error decoding response: '' @ e)), w1)
                  | Inr thread \<Rightarrow> (Inr thread, w1))))"

text \<open>\<^verbatim>\<open>GetThread\<close>, lines 98-131.\<close>

definition GetThread ::
  "env \<Rightarrow> ThreadService \<Rightarrow> string \<Rightarrow> world \<Rightarrow> (error + Thread) \<times> world" where
  "GetThread E s threadID w =
     (if threadID = [] then (Inl (Error ''thread ID cannot be empty''), w)
      else
        case NewRequest E ''GET'' (URL (ts_BaseURL s @ ''/threads/'' @ threadID) []) NoBody of
          Inl e \<Rightarrow> (Inl (Error (''error creating request: '' @ e)), w)
        | Inr req \<Rightarrow>
           (case Do E (ts_authorize s req) w of
              (Inl e, w1) \<Rightarrow> (Inl (Error (''error sending request: '' @ e)), w1)
            | (Inr resp, w1) \<Rightarrow>
               if StatusCode resp = 404 then (Inl (Error ''thread not found''), w1)
               else if StatusCode resp \<noteq> 200 then (Inl (threads_api_error resp), w1)
               else
                 (case decode_Thread E (Body resp) of
                    Inl e \<Rightarrow> (Inl (Error (''error decoding response: '' @ e)), w1)
                  | Inr thread \<Rightarrow> (Inr thread, w1))))"

text \<open>\<^verbatim>\<open>UpdateThread\<close>, lines 134-185. The payload holds the non-empty ones of title and
  content.\<close>

definition UpdateThread ::
  "env \<Rightarrow> ThreadService \<Rightarrow> string \<Rightarrow> string \<Rightarrow> string \<Rightarrow> world \<Rightarrow> (error + Thread) \<times> world" where
  "UpdateThread E s threadID title content w =
     (if threadID = [] then (Inl (Error ''thread ID cannot be empty''), w)
      else
        let payload = (if content \<noteq> [] then [(''content'', JString content)] else []) @
                      (if title \<noteq> [] then [(''title'', JString title)] else []) in
        if length payload = 0 then (Inl (Error ''no update parameters provided''), w)
        else
          case NewRequest E ''PUT'' (URL (ts_BaseURL s @ ''/threads/'' @ threadID) [])
                 (JsonBody (JObject payload)) of
            Inl e \<Rightarrow> (Inl (Error (''error creating request: '' @ e)), w)
          | Inr req \<Rightarrow>
             (case Do E (ts_authorize s (Header_Set ''Content-Type'' ''application/json'' req)) w of
                (Inl e, w1) \<Rightarrow> (Inl (Error (''error sending request: '' @ e)), w1)
              | (Inr resp, w1) \<Rightarrow>
                 if StatusCode resp = 404 then (Inl (Error ''thread not found''), w1)
                 else if StatusCode resp \<noteq> 200 then (Inl (threads_api_error resp), w1)
                 else
                   (case decode_Thread E (Body resp) of
                      Inl e \<Rightarrow> (Inl (Error (''error decoding response: '' @ e)), w1)
                    | Inr thread \<Rightarrow> (Inr thread, w1))))"

text \<open>\<^verbatim>\<open>DeleteThread\<close>, lines 188-216: the result is the error, \<open>None\<close> for \<^verbatim>\<open>nil\<close>.\<close>

definition DeleteThread ::
  "env \<Rightarrow> ThreadService \<Rightarrow> string \<Rightarrow> world \<Rightarrow> error option \<times> world" where
  "DeleteThread E s threadID w =
     (if threadID = [] then (Some (Error ''thread ID cannot be empty''), w)
      else
        case NewRequest E ''DELETE'' (URL (ts_BaseURL s @ ''/threads/'' @ threadID) []) NoBody of
          Inl e \<Rightarrow> (Some (Error (''error creating request: '' @ e)), w)
        | Inr req \<Rightarrow>
           (case Do E (ts_authorize s req) w of
              (Inl e, w1) \<Rightarrow> (Some (Error (''error sending request: '' @ e)), w1)
            | (Inr resp, w1) \<Rightarrow>
               if StatusCode resp = 404 then (Some (Error ''thread not found''), w1)
               else if StatusCode resp \<noteq> 200 \<and> StatusCode resp \<noteq> 204
                 then (Some (threads_api_error resp), w1)
               else (None, w1)))"

text \<open>\<^verbatim>\<open>ListThreads\<close>, lines 219-245. The URL is formatted whole, query included.\<close>

definition ListThreads ::
  "env \<Rightarrow> ThreadService \<Rightarrow> int \<Rightarrow> int \<Rightarrow> world \<Rightarrow> (error + Thread list) \<times> world" where
  "ListThreads E s page limit w =
     (case NewRequest E ''GET''
             (URL (ts_BaseURL s @ ''/threads?page='' @ itoa page @ ''&limit='' @ itoa limit) [])
             NoBody of
        Inl e \<Rightarrow> (Inl (Error (''error creating request: '' @ e)), w)
      | Inr req \<Rightarrow>
         (case Do E (ts_authorize s req) w of
            (Inl e, w1) \<Rightarrow> (Inl (Error (''error sending request: '' @ e)), w1)
          | (Inr resp, w1) \<Rightarrow>
             if StatusCode resp \<noteq> 200 then (Inl (threads_api_error resp), w1)
             else
               (case decode_Threads E (Body resp) of
                  Inl e \<Rightarrow> (Inl (Error (''error decoding response: '' @ e)), w1)
                | Inr threads \<Rightarrow> (Inr threads, w1))))"

text \<open>\<^verbatim>\<open>CreateReply\<close>, lines 248-305.\<close>

definition CreateReply ::
  "env \<Rightarrow> ThreadService \<Rightarrow> string \<Rightarrow> string \<Rightarrow> string \<Rightarrow> string \<Rightarrow> world \<Rightarrow>
   (error + Reply) \<times> world" where
  "CreateReply E s threadID content authorID parentID w =
     (if threadID = [] then (Inl (Error ''thread ID cannot be empty''), w)
      else if content = [] then (Inl (Error ''content cannot be empty''), w)
      else
        let payload = [(''author_id'', JString authorID), (''content'', JString content)] @
                      (if parentID \<noteq> [] then [(''parent_id'', JString parentID)] else []) @
                      [(''thread_id'', JString threadID)] in
        case NewRequest E ''POST'' (URL (ts_BaseURL s @ ''/threads/'' @ threadID @ ''/replies'') [])
               (JsonBody (JObject payload)) of
          Inl e \<Rightarrow> (Inl (Error (''error creating request: '' @ e)), w)
        | Inr req \<Rightarrow>
           (case Do E (ts_authorize s (Header_Set ''Content-Type'' ''application/json'' req)) w of
              (Inl e, w1) \<Rightarrow> (Inl (Error (''error sending request: '' @ e)), w1)
            | (Inr resp, w1) \<Rightarrow>
               if StatusCode resp = 404 then (Inl (Error ''thread not found''), w1)
               else if StatusCode resp \<noteq> 201 then (Inl (threads_api_error resp), w1)
               else
                 (case decode_Reply E (Body resp) of
                    Inl e \<Rightarrow> (Inl (Error (''error decoding response: '' @ e)), w1)
                  | Inr reply \<Rightarrow> (Inr reply, w1))))"

text \<open>\<^verbatim>\<open>GetReplies\<close>, lines 308-342.\<close>

definition GetReplies ::
  "env \<Rightarrow> ThreadService \<Rightarrow> string \<Rightarrow> int \<Rightarrow> int \<Rightarrow> world \<Rightarrow> (error + Reply list) \<times> world" where
  "GetReplies E s threadID page limit w =
     (if threadID = [] then (Inl (Error ''thread ID cannot be empty''), w)
      else
        case NewRequest E ''GET''
               (URL (ts_BaseURL s @ ''/threads/'' @ threadID @ ''/replies?page='' @ itoa page @
                     ''&limit='' @ itoa limit) [])
               NoBody of
          Inl e \<Rightarrow> (Inl (Error (''error creating request: '' @ e)), w)
        | Inr req \<Rightarrow>
           (case Do E (ts_authorize s req) w of
              (Inl e, w1) \<Rightarrow> (Inl (Error (''error sending request: '' @ e)), w1)
            | (Inr resp, w1) \<Rightarrow>
               if StatusCode resp = 404 then (Inl (Error ''thread not found''), w1)
               else if StatusCode resp \<noteq> 200 then (Inl (threads_api_error resp), w1)
               else
                 (case decode_Replies E (Body resp) of
                    Inl e \<Rightarrow> (Inl (Error (''error decoding response: '' @ e)), w1)
                  | Inr replies \<Rightarrow> (Inr replies, w1))))"

text \<open>\<^verbatim>\<open>UpdateReply\<close>, lines 345-391.\<close>

definition UpdateReply ::
  "env \<Rightarrow> ThreadService \<Rightarrow> string \<Rightarrow> string \<Rightarrow> world \<Rightarrow> (error + Reply) \<times> world" where
  "UpdateReply E s replyID content w =
     (if replyID = [] then (Inl (Error ''reply ID cannot be empty''), w)
      else if content = [] then (Inl (Error ''content cannot be empty''), w)
      else
        case NewRequest E ''PUT'' (URL (ts_BaseURL s @ ''/replies/'' @ replyID) [])
               (JsonBody (JObject [(''content'', JString content)])) of
          Inl e \<Rightarrow> (Inl (Error (''error creating request: '' @ e)), w)
        | Inr req \<Rightarrow>
           (case Do E (ts_authorize s (Header_Set ''Content-Type'' ''application/json'' req)) w of
              (Inl e, w1) \<Rightarrow> (Inl (Error (''error sending request: '' @ e)), w1)
            | (Inr resp, w1) \<Rightarrow>
               if StatusCode resp = 404 then (Inl (Error ''reply not found''), w1)
               else if StatusCode resp \<noteq> 200 then (Inl (threads_api_error resp), w1)
               else
                 (case decode_Reply E (Body resp) of
                    Inl e \<Rightarrow> (Inl (Error (''error decoding response: '' @ e)), w1)
                  | Inr reply \<Rightarrow> (Inr reply, w1))))"

text \<open>\<^verbatim>\<open>DeleteReply\<close>, lines 394-422.\<close>

definition DeleteReply ::
  "env \<Rightarrow> ThreadService \<Rightarrow> string \<Rightarrow> world \<Rightarrow> error option \<times> world" where
  "DeleteReply E s replyID w =
     (if replyID = [] then (Some (Error ''reply ID cannot be empty''), w)
      else
        case NewRequest E ''DELETE'' (URL (ts_BaseURL s @ ''/replies/'' @ replyID) []) NoBody of
          Inl e \<Rightarrow> (Some (Error (''error creating request: '' @ e)), w)
        | Inr req \<Rightarrow>
           (case Do E (ts_authorize s req) w of
              (Inl e, w1) \<Rightarrow> (Some (Error (''error sending request: '' @ e)), w1)
            | (Inr resp, w1) \<Rightarrow>
               if StatusCode resp = 404 then (Some (Error ''reply not found''), w1)
               else if StatusCode resp \<noteq> 200 \<and> StatusCode resp \<noteq> 204
                 then (Some (threads_api_error resp), w1)
               else (None, w1)))"

text \<open>\<^verbatim>\<open>SearchThreads\<close>, lines 425-455. The query goes into the URL as it is.\<close>

definition SearchThreads ::
  "env \<Rightarrow> ThreadService \<Rightarrow> string \<Rightarrow> int \<Rightarrow> int \<Rightarrow> world \<Rightarrow> (error + Thread list) \<times> world" where
  "SearchThreads E s query page limit w =
     (if query = [] then (Inl (Error ''search query cannot be empty''), w)
      else
        case NewRequest E ''GET''
               (URL (ts_BaseURL s @ ''/threads/search?q='' @ query @ ''&page='' @ itoa page @
                     ''&limit='' @ itoa limit) [])
               NoBody of
          Inl e \<Rightarrow> (Inl (Error (''error creating request: '' @ e)), w)
        | Inr req \<Rightarrow>
           (case Do E (ts_authorize s req) w of
              (Inl e, w1) \<Rightarrow> (Inl (Error (''error sending request: '' @ e)), w1)
            | (Inr resp, w1) \<Rightarrow>
               if StatusCode resp \<noteq> 200 then (Inl (threads_api_error resp), w1)
               else
                 (case decode_Threads E (Body resp) of
                    Inl e \<Rightarrow> (Inl (Error (''error decoding response: '' @ e)), w1)
                  | Inr threads \<Rightarrow> (Inr threads, w1))))"

subsection \<open>twitter.go\<close>

record TwitterClient =
  tw_BearerToken :: string
  tw_APIKey :: string
  tw_APISecret :: string
  tw_AccessToken :: string
  tw_TokenSecret :: string
  tw_BaseURL :: string

definition NewTwitterClient ::
  "string \<Rightarrow> string \<Rightarrow> string \<Rightarrow> string \<Rightarrow> string \<Rightarrow> TwitterClient" where
  "NewTwitterClient apiKey apiSecret accessToken tokenSecret bearerToken =
     \<lparr>tw_BearerToken = bearerToken, tw_APIKey = apiKey, tw_APISecret = apiSecret,
      tw_AccessToken = accessToken, tw_TokenSecret = tokenSecret,
      tw_BaseURL = ''https://api.twitter.com/2''\<rparr>"

text \<open>\<^verbatim>\<open>fmt.Errorf("API error: %d - %s", resp.StatusCode, string(body))\<close>.\<close>

definition twitter_api_error :: "response \<Rightarrow> error" where
  "twitter_api_error resp =
     Error (''API error: '' @ itoa (StatusCode resp) @ '' - '' @ Body resp)"

text \<open>\<^verbatim>\<open>CreateTweet\<close>, lines 62-99. The payload holds one string, so \<^verbatim>\<open>json.Marshal\<close> cannot
  fail.\<close>

definition CreateTweet ::
  "env \<Rightarrow> TwitterClient \<Rightarrow> string \<Rightarrow> world \<Rightarrow> (error + Tweet) \<times> world" where
  "CreateTweet E c text w =
     (case NewRequest E ''POST'' (URL (tw_BaseURL c @ ''/tweets'') [])
             (JsonBody (JObject [(''text'', JString text)])) of
        Inl e \<Rightarrow> (Inl (Error (''error creating request: '' @ e)), w)
      | Inr req \<Rightarrow>
         (case Do E (Header_Set ''Content-Type'' ''application/json''
                      (Header_Set ''Authorization'' (''Bearer '' @ tw_BearerToken c) req)) w of
            (Inl e, w1) \<Rightarrow> (Inl (Error (''error sending request: '' @ e)), w1)
          | (Inr resp, w1) \<Rightarrow>
             if StatusCode resp \<noteq> 201 \<and> StatusCode resp \<noteq> 200
               then (Inl (twitter_api_error resp), w1)
             else
               (case decode_TweetResponse E (Body resp) of
                  Inl e \<Rightarrow> (Inl (Error (''error decoding response: '' @ e)), w1)
                | Inr tweetResp \<Rightarrow> (Inr (Data tweetResp), w1))))"

text \<open>\<^verbatim>\<open>ReplyToTweet\<close>, lines 102-142.\<close>

definition ReplyToTweet ::
  "env \<Rightarrow> TwitterClient \<Rightarrow> string \<Rightarrow> string \<Rightarrow> world \<Rightarrow> (error + Tweet) \<times> world" where
  "ReplyToTweet E c inReplyToTweetID text w =
     (case NewRequest E ''POST'' (URL (tw_BaseURL c @ ''/tweets'') [])
             (JsonBody (JObject
                [(''reply'', JObject [(''in_reply_to_tweet_id'', JString inReplyToTweetID)]),
                 (''text'', JString text)])) of
        Inl e \<Rightarrow> (Inl (Error (''error creating request: '' @ e)), w)
      | Inr req \<Rightarrow>
         (case Do E (Header_Set ''Content-Type'' ''application/json''
                      (Header_Set ''Authorization'' (''Bearer '' @ tw_BearerToken c) req)) w of
            (Inl e, w1) \<Rightarrow> (Inl (Error (''error sending request: '' @ e)), w1)
          | (Inr resp, w1) \<Rightarrow>
             if StatusCode resp \<noteq> 201 \<and> StatusCode resp \<noteq> 200
               then (Inl (twitter_api_error resp), w1)
             else
               (case decode_TweetResponse E (Body resp) of
                  Inl e \<Rightarrow> (Inl (Error (''error decoding response: '' @ e)), w1)
                | Inr tweetResp \<Rightarrow> (Inr (Data tweetResp), w1))))"

text \<open>\<^verbatim>\<open>GetTweet\<close>, lines 145-172.\<close>

definition GetTweet ::
  "env \<Rightarrow> TwitterClient \<Rightarrow> string \<Rightarrow> world \<Rightarrow> (error + Tweet) \<times> world" where
  "GetTweet E c tweetID w =
     (case NewRequest E ''GET'' (URL (tw_BaseURL c @ ''/tweets/'' @ tweetID) []) NoBody of
        Inl e \<Rightarrow> (Inl (Error (''error creating request: '' @ e)), w)
      | Inr req \<Rightarrow>
         (case Do E (Header_Set ''Authorization'' (''Bearer '' @ tw_BearerToken c) req) w of
            (Inl e, w1) \<Rightarrow> (Inl (Error (''error sending request: '' @ e)), w1)
          | (Inr resp, w1) \<Rightarrow>
             if StatusCode resp \<noteq> 200 then (Inl (twitter_api_error resp), w1)
             else
               (case decode_TweetResponse E (Body resp) of
                  Inl e \<Rightarrow> (Inl (Error (''error decoding response: '' @ e)), w1)
                | Inr tweetResp \<Rightarrow> (Inr (Data tweetResp), w1))))"

text \<open>\<^verbatim>\<open>DeleteTweet\<close>, lines 175-197.\<close>

definition DeleteTweet ::
  "env \<Rightarrow> TwitterClient \<Rightarrow> string \<Rightarrow> world \<Rightarrow> error option \<times> world" where
  "DeleteTweet E c tweetID w =
     (case NewRequest E ''DELETE'' (URL (tw_BaseURL c @ ''/tweets/'' @ tweetID) []) NoBody of
        Inl e \<Rightarrow> (Some (Error (''error creating request: '' @ e)), w)
      | Inr req \<Rightarrow>
         (case Do E (Header_Set ''Authorization'' (''Bearer '' @ tw_BearerToken c) req) w of
            (Inl e, w1) \<Rightarrow> (Some (Error (''error sending request: '' @ e)), w1)
          | (Inr resp, w1) \<Rightarrow>
             if StatusCode resp \<noteq> 200 then (Some (twitter_api_error resp), w1)
             else (None, w1)))"

text \<open>\<^verbatim>\<open>SearchRecentTweets\<close>, lines 200-233. \<open>decode_TweetsResponse\<close> gives the \<^verbatim>\<open>Data\<close> of the
  \<^verbatim>\<open>TweetsResponse\<close> decoded.\<close>

definition SearchRecentTweets ::
  "env \<Rightarrow> TwitterClient \<Rightarrow> string \<Rightarrow> int \<Rightarrow> world \<Rightarrow> (error + Tweet list) \<times> world" where
  "SearchRecentTweets E c query maxResults w =
     (let params = [(''query'', query)] @
                   (if maxResults > 0 then [(''max_results'', itoa maxResults)] else []) in
      case NewRequest E ''GET'' (URL (tw_BaseURL c @ ''/tweets/search/recent'') params) NoBody of
        Inl e \<Rightarrow> (Inl (Error (''error creating request: '' @ e)), w)
      | Inr req \<Rightarrow>
         (case Do E (Header_Set ''Authorization'' (''Bearer '' @ tw_BearerToken c) req) w of
            (Inl e, w1) \<Rightarrow> (Inl (Error (''error sending request: '' @ e)), w1)
          | (Inr resp, w1) \<Rightarrow>
             if StatusCode resp \<noteq> 200 then (Inl (twitter_api_error resp), w1)
             else
               (case decode_TweetsResponse E (Body resp) of
                  Inl e \<Rightarrow> (Inl (Error (''error decoding response: '' @ e)), w1)
                | Inr tweets \<Rightarrow> (Inr tweets, w1))))"

text \<open>\<^verbatim>\<open>AutomatedTweeter\<close>, lines 236-285. The stop channel is not a field of the model: the
  loop of \<^verbatim>\<open>Start\<close> is driven by the list of the cases its \<^verbatim>\<open>select\<close> takes, one after the
  other. \<^verbatim>\<open>PostInterval\<close> is a \<^verbatim>\<open>time.Duration\<close>, a number of nanoseconds.\<close>

record AutomatedTweeter =
  at_Client :: TwitterClient
  at_PostInterval :: int
  at_Content :: "string list"
  at_CurrentIndex :: int

definition NewAutomatedTweeter :: "TwitterClient \<Rightarrow> int \<Rightarrow> string list \<Rightarrow> AutomatedTweeter" where
  "NewAutomatedTweeter client interval content =
     \<lparr>at_Client = client, at_PostInterval = interval, at_Content = content,
      at_CurrentIndex = 0\<rparr>"

text \<open>\<^verbatim>\<open>fmt.Printf\<close>: the text written to standard output.\<close>

definition Printf :: "string \<Rightarrow> world \<Rightarrow> world" where
  "Printf s w = w\<lparr>printed := printed w @ [s]\<rparr>"

text \<open>The body of \<^verbatim>\<open>case <-ticker.C\<close>, lines 263-275, with the receiver \<^verbatim>\<open>at\<close> written
  \<open>atw\<close>. Indexing a slice outside \<open>0 \<le> i < len\<close> panics.\<close>

definition tick :: "env \<Rightarrow> AutomatedTweeter \<Rightarrow> world \<Rightarrow> (error + AutomatedTweeter) \<times> world" where
  "tick E atw w =
     (let atw1 = (if at_CurrentIndex atw \<ge> int (length (at_Content atw))
                 then atw\<lparr>at_CurrentIndex := 0\<rparr> else atw) in
      if at_CurrentIndex atw1 < 0 \<or> at_CurrentIndex atw1 \<ge> int (length (at_Content atw1))
        then (Inl (Panic ''index out of range''), w)
      else
        let content = at_Content atw1 ! nat (at_CurrentIndex atw1) in
        case CreateTweet E (at_Client atw1) content w of
          (Inl (Panic p), w1) \<Rightarrow> (Inl (Panic p), w1)
        | (Inl (Error e), w1) \<Rightarrow>
            (Inr (atw1\<lparr>at_CurrentIndex := at_CurrentIndex atw1 + 1\<rparr>),
             Printf (''Error posting automated tweet: '' @ e @ [CHR 0x0A]) w1)
        | (Inr tweet, w1) \<Rightarrow>
            (Inr (atw1\<lparr>at_CurrentIndex := at_CurrentIndex atw1 + 1\<rparr>),
             Printf (''Posted automated tweet: '' @ content @ [CHR 0x0A]) w1))"

datatype select_case = TickerC | StopChan

text \<open>The loop of \<^verbatim>\<open>Start\<close>, lines 260-280: \<^verbatim>\<open>for { select { ... } }\<close>. With no case left to
  take the loop is blocked in \<^verbatim>\<open>select\<close> and the state is the one reached.\<close>

fun Start_loop ::
  "env \<Rightarrow> AutomatedTweeter \<Rightarrow> select_case list \<Rightarrow> world \<Rightarrow> (error + AutomatedTweeter) \<times> world"
  where
  "Start_loop E atw [] w = (Inr atw, w)"
| "Start_loop E atw (StopChan # cs) w = (Inr atw, w)"
| "Start_loop E atw (TickerC # cs) w =
     (case tick E atw w of
        (Inl e, w1) \<Rightarrow> (Inl e, w1)
      | (Inr atw1, w1) \<Rightarrow> Start_loop E atw1 cs w1)"

text \<open>\<^verbatim>\<open>Start\<close>, lines 256-281. Its first statement is \<^verbatim>\<open>time.NewTicker(at.PostInterval)\<close>, which
  panics unless the interval is positive; the deferred \<^verbatim>\<open>ticker.Stop()\<close> changes nothing
  that the model holds.\<close>

definition Start ::
  "env \<Rightarrow> AutomatedTweeter \<Rightarrow> select_case list \<Rightarrow> world \<Rightarrow> (error + AutomatedTweeter) \<times> world"
  where
  "Start E atw cs w =
     (if at_PostInterval atw \<le> 0 then (Inl (Panic ''non-positive interval for NewTicker''), w)
      else Start_loop E atw cs w)"

subsection \<open>instagram.go: publishing\<close>

text \<open>\<^verbatim>\<open>strings.ToLower\<close> on the ASCII letters, \<^verbatim>\<open>strings.HasSuffix\<close> and \<^verbatim>\<open>strings.Join\<close>. Outside
  ASCII \<^verbatim>\<open>ToLower\<close> maps runes to runes, none of them to one of the four characters of
  \<^verbatim>\<open>.mp4\<close>, which is all the suffix test below looks at.\<close>

definition lower_char :: "char \<Rightarrow> char" where
  "lower_char c =
     (let n = (of_char c :: nat) in if 65 \<le> n \<and> n \<le> 90 then char_of (n + 32) else c)"

definition ToLower :: "string \<Rightarrow> string" where
  "ToLower s = map lower_char s"

definition HasSuffix :: "string \<Rightarrow> string \<Rightarrow> bool" where
  "HasSuffix s sfx = (length sfx \<le> length s \<and> drop (length s - length sfx) s = sfx)"

fun Join :: "string list \<Rightarrow> string \<Rightarrow> string" where
  "Join [] sep = []"
| "Join [x] sep = x"
| "Join (x # y # ys) sep = x @ sep @ Join (y # ys) sep"

text \<open>Every container and publish call of the file has one shape: a \<^verbatim>\<open>POST\<close> with no body and
  no header to a URL that carries the parameters, a check for status 200 with
  \<^verbatim>\<open>fmt.Errorf("<what>: %s, status: %d", string(bodyBytes), resp.StatusCode)\<close>, and the
  decoding of a \<^verbatim>\<open>MediaResponse\<close> (lines 216-235, 244-263, 294-313, 330-349, 419-444,
  466-489, 498-517).\<close>

definition ig_status_error :: "string \<Rightarrow> response \<Rightarrow> error" where
  "ig_status_error what resp =
     Error (what @ '': '' @ Body resp @ '', status: '' @ itoa (StatusCode resp))"

definition ig_post :: "env \<Rightarrow> url \<Rightarrow> string \<Rightarrow> world \<Rightarrow> (error + MediaResponse) \<times> world" where
  "ig_post E u what w =
     (case NewRequest E ''POST'' u NoBody of
        Inl e \<Rightarrow> (Inl (Error e), w)
      | Inr req \<Rightarrow>
         (case Do E req w of
            (Inl e, w1) \<Rightarrow> (Inl (Error e), w1)
          | (Inr resp, w1) \<Rightarrow>
             if StatusCode resp \<noteq> 200 then (Inl (ig_status_error what resp), w1)
             else
               (case decode_MediaResponse E (Body resp) of
                  Inl e \<Rightarrow> (Inl (Error e), w1)
                | Inr mediaResp \<Rightarrow> (Inr mediaResp, w1))))"

definition media_url :: "InstagramClient \<Rightarrow> url_values \<Rightarrow> url" where
  "media_url c params = URL (BaseURL @ ''/'' @ ig_UserID c @ ''/media'') params"

definition publish_url :: "InstagramClient \<Rightarrow> string \<Rightarrow> url" where
  "publish_url c creation_id =
     URL (BaseURL @ ''/'' @ ig_UserID c @ ''/media_publish'')
       [(''creation_id'', creation_id), (''access_token'', ig_AccessToken c)]"

text \<open>\<^verbatim>\<open>PostImage\<close>, lines 203-266.\<close>

definition PostImage ::
  "env \<Rightarrow> InstagramClient \<Rightarrow> string \<Rightarrow> string \<Rightarrow> world \<Rightarrow> (error + MediaResponse) \<times> world" where
  "PostImage E c imagePath caption w =
     (if ig_AccessToken c = [] \<or> ig_UserID c = []
        then (Inl (Error ''access token and user ID are required''), w)
      else
        case ig_post E (media_url c [(''image_url'', imagePath), (''caption'', caption),
                                     (''access_token'', ig_AccessToken c)])
               ''failed to create media container'' w of
          (Inl e, w1) \<Rightarrow> (Inl e, w1)
        | (Inr mediaResp, w1) \<Rightarrow>
            ig_post E (publish_url c (ID mediaResp)) ''failed to publish media'' w1)"

text \<open>\<^verbatim>\<open>PostReel\<close>, lines 269-352.\<close>

definition PostReel ::
  "env \<Rightarrow> InstagramClient \<Rightarrow> string \<Rightarrow> string \<Rightarrow> string \<Rightarrow> bool \<Rightarrow> world \<Rightarrow>
   (error + MediaResponse) \<times> world" where
  "PostReel E c videoPath caption coverImagePath shareToFeed w =
     (if ig_AccessToken c = [] \<or> ig_UserID c = []
        then (Inl (Error ''access token and user ID are required''), w)
      else
        let params = [(''media_type'', ''REELS''), (''video_url'', videoPath), (''caption'', caption),
                      (''access_token'', ig_AccessToken c)] @
                     (if coverImagePath \<noteq> [] then [(''thumb_url'', coverImagePath)] else []) @
                     (if shareToFeed then [(''share_to_feed'', ''true'')] else []) in
        case ig_post E (media_url c params) ''failed to create reel container'' w of
          (Inl e, w1) \<Rightarrow> (Inl e, w1)
        | (Inr mediaResp, w1) \<Rightarrow>
           (case (if StatusURL mediaResp \<noteq> []
                  then waitForMediaProcessing E (StatusURL mediaResp) w1 else (None, w1)) of
              (Some e, w2) \<Rightarrow> (Inl e, w2)
            | (None, w2) \<Rightarrow>
                ig_post E (publish_url c (ID mediaResp)) ''failed to publish reel'' w2))"

text \<open>\<^verbatim>\<open>PostCarousel\<close>, lines 394-520. \<open>carousel_item_params\<close> is lines 403-415, the parameters of
  the container of one media path; \<open>carouselChildren\<close> is the loop of lines 402-455 over the
  paths left, with the IDs collected so far.\<close>

definition carousel_item_params :: "InstagramClient \<Rightarrow> string \<Rightarrow> url_values" where
  "carousel_item_params c mediaPath =
     (let (mediaType, paramName) =
            (if HasSuffix (ToLower mediaPath) ''.mp4'' then (''VIDEO'', ''video_url'')
             else (''IMAGE'', ''image_url''))
      in [(''media_type'', mediaType), (paramName, mediaPath), (''is_carousel_item'', ''true''),
          (''access_token'', ig_AccessToken c)])"

fun carouselChildren ::
  "env \<Rightarrow> InstagramClient \<Rightarrow> string list \<Rightarrow> string list \<Rightarrow> world \<Rightarrow>
   (error + string list) \<times> world" where
  "carouselChildren E c [] childrenIDs w = (Inr childrenIDs, w)"
| "carouselChildren E c (mediaPath # rest) childrenIDs w =
     (case ig_post E (media_url c (carousel_item_params c mediaPath))
             ''failed to create media container'' w of
        (Inl e, w1) \<Rightarrow> (Inl e, w1)
      | (Inr mediaResp, w1) \<Rightarrow>
         (case (if StatusURL mediaResp \<noteq> []
                then waitForMediaProcessing E (StatusURL mediaResp) w1 else (None, w1)) of
            (Some e, w2) \<Rightarrow> (Inl e, w2)
          | (None, w2) \<Rightarrow> carouselChildren E c rest (childrenIDs @ [ID mediaResp]) w2))"

definition carousel_params :: "InstagramClient \<Rightarrow> string \<Rightarrow> string list \<Rightarrow> url_values" where
  "carousel_params c caption childrenIDs =
     [(''media_type'', ''CAROUSEL''), (''caption'', caption), (''access_token'', ig_AccessToken c),
      (''children'', Join childrenIDs '','')]"

definition PostCarousel ::
  "env \<Rightarrow> InstagramClient \<Rightarrow> string list \<Rightarrow> string \<Rightarrow> world \<Rightarrow>
   (error + MediaResponse) \<times> world" where
  "PostCarousel E c mediaPaths caption w =
     (if ig_AccessToken c = [] \<or> ig_UserID c = []
        then (Inl (Error ''access token and user ID are required''), w)
      else
        case carouselChildren E c mediaPaths [] w of
          (Inl e, w1) \<Rightarrow> (Inl e, w1)
        | (Inr childrenIDs, w1) \<Rightarrow>
           (case ig_post E (media_url c (carousel_params c caption childrenIDs))
                   ''failed to create carousel container'' w1 of
              (Inl e, w2) \<Rightarrow> (Inl e, w2)
            | (Inr carouselResp, w2) \<Rightarrow>
                ig_post E (publish_url c (ID carouselResp)) ''failed to publish carousel'' w2))"

subsection \<open>linkedin.go\<close>

text \<open>The file holds two copies of the client; the functions below are the first copy
  (lines 1-878). In the second copy (lines 879-1763) \<^verbatim>\<open>InitiateImageUpload\<close> and
  \<^verbatim>\<open>UploadImage\<close> are the same text, and \<^verbatim>\<open>CreateVideoPost\<close> takes its arguments from a JSON
  document and then runs the same request, status check and return.\<close>

record LinkedInClient =
  li_ClientID :: string
  li_ClientSecret :: string
  li_RedirectURI :: string
  li_AccessToken :: string
  li_UserID :: string

record UserProfile =
  up_ID :: string
  up_FirstName :: string
  up_LastName :: string
  up_ProfilePicture :: string
  up_Email :: string
  up_Headline :: string
  up_Industry :: string
  up_Country :: string
  up_CurrentPosition :: string

record PostResponse =
  pr_ID :: string
  pr_Status :: string

definition UGCPostURL :: string where
  "UGCPostURL = ''https://api.linkedin.com/v2/ugcPosts''"

definition AssetUploadURL :: string where
  "AssetUploadURL = ''https://api.linkedin.com/v2/assets''"

definition li_status_error :: "string \<Rightarrow> response \<Rightarrow> error" where
  "li_status_error what resp =
     Error (what @ '': '' @ Body resp @ '', status: '' @ itoa (StatusCode resp))"

definition li_authorize :: "LinkedInClient \<Rightarrow> request \<Rightarrow> request" where
  "li_authorize c rq = Header_Set ''Authorization'' (''Bearer '' @ li_AccessToken c) rq"

text \<open>Lines 222-229 (and the same for \<^verbatim>\<open>lastName\<close> and \<^verbatim>\<open>headline\<close>): the first value a
  \<^verbatim>\<open>range\<close> over \<^verbatim>\<open>raw[key]["localized"]\<close> visits, asserted to be a string; the empty string
  when there is nothing to visit.\<close>

definition first_localized :: "(string \<times> json) list \<Rightarrow> string \<Rightarrow> error + string" where
  "first_localized rawProfile key =
     (case map_of rawProfile key of
        Some (JObject field) \<Rightarrow>
          (case map_of field ''localized'' of
             Some (JObject ((k, v) # rest)) \<Rightarrow>
               (case v of
                  JString s \<Rightarrow> Inr s
                | _ \<Rightarrow> Inl (Panic ''interface conversion: interface {} is not string''))
           | _ \<Rightarrow> Inr [])
      | _ \<Rightarrow> Inr [])"

text \<open>\<^verbatim>\<open>GetUserProfile\<close>, lines 176-250. It stores the ID in the client, so the client is
  returned. The URL is built on \<^verbatim>\<open>BaseURL\<close>, the constant of instagram.go.\<close>

definition GetUserProfile ::
  "env \<Rightarrow> LinkedInClient \<Rightarrow> world \<Rightarrow> (error + UserProfile) \<times> LinkedInClient \<times> world" where
  "GetUserProfile E c w =
     (if li_AccessToken c = [] then (Inl (Error ''access token is required''), c, w)
      else
        case NewRequest E ''GET''
               (URL (BaseURL @ ''/me'')
                  [(''projection'',
                    ''(id,firstName,lastName,profilePicture,headline,email,industry)'')])
               NoBody of
          Inl e \<Rightarrow> (Inl (Error e), c, w)
        | Inr req \<Rightarrow>
           (case Do E (li_authorize c req) w of
              (Inl e, w1) \<Rightarrow> (Inl (Error e), c, w1)
            | (Inr resp, w1) \<Rightarrow>
               if StatusCode resp \<noteq> 200
                 then (Inl (li_status_error ''failed to get profile'' resp), c, w1)
               else
                 (case decode_map E (Body resp) of
                    Inl e \<Rightarrow> (Inl (Error e), c, w1)
                  | Inr rawProfile \<Rightarrow>
                     (case map_of rawProfile ''id'' of
                        Some (JString pid) \<Rightarrow>
                          (let c1 = c\<lparr>li_UserID := pid\<rparr> in
                           case first_localized rawProfile ''firstName'' of
                             Inl p \<Rightarrow> (Inl p, c1, w1)
                           | Inr firstName \<Rightarrow>
                              (case first_localized rawProfile ''lastName'' of
                                 Inl p \<Rightarrow> (Inl p, c1, w1)
                               | Inr lastName \<Rightarrow>
                                  (case first_localized rawProfile ''headline'' of
                                     Inl p \<Rightarrow> (Inl p, c1, w1)
                                   | Inr headline \<Rightarrow>
                                      (Inr \<lparr>up_ID = pid, up_FirstName = firstName,
                                            up_LastName = lastName, up_ProfilePicture = [],
                                            up_Email = [], up_Headline = headline,
                                            up_Industry = [], up_Country = [],
                                            up_CurrentPosition = []\<rparr>, c1, w1))))
                      | _ \<Rightarrow>
                          (Inl (Panic ''interface conversion: interface {} is not string''),
                           c, w1)))))"

text \<open>\<^verbatim>\<open>uploadMechanism[...MediaUploadHttpRequest].(map[string]interface{})["uploadUrl"].(string)\<close>
  (lines 489 and 516): the first assertion has one result and panics on anything but an
  object; the second has two, and \<open>None\<close> is its \<^verbatim>\<open>ok == false\<close>.\<close>

definition upload_url_of :: "(string \<times> json) list \<Rightarrow> error + string option" where
  "upload_url_of uploadMechanism =
     (case map_of uploadMechanism ''com.linkedin.digitalmedia.uploading.MediaUploadHttpRequest'' of
        Some (JObject m) \<Rightarrow>
          (case map_of m ''uploadUrl'' of
             Some (JString u) \<Rightarrow> Inr (Some u)
           | _ \<Rightarrow> Inr None)
      | _ \<Rightarrow> Inl (Panic ''interface conversion: interface {} is not map[string]interface {}''))"

definition register_upload_request :: "LinkedInClient \<Rightarrow> string \<Rightarrow> json" where
  "register_upload_request c recipe =
     JObject [(''registerUploadRequest'', JObject
       [(''owner'', JString (''urn:li:person:'' @ li_UserID c)),
        (''recipes'', JArray [JString recipe]),
        (''serviceRelationships'', JArray [JObject
           [(''identifier'', JString ''urn:li:userGeneratedContent''),
            (''relationshipType'', JString ''OWNER'')]])])]"

text \<open>\<^verbatim>\<open>InitiateImageUpload\<close>, lines 424-501. \<^verbatim>\<open>imageType\<close> is not used by the code.\<close>

definition InitiateImageUpload ::
  "env \<Rightarrow> LinkedInClient \<Rightarrow> string \<Rightarrow> world \<Rightarrow>
   (error + string \<times> (string \<times> json) list) \<times> world" where
  "InitiateImageUpload E c imageType w =
     (if li_AccessToken c = [] then (Inl (Error ''access token is required''), w)
      else
        case NewRequest E ''POST'' (URL AssetUploadURL [])
               (JsonBody (register_upload_request c ''urn:li:digitalmediaRecipe:feedshare-image'')) of
          Inl e \<Rightarrow> (Inl (Error e), w)
        | Inr req \<Rightarrow>
           (case Do E (Header_Set ''Content-Type'' ''application/json'' (li_authorize c req)) w of
              (Inl e, w1) \<Rightarrow> (Inl (Error e), w1)
            | (Inr resp, w1) \<Rightarrow>
               if StatusCode resp \<noteq> 200
                 then (Inl (li_status_error ''failed to initiate image upload'' resp), w1)
               else
                 (case decode_map E (Body resp) of
                    Inl e \<Rightarrow> (Inl (Error e), w1)
                  | Inr uploadResp \<Rightarrow>
                     (case map_of uploadResp ''value'' of
                        Some (JObject val) \<Rightarrow>
                          (case map_of val ''uploadMechanism'' of
                             Some (JObject uploadMechanism) \<Rightarrow>
                               (case upload_url_of uploadMechanism of
                                  Inl p \<Rightarrow> (Inl p, w1)
                                | Inr None \<Rightarrow>
                                    (Inl (Error ''could not find upload URL''),
                                     Printf [CHR 0x0A] w1)
                                | Inr (Some uploadURL) \<Rightarrow>
                                    (case map_of val ''asset'' of
                                       Some (JString asset) \<Rightarrow>
                                         (Inr (asset, uploadMechanism),
                                          Printf (uploadURL @ [CHR 0x0A]) w1)
                                     | _ \<Rightarrow>
                                         (Inl (Error ''could not find asset URN''),
                                          Printf (uploadURL @ [CHR 0x0A]) w1)))
                           | _ \<Rightarrow> (Inl (Error ''invalid upload mechanism''), w1))
                      | _ \<Rightarrow> (Inl (Error ''invalid upload response structure''), w1)))))"

text \<open>\<^verbatim>\<open>UploadImage\<close>, lines 504-552. The \<^verbatim>\<open>PUT\<close> request gets no header.\<close>

definition UploadImage ::
  "env \<Rightarrow> LinkedInClient \<Rightarrow> string \<Rightarrow> world \<Rightarrow> (error + string) \<times> world" where
  "UploadImage E c imagePath w =
     (if li_AccessToken c = [] then (Inl (Error ''access token is required''), w)
      else
        case InitiateImageUpload E c ''image'' w of
          (Inl e, w1) \<Rightarrow> (Inl e, w1)
        | (Inr (assetURN, uploadMechanism), w1) \<Rightarrow>
           (case upload_url_of uploadMechanism of
              Inl p \<Rightarrow> (Inl p, w1)
            | Inr None \<Rightarrow> (Inl (Error ''could not find upload URL''), w1)
            | Inr (Some uploadURL) \<Rightarrow>
               (case read_file E imagePath of
                  Inl e \<Rightarrow> (Inl (Error e), w1)
                | Inr fileContents \<Rightarrow>
                   (case NewRequest E ''PUT'' (URL uploadURL []) (RawBody fileContents) of
                      Inl e \<Rightarrow> (Inl (Error e), w1)
                    | Inr uploadReq \<Rightarrow>
                       (case Do E uploadReq w1 of
                          (Inl e, w2) \<Rightarrow> (Inl (Error e), w2)
                        | (Inr resp, w2) \<Rightarrow>
                           if StatusCode resp \<noteq> 200 \<and> StatusCode resp \<noteq> 201 \<and>
                              StatusCode resp \<noteq> 204
                             then (Inl (li_status_error ''failed to upload image'' resp), w2)
                           else (Inr assetURN, w2))))))"

text \<open>Lines 565-579 and 804-818: the author of a post. With no author ID given for a person
  and none stored in the client, the profile is fetched.\<close>

definition resolve_author ::
  "env \<Rightarrow> LinkedInClient \<Rightarrow> string \<Rightarrow> string \<Rightarrow> world \<Rightarrow>
   (error + string \<times> string) \<times> LinkedInClient \<times> world" where
  "resolve_author E c authorType0 authorID w =
     (let authorType = (if authorType0 = [] then ''person'' else authorType0) in
      if authorID = [] \<and> authorType = ''person'' then
        (if li_UserID c = [] then
           (case GetUserProfile E c w of
              (Inl (Error e), c1, w1) \<Rightarrow>
                (Inl (Error (''could not determine user ID: '' @ e)), c1, w1)
            | (Inl (Panic p), c1, w1) \<Rightarrow> (Inl (Panic p), c1, w1)
            | (Inr profile, c1, w1) \<Rightarrow> (Inr (authorType, up_ID profile), c1, w1))
         else (Inr (authorType, li_UserID c), c, w))
      else (Inr (authorType, authorID), c, w))"

text \<open>The document of lines 582-608 and 821-847.\<close>

definition ugc_post ::
  "string \<Rightarrow> string \<Rightarrow> string \<Rightarrow> string \<Rightarrow> string \<Rightarrow> string \<Rightarrow> json" where
  "ugc_post authorType authorID text category kind asset =
     JObject
       [(''author'', JString (''urn:li:'' @ authorType @ '':'' @ authorID)),
        (''lifecycleState'', JString ''PUBLISHED''),
        (''specificContent'', JObject
           [(''com.linkedin.ugc.ShareContent'', JObject
              [(''media'', JArray [JObject
                  [(''description'', JObject [(''text'', JString (kind @ '' description''))]),
                   (''media'', JString asset),
                   (''status'', JString ''READY''),
                   (''title'', JObject [(''text'', JString (kind @ '' title''))])]]),
               (''shareCommentary'', JObject [(''text'', JString text)]),
               (''shareMediaCategory'', JString category)])]),
        (''visibility'', JObject
           [(''com.linkedin.ugc.MemberNetworkVisibility'', JString ''PUBLIC'')])]"

definition ugc_request :: "LinkedInClient \<Rightarrow> request \<Rightarrow> request" where
  "ugc_request c req =
     Header_Set ''X-Restli-Protocol-Version'' ''2.0.0''
       (Header_Set ''Content-Type'' ''application/json'' (li_authorize c req))"

text \<open>\<^verbatim>\<open>CreateImagePost\<close>, lines 555-648.\<close>

definition CreateImagePost ::
  "env \<Rightarrow> LinkedInClient \<Rightarrow> string \<Rightarrow> string \<Rightarrow> string \<Rightarrow> string \<Rightarrow> world \<Rightarrow>
   (error + PostResponse) \<times> LinkedInClient \<times> world" where
  "CreateImagePost E c text imageAssetURN authorType0 authorID0 w =
     (if li_AccessToken c = [] then (Inl (Error ''access token is required''), c, w)
      else
        case resolve_author E c authorType0 authorID0 w of
          (Inl e, c1, w1) \<Rightarrow> (Inl e, c1, w1)
        | (Inr (authorType, authorID), c1, w1) \<Rightarrow>
           (case NewRequest E ''POST'' (URL UGCPostURL [])
                   (JsonBody (ugc_post authorType authorID text ''IMAGE'' ''Image''
                                imageAssetURN)) of
              Inl e \<Rightarrow> (Inl (Error e), c1, w1)
            | Inr req \<Rightarrow>
               (case Do E (ugc_request c1 req) w1 of
                  (Inl e, w2) \<Rightarrow> (Inl (Error e), c1, w2)
                | (Inr resp, w2) \<Rightarrow>
                   if StatusCode resp \<noteq> 201 \<and> StatusCode resp \<noteq> 200
                     then (Inl (li_status_error ''failed to create image post'' resp), c1, w2)
                   else
                     (case decode_map E (Body resp) of
                        Inl e \<Rightarrow> (Inl (Error e), c1, w2)
                      | Inr postResp \<Rightarrow>
                         (case map_of postResp ''id'' of
                            Some (JString postID) \<Rightarrow>
                              (Inr \<lparr>pr_ID = postID, pr_Status = []\<rparr>, c1, w2)
                          | _ \<Rightarrow>
                              (Inl (Error ''invalid post response, no ID found''), c1, w2))))))"

text \<open>\<^verbatim>\<open>PostWithImage\<close>, lines 651-660.\<close>

definition PostWithImage ::
  "env \<Rightarrow> LinkedInClient \<Rightarrow> string \<Rightarrow> string \<Rightarrow> string \<Rightarrow> string \<Rightarrow> world \<Rightarrow>
   (error + PostResponse) \<times> LinkedInClient \<times> world" where
  "PostWithImage E c text imagePath authorType authorID w =
     (case UploadImage E c imagePath w of
        (Inl (Error e), w1) \<Rightarrow> (Inl (Error (''failed to upload image: '' @ e)), c, w1)
      | (Inl (Panic p), w1) \<Rightarrow> (Inl (Panic p), c, w1)
      | (Inr assetURN, w1) \<Rightarrow> CreateImagePost E c text assetURN authorType authorID w1)"

text \<open>\<^verbatim>\<open>CreateVideoPost\<close>, lines 794-878. After the status check the code decodes
  \<^verbatim>\<open>req.Body\<close>, the request's own body, into a map it drops, ignoring the decoder's error, and
  returns \<^verbatim>\<open>nil, nil\<close>: the result is a pointer that may be \<^verbatim>\<open>nil\<close>, here \<open>None\<close>.\<close>

definition CreateVideoPost ::
  "env \<Rightarrow> LinkedInClient \<Rightarrow> string \<Rightarrow> string \<Rightarrow> string \<Rightarrow> string \<Rightarrow> world \<Rightarrow>
   (error + PostResponse option) \<times> LinkedInClient \<times> world" where
  "CreateVideoPost E c text videoAssetURN authorType0 authorID0 w =
     (if li_AccessToken c = [] then (Inl (Error ''access token is required''), c, w)
      else
        case resolve_author E c authorType0 authorID0 w of
          (Inl e, c1, w1) \<Rightarrow> (Inl e, c1, w1)
        | (Inr (authorType, authorID), c1, w1) \<Rightarrow>
           (case NewRequest E ''POST'' (URL UGCPostURL [])
                   (JsonBody (ugc_post authorType authorID text ''VIDEO'' ''Video''
                                videoAssetURN)) of
              Inl e \<Rightarrow> (Inl (Error e), c1, w1)
            | Inr req \<Rightarrow>
               (case Do E (ugc_request c1 req) w1 of
                  (Inl e, w2) \<Rightarrow> (Inl (Error e), c1, w2)
                | (Inr resp, w2) \<Rightarrow>
                   if StatusCode resp \<noteq> 201 \<and> StatusCode resp \<noteq> 200
                     then (Inl (li_status_error ''failed to create video post'' resp), c1, w2)
                   else (Inr None, c1, w2))))"

subsection \<open>The shape of the other wrappers\<close>

text \<open>
  The wrappers of the remaining clients repeat one sequence of statements:
  \<^verbatim>\<open>http.NewRequest\<close>, \<^verbatim>\<open>req.Header.Set\<close> for each header, \<^verbatim>\<open>Do\<close>, a test of
  \<^verbatim>\<open>resp.StatusCode\<close> against the codes accepted with an error built from the response
  otherwise, and the decoding of the body. They are written with the three functions below.
  \<open>status_call\<close> is the sequence up to and including the status test: its arguments are the
  prefixes put before the error of \<^verbatim>\<open>NewRequest\<close> and of \<^verbatim>\<open>Do\<close> (empty where the error is
  returned as it is), the request with its headers in the order set, the codes accepted and
  the error for another code. \<open>plain_call\<close> is the same sequence where the code has no status
  test. \<open>decoded\<close> decodes the body of the response into the Go type named, with the prefix
  put before the decoder's error; \<open>finished\<close> is the \<^verbatim>\<open>return nil\<close> of a wrapper whose only
  result is the error.
\<close>

definition plain_call ::
  "env \<Rightarrow> string \<Rightarrow> string \<Rightarrow> request \<Rightarrow> world \<Rightarrow> (error + response) \<times> world" where
  "plain_call E new_prefix do_prefix rq w =
     (case NewRequest E (Method rq) (target rq) (payload rq) of
        Inl e \<Rightarrow> (Inl (Error (new_prefix @ e)), w)
      | Inr req \<Rightarrow>
         (case Do E (req\<lparr>headers := headers rq\<rparr>) w of
            (Inl e, w1) \<Rightarrow> (Inl (Error (do_prefix @ e)), w1)
          | (Inr resp, w1) \<Rightarrow> (Inr resp, w1)))"

definition status_call ::
  "env \<Rightarrow> string \<Rightarrow> string \<Rightarrow> request \<Rightarrow> int list \<Rightarrow> (response \<Rightarrow> error) \<Rightarrow> world \<Rightarrow>
   (error + response) \<times> world" where
  "status_call E new_prefix do_prefix rq accepted failure w =
     (case plain_call E new_prefix do_prefix rq w of
        (Inl e, w1) \<Rightarrow> (Inl e, w1)
      | (Inr resp, w1) \<Rightarrow>
          if StatusCode resp \<in> set accepted then (Inr resp, w1) else (Inl (failure resp), w1))"

definition decoded ::
  "env \<Rightarrow> string \<Rightarrow> string \<Rightarrow> (error + response) \<times> world \<Rightarrow> (error + json) \<times> world" where
  "decoded E ty decode_prefix R =
     (case R of
        (Inl e, w1) \<Rightarrow> (Inl e, w1)
      | (Inr resp, w1) \<Rightarrow>
         (case decode_as E ty (Body resp) of
            Inl e \<Rightarrow> (Inl (Error (decode_prefix @ e)), w1)
          | Inr v \<Rightarrow> (Inr v, w1)))"

definition finished :: "(error + response) \<times> world \<Rightarrow> (error + unit) \<times> world" where
  "finished R = (case R of (Inl e, w1) \<Rightarrow> (Inl e, w1) | (Inr resp, w1) \<Rightarrow> (Inr (), w1))"

text \<open>The same two sequences where the query is set after the request is made
  (\<^verbatim>\<open>q := req.URL.Query()\<close>, \<^verbatim>\<open>q.Add\<close>, \<^verbatim>\<open>req.URL.RawQuery = q.Encode()\<close>): \<^verbatim>\<open>NewRequest\<close> sees
  the URL without the query.\<close>

definition RawQuery :: "url_values \<Rightarrow> request \<Rightarrow> request" where
  "RawQuery q rq = rq\<lparr>target := (case target rq of URL base old \<Rightarrow> URL base q)\<rparr>"

definition plain_query_call ::
  "env \<Rightarrow> string \<Rightarrow> string \<Rightarrow> request \<Rightarrow> url_values \<Rightarrow> world \<Rightarrow>
   (error + response) \<times> world" where
  "plain_query_call E new_prefix do_prefix rq q w =
     (case NewRequest E (Method rq) (target rq) (payload rq) of
        Inl e \<Rightarrow> (Inl (Error (new_prefix @ e)), w)
      | Inr req \<Rightarrow>
         (case Do E (RawQuery q (req\<lparr>headers := headers rq\<rparr>)) w of
            (Inl e, w1) \<Rightarrow> (Inl (Error (do_prefix @ e)), w1)
          | (Inr resp, w1) \<Rightarrow> (Inr resp, w1)))"

definition status_query_call ::
  "env \<Rightarrow> string \<Rightarrow> string \<Rightarrow> request \<Rightarrow> url_values \<Rightarrow> int list \<Rightarrow> (response \<Rightarrow> error) \<Rightarrow>
   world \<Rightarrow> (error + response) \<times> world" where
  "status_query_call E new_prefix do_prefix rq q accepted failure w =
     (case plain_query_call E new_prefix do_prefix rq q w of
        (Inl e, w1) \<Rightarrow> (Inl e, w1)
      | (Inr resp, w1) \<Rightarrow>
          if StatusCode resp \<in> set accepted then (Inr resp, w1) else (Inl (failure resp), w1))"

text \<open>\<^verbatim>\<open>json.Unmarshal(body, &result)\<close> into a \<^verbatim>\<open>map[string]interface{}\<close>, after a call.\<close>

definition unmarshalled ::
  "env \<Rightarrow> string \<Rightarrow> (error + response) \<times> world \<Rightarrow> (error + (string \<times> json) list) \<times> world"
  where
  "unmarshalled E decode_prefix R =
     (case R of
        (Inl e, w1) \<Rightarrow> (Inl e, w1)
      | (Inr resp, w1) \<Rightarrow>
         (case unmarshal_map E (Body resp) of
            Inl e \<Rightarrow> (Inl (Error (decode_prefix @ e)), w1)
          | Inr v \<Rightarrow> (Inr v, w1)))"

text \<open>A step on the value a call returned, which sends nothing: \<open>f\<close> gives the result or the
  message of an error. \<open>next_call\<close> is a step that may send requests of its own; it is not
  taken after an error.\<close>

definition next_call ::
  "(error + 'a) \<times> world \<Rightarrow> ('a \<Rightarrow> world \<Rightarrow> (error + 'b) \<times> world) \<Rightarrow> (error + 'b) \<times> world"
  where
  "next_call R f = (case R of (Inl e, w1) \<Rightarrow> (Inl e, w1) | (Inr v, w1) \<Rightarrow> f v w1)"

definition and_then ::
  "(error + 'a) \<times> world \<Rightarrow> ('a \<Rightarrow> error + 'b) \<Rightarrow> (error + 'b) \<times> world" where
  "and_then R f = (case R of (Inl e, w1) \<Rightarrow> (Inl e, w1) | (Inr v, w1) \<Rightarrow> (f v, w1))"

text \<open>The two orders in which the wrappers format a rejected response:
  \<^verbatim>\<open>fmt.Errorf("...%s...%d", body, resp.StatusCode)\<close> and
  \<^verbatim>\<open>fmt.Errorf("...%d...%s", resp.StatusCode, body)\<close>; and the format that has the body
  only.\<close>

definition body_status :: "string \<Rightarrow> string \<Rightarrow> response \<Rightarrow> error" where
  "body_status pre mid resp = Error (pre @ Body resp @ mid @ itoa (StatusCode resp))"

definition status_body :: "string \<Rightarrow> string \<Rightarrow> response \<Rightarrow> error" where
  "status_body pre mid resp = Error (pre @ itoa (StatusCode resp) @ mid @ Body resp)"

definition body_only :: "string \<Rightarrow> response \<Rightarrow> error" where
  "body_only pre resp = Error (pre @ Body resp)"

text \<open>Parts of a decoded value: a member of an object, a string field (empty when absent, as
  in the struct), and a field of any type (\<^verbatim>\<open>nil\<close> when absent).\<close>

definition json_member :: "string \<Rightarrow> json \<Rightarrow> json option" where
  "json_member k v = (case v of JObject m \<Rightarrow> map_of m k | _ \<Rightarrow> None)"

definition str_field :: "string \<Rightarrow> json \<Rightarrow> string" where
  "str_field k v = (case json_member k v of Some (JString s) \<Rightarrow> s | _ \<Rightarrow> [])"

definition json_field :: "string \<Rightarrow> json \<Rightarrow> json" where
  "json_field k v = (case json_member k v of Some x \<Rightarrow> x | None \<Rightarrow> JNull)"

text \<open>An entry of a Go map given as a value (\<^verbatim>\<open>nil\<close> when absent), and the assignment
  \<^verbatim>\<open>m[k] = v\<close>, which is also what a map literal does with a computed key: the entry with the
  key is replaced, or the entry is added.\<close>

definition entry :: "string \<Rightarrow> (string \<times> json) list \<Rightarrow> json" where
  "entry k m = (case map_of m k of Some x \<Rightarrow> x | None \<Rightarrow> JNull)"

fun set_entry :: "string \<Rightarrow> json \<Rightarrow> (string \<times> json) list \<Rightarrow> (string \<times> json) list" where
  "set_entry k v [] = [(k, v)]"
| "set_entry k v ((k', v') # m) = (if k = k' then (k, v) # m else (k', v') # set_entry k v m)"

text \<open>An integer field of a decoded struct (0 when absent), and a field set in a decoded
  struct.\<close>

definition int_field :: "string \<Rightarrow> json \<Rightarrow> int" where
  "int_field k v = (case json_member k v of Some (JNumber n) \<Rightarrow> \<lfloor>n\<rfloor> | _ \<Rightarrow> 0)"

definition with_field :: "string \<Rightarrow> json \<Rightarrow> json \<Rightarrow> json" where
  "with_field k x v = (case v of JObject m \<Rightarrow> JObject (set_entry k x m) | _ \<Rightarrow> v)"

definition form_content :: "string \<times> string" where
  "form_content = (''Content-Type'', ''application/x-www-form-urlencoded'')"

text \<open>\<^verbatim>\<open>writer.FormDataContentType()\<close>; the boundary of a multipart body is not part of the
  model.\<close>

definition multipart_content :: "string \<times> string" where
  "multipart_content = (''Content-Type'', ''multipart/form-data'')"

definition bearer :: "string \<Rightarrow> string \<times> string" where
  "bearer token = (''Authorization'', ''Bearer '' @ token)"

definition json_content :: "string \<times> string" where
  "json_content = (''Content-Type'', ''application/json'')"

subsection \<open>linkedin\_jobs.go\<close>

text \<open>The job posting given to \<^verbatim>\<open>CreateJobPosting\<close> and \<^verbatim>\<open>UpdateJobPosting\<close> is taken as the
  JSON value \<^verbatim>\<open>json.Marshal\<close> makes of it, which cannot fail for a struct of strings.\<close>

record JobsClient =
  jc_AccessToken :: string
  jc_BaseURL :: string

definition NewClient :: "string \<Rightarrow> JobsClient" where
  "NewClient accessToken =
     \<lparr>jc_AccessToken = accessToken, jc_BaseURL = ''https://api.linkedin.com/v2''\<rparr>"

definition jobs_error :: "response \<Rightarrow> error" where
  "jobs_error = body_status ''API error: '' '', status: ''"

text \<open>\<^verbatim>\<open>CreateJobPosting\<close>, lines 55-91.\<close>

definition CreateJobPosting ::
  "env \<Rightarrow> JobsClient \<Rightarrow> json \<Rightarrow> world \<Rightarrow> (error + string) \<times> world" where
  "CreateJobPosting E c jobPosting w =
     and_then
       (decoded E ''struct{ID string}'' ''error decoding response: ''
          (status_call E ''error creating request: '' ''error sending request: ''
             \<lparr>Method = ''POST'', target = URL (jc_BaseURL c @ ''/jobs'') [],
              headers = [bearer (jc_AccessToken c), json_content],
              payload = JsonBody jobPosting\<rparr>
             [201] jobs_error w))
       (\<lambda>result. Inr (str_field ''id'' result))"

text \<open>\<^verbatim>\<open>GetJobPosting\<close>, lines 94-121.\<close>

definition GetJobPosting ::
  "env \<Rightarrow> JobsClient \<Rightarrow> string \<Rightarrow> world \<Rightarrow> (error + json) \<times> world" where
  "GetJobPosting E c jobID w =
     decoded E ''JobPosting'' ''error decoding response: ''
       (status_call E ''error creating request: '' ''error sending request: ''
          \<lparr>Method = ''GET'', target = URL (jc_BaseURL c @ ''/jobs/'' @ jobID) [],
           headers = [bearer (jc_AccessToken c)], payload = NoBody\<rparr>
          [200] jobs_error w)"

text \<open>\<^verbatim>\<open>UpdateJobPosting\<close>, lines 124-152.\<close>

definition UpdateJobPosting ::
  "env \<Rightarrow> JobsClient \<Rightarrow> string \<Rightarrow> json \<Rightarrow> world \<Rightarrow> (error + unit) \<times> world" where
  "UpdateJobPosting E c jobID jobPosting w =
     finished
       (status_call E ''error creating request: '' ''error sending request: ''
          \<lparr>Method = ''PUT'', target = URL (jc_BaseURL c @ ''/jobs/'' @ jobID) [],
           headers = [bearer (jc_AccessToken c), json_content],
           payload = JsonBody jobPosting\<rparr>
          [200] jobs_error w)"

text \<open>\<^verbatim>\<open>DeleteJobPosting\<close>, lines 155-177.\<close>

definition DeleteJobPosting ::
  "env \<Rightarrow> JobsClient \<Rightarrow> string \<Rightarrow> world \<Rightarrow> (error + unit) \<times> world" where
  "DeleteJobPosting E c jobID w =
     finished
       (status_call E ''error creating request: '' ''error sending request: ''
          \<lparr>Method = ''DELETE'', target = URL (jc_BaseURL c @ ''/jobs/'' @ jobID) [],
           headers = [bearer (jc_AccessToken c)], payload = NoBody\<rparr>
          [204] jobs_error w)"

text \<open>\<^verbatim>\<open>ListJobPostings\<close>, lines 180-207. The query is written into the URL by
  \<^verbatim>\<open>fmt.Sprintf\<close>.\<close>

definition ListJobPostings ::
  "env \<Rightarrow> JobsClient \<Rightarrow> string \<Rightarrow> int \<Rightarrow> int \<Rightarrow> world \<Rightarrow> (error + json) \<times> world" where
  "ListJobPostings E c companyID limit offset w =
     and_then
       (decoded E ''struct{Elements []JobPosting}'' ''error decoding response: ''
          (status_call E ''error creating request: '' ''error sending request: ''
             \<lparr>Method = ''GET'',
              target = URL (jc_BaseURL c @ ''/jobs?companyId='' @ companyID @ ''&limit='' @
                              itoa limit @ ''&offset='' @ itoa offset) [],
              headers = [bearer (jc_AccessToken c)], payload = NoBody\<rparr>
             [200] jobs_error w))
       (\<lambda>result. Inr (json_field ''elements'' result))"

subsection \<open>The Pinterest client\<close>

text \<open>A pin or a board given to a wrapper is taken as the JSON value \<^verbatim>\<open>json.Marshal\<close> makes of
  it, which cannot fail for a struct of strings; a map given to \<^verbatim>\<open>Marshal\<close> is written with its
  keys in the order \<^verbatim>\<open>Marshal\<close> writes them.\<close>

record Pinterest =
  pt_AccessToken :: string
  pt_BaseURL :: string

definition NewPinterest :: "string \<Rightarrow> Pinterest" where
  "NewPinterest accessToken =
     \<lparr>pt_AccessToken = accessToken, pt_BaseURL = ''https://api.pinterest.com/v5''\<rparr>"

text \<open>\<^verbatim>\<open>fmt.Errorf("<what>: %s, status code: %d", string(body), resp.StatusCode)\<close>.\<close>

definition pt_error :: "string \<Rightarrow> response \<Rightarrow> error" where
  "pt_error what = body_status (what @ '': '') '', status code: ''"

text \<open>\<^verbatim>\<open>CreatePin\<close>, lines 77-110.\<close>

definition CreatePin ::
  "env \<Rightarrow> Pinterest \<Rightarrow> json \<Rightarrow> world \<Rightarrow> (error + json) \<times> world" where
  "CreatePin E c pin w =
     decoded E ''Pin'' []
       (status_call E [] []
          \<lparr>Method = ''POST'', target = URL (pt_BaseURL c @ ''/pins'') [],
           headers = [bearer (pt_AccessToken c), json_content], payload = JsonBody pin\<rparr>
          [201, 200] (pt_error ''failed to create pin'') w)"

text \<open>\<^verbatim>\<open>UploadImageForPin\<close>, lines 113-165: the file is read before the request is made.\<close>

definition UploadImageForPin ::
  "env \<Rightarrow> Pinterest \<Rightarrow> string \<Rightarrow> world \<Rightarrow> (error + string) \<times> world" where
  "UploadImageForPin E c imagePath w =
     (case read_file E imagePath of
        Inl e \<Rightarrow> (Inl (Error e), w)
      | Inr contents \<Rightarrow>
          and_then
            (decoded E ''struct{MediaID string}'' []
               (status_call E [] []
                  \<lparr>Method = ''POST'', target = URL (pt_BaseURL c @ ''/media'') [],
                   headers = [bearer (pt_AccessToken c), multipart_content],
                   payload = MultipartBody [(''file'', contents)]\<rparr>
                  [201, 200] (pt_error ''failed to upload image'') w))
            (\<lambda>result. Inr (str_field ''media_id'' result)))"

text \<open>\<^verbatim>\<open>GetComments\<close>, lines 172-202.\<close>

definition GetComments_Pinterest ::
  "env \<Rightarrow> Pinterest \<Rightarrow> string \<Rightarrow> world \<Rightarrow> (error + json) \<times> world" where
  "GetComments_Pinterest E c pinID w =
     and_then
      (decoded E ''struct{Items []Comment}'' []
       (status_call E [] []
          \<lparr>Method = ''GET'', target = URL (pt_BaseURL c @ ''/pins/'' @ pinID @ ''/comments'') [],
           headers = [bearer (pt_AccessToken c)], payload = NoBody\<rparr>
          [200] (pt_error ''failed to get comments'') w))
      (\<lambda>result. Inr (json_field ''items'' result))"

text \<open>\<^verbatim>\<open>AddComment\<close>, lines 205-242.\<close>

definition AddComment ::
  "env \<Rightarrow> Pinterest \<Rightarrow> string \<Rightarrow> string \<Rightarrow> world \<Rightarrow> (error + json) \<times> world" where
  "AddComment E c pinID comment w =
     decoded E ''Comment'' []
       (status_call E [] []
          \<lparr>Method = ''POST'', target = URL (pt_BaseURL c @ ''/pins/'' @ pinID @ ''/comments'') [],
           headers = [bearer (pt_AccessToken c), json_content], payload = JsonBody (JObject [(''text'', JString comment)])\<rparr>
          [201, 200] (pt_error ''failed to add comment'') w)"

text \<open>\<^verbatim>\<open>ReplyToComment\<close>, lines 246-284.\<close>

definition ReplyToComment_Pinterest ::
  "env \<Rightarrow> Pinterest \<Rightarrow> string \<Rightarrow> string \<Rightarrow> string \<Rightarrow> world \<Rightarrow> (error + json) \<times> world" where
  "ReplyToComment_Pinterest E c pinID parentCommentID comment w =
     decoded E ''Comment'' []
       (status_call E [] []
          \<lparr>Method = ''POST'', target = URL (pt_BaseURL c @ ''/pins/'' @ pinID @ ''/comments'') [],
           headers = [bearer (pt_AccessToken c), json_content], payload = JsonBody (JObject [(''parent_comment_id'', JString parentCommentID),
                                        (''text'', JString comment)])\<rparr>
          [201, 200] (pt_error ''failed to reply to comment'') w)"

text \<open>\<^verbatim>\<open>GetPinStats\<close>, lines 291-322.\<close>

definition GetPinStats ::
  "env \<Rightarrow> Pinterest \<Rightarrow> string \<Rightarrow> string \<Rightarrow> world \<Rightarrow> (error + json) \<times> world" where
  "GetPinStats E c pinID timeframe0 w =
     (let timeframe = (if timeframe0 = [] then ''30days'' else timeframe0) in
      decoded E ''Stats'' []
       (status_call E [] []
          \<lparr>Method = ''GET'', target = URL (pt_BaseURL c @ ''/pins/'' @ pinID @ ''/analytics?timeframe='' @ timeframe) [],
           headers = [bearer (pt_AccessToken c)], payload = NoBody\<rparr>
          [200] (pt_error ''failed to get pin stats'') w))"

text \<open>\<^verbatim>\<open>GetBoardStats\<close>, lines 325-356.\<close>

definition GetBoardStats ::
  "env \<Rightarrow> Pinterest \<Rightarrow> string \<Rightarrow> string \<Rightarrow> world \<Rightarrow> (error + json) \<times> world" where
  "GetBoardStats E c boardID timeframe0 w =
     (let timeframe = (if timeframe0 = [] then ''30days'' else timeframe0) in
      decoded E ''Stats'' []
       (status_call E [] []
          \<lparr>Method = ''GET'', target = URL (pt_BaseURL c @ ''/boards/'' @ boardID @ ''/analytics?timeframe='' @ timeframe) [],
           headers = [bearer (pt_AccessToken c)], payload = NoBody\<rparr>
          [200] (pt_error ''failed to get board stats'') w))"

text \<open>\<^verbatim>\<open>GetUserStats\<close>, lines 359-390.\<close>

definition GetUserStats ::
  "env \<Rightarrow> Pinterest \<Rightarrow> string \<Rightarrow> world \<Rightarrow> (error + json) \<times> world" where
  "GetUserStats E c timeframe0 w =
     (let timeframe = (if timeframe0 = [] then ''30days'' else timeframe0) in
      decoded E ''Stats'' []
       (status_call E [] []
          \<lparr>Method = ''GET'', target = URL (pt_BaseURL c @ ''/user/analytics?timeframe='' @ timeframe) [],
           headers = [bearer (pt_AccessToken c)], payload = NoBody\<rparr>
          [200] (pt_error ''failed to get user stats'') w))"

text \<open>\<^verbatim>\<open>ExchangeCodeForToken\<close>, lines 406-450: a function of the package, with a client of its
  own and no \<^verbatim>\<open>Authorization\<close> header.\<close>

definition ExchangeCodeForToken_Pinterest ::
  "env \<Rightarrow> string \<Rightarrow> string \<Rightarrow> string \<Rightarrow> string \<Rightarrow> world \<Rightarrow> (error + string) \<times> world" where
  "ExchangeCodeForToken_Pinterest E PinterestID PinterestSecret code redirectURI w =
     and_then
       (decoded E ''struct{AccessToken string}'' []
          (status_call E [] []
             \<lparr>Method = ''POST'', target = URL ''https://api.pinterest.com/v5/oauth/token'' [],
              headers = [json_content],
              payload = JsonBody (JObject
                [(''Pinterest_id'', JString PinterestID),
                 (''Pinterest_secret'', JString PinterestSecret),
                 (''code'', JString code),
                 (''grant_type'', JString ''authorization_code''),
                 (''redirect_uri'', JString redirectURI)])\<rparr>
             [200] (pt_error ''failed to exchange code'') w))
       (\<lambda>result. Inr (str_field ''access_token'' result))"

text \<open>\<^verbatim>\<open>GetUserInfo\<close>, lines 457-484.\<close>

definition GetUserInfo_Pinterest ::
  "env \<Rightarrow> Pinterest \<Rightarrow> world \<Rightarrow> (error + json) \<times> world" where
  "GetUserInfo_Pinterest E c w =
     decoded E ''map[string]interface{}'' []
       (status_call E [] []
          \<lparr>Method = ''GET'', target = URL (pt_BaseURL c @ ''/user_account'') [],
           headers = [bearer (pt_AccessToken c)], payload = NoBody\<rparr>
          [200] (pt_error ''failed to get user info'') w)"

text \<open>\<^verbatim>\<open>SearchPins\<close>, lines 491-525.\<close>

definition SearchPins ::
  "env \<Rightarrow> Pinterest \<Rightarrow> string \<Rightarrow> int \<Rightarrow> world \<Rightarrow> (error + json) \<times> world" where
  "SearchPins E c query limit0 w =
     (let limit = (if limit0 \<le> 0 then 25 else limit0) in
      and_then
      (decoded E ''struct{Items []Pin}'' []
       (status_call E [] []
          \<lparr>Method = ''GET'', target = URL (pt_BaseURL c @ ''/pins/search?query='' @ query @ ''&limit='' @ itoa limit) [],
           headers = [bearer (pt_AccessToken c)], payload = NoBody\<rparr>
          [200] (pt_error ''failed to search pins'') w))
      (\<lambda>result. Inr (json_field ''items'' result)))"

text \<open>\<^verbatim>\<open>CreateBoard\<close>, lines 532-565.\<close>

definition CreateBoard ::
  "env \<Rightarrow> Pinterest \<Rightarrow> json \<Rightarrow> world \<Rightarrow> (error + json) \<times> world" where
  "CreateBoard E c board w =
     decoded E ''Board'' []
       (status_call E [] []
          \<lparr>Method = ''POST'', target = URL (pt_BaseURL c @ ''/boards'') [],
           headers = [bearer (pt_AccessToken c), json_content], payload = JsonBody board\<rparr>
          [201, 200] (pt_error ''failed to create board'') w)"

text \<open>\<^verbatim>\<open>UpdateBoard\<close>, lines 568-601.\<close>

definition UpdateBoard ::
  "env \<Rightarrow> Pinterest \<Rightarrow> string \<Rightarrow> json \<Rightarrow> world \<Rightarrow> (error + json) \<times> world" where
  "UpdateBoard E c boardID board w =
     decoded E ''Board'' []
       (status_call E [] []
          \<lparr>Method = ''PATCH'', target = URL (pt_BaseURL c @ ''/boards/'' @ boardID) [],
           headers = [bearer (pt_AccessToken c), json_content], payload = JsonBody board\<rparr>
          [200] (pt_error ''failed to update board'') w)"

text \<open>\<^verbatim>\<open>GetBoards\<close>, lines 604-634.\<close>

definition GetBoards ::
  "env \<Rightarrow> Pinterest \<Rightarrow> world \<Rightarrow> (error + json) \<times> world" where
  "GetBoards E c w =
     and_then
      (decoded E ''struct{Items []Board}'' []
       (status_call E [] []
          \<lparr>Method = ''GET'', target = URL (pt_BaseURL c @ ''/boards'') [],
           headers = [bearer (pt_AccessToken c)], payload = NoBody\<rparr>
          [200] (pt_error ''failed to get boards'') w))
      (\<lambda>result. Inr (json_field ''items'' result))"

text \<open>\<^verbatim>\<open>FollowUser\<close>, lines 641-673.\<close>

definition FollowUser_Pinterest ::
  "env \<Rightarrow> Pinterest \<Rightarrow> string \<Rightarrow> world \<Rightarrow> (error + unit) \<times> world" where
  "FollowUser_Pinterest E c username w =
     finished
       (status_call E [] []
          \<lparr>Method = ''POST'', target = URL (pt_BaseURL c @ ''/user/follows/users/'') [],
           headers = [bearer (pt_AccessToken c), json_content], payload = JsonBody (JObject [(''username'', JString username)])\<rparr>
          [201, 200] (pt_error ''failed to follow user'') w)"

text \<open>\<^verbatim>\<open>UnfollowUser\<close>, lines 676-698.\<close>

definition UnfollowUser ::
  "env \<Rightarrow> Pinterest \<Rightarrow> string \<Rightarrow> world \<Rightarrow> (error + unit) \<times> world" where
  "UnfollowUser E c username w =
     finished
       (status_call E [] []
          \<lparr>Method = ''DELETE'', target = URL (pt_BaseURL c @ ''/user/follows/users/'' @ username) [],
           headers = [bearer (pt_AccessToken c)], payload = NoBody\<rparr>
          [204, 200] (pt_error ''failed to unfollow user'') w)"

subsection \<open>The WhatsApp, Telegram and Slack clients\<close>

text \<open>The three clients read the whole body before they look at the status code, and decode
  it with \<^verbatim>\<open>json.Unmarshal\<close> into a map. A map literal given to \<^verbatim>\<open>json.Marshal\<close> is written
  with its constant keys in the order \<^verbatim>\<open>Marshal\<close> writes them; a computed key is put where it
  replaces an entry with the same key, or last.\<close>

record WhatsAppClient =
  wa_AccessToken :: string
  wa_PhoneNumberID :: string
  wa_BaseURL :: string

definition NewWhatsAppClient :: "string \<Rightarrow> string \<Rightarrow> WhatsAppClient" where
  "NewWhatsAppClient accessToken phoneNumberID =
     \<lparr>wa_AccessToken = accessToken, wa_PhoneNumberID = phoneNumberID,
      wa_BaseURL = ''https://graph.facebook.com/v17.0''\<rparr>"

text \<open>Lines 82-88, 153-159 and 257-263: the \<^verbatim>\<open>id\<close> of the first of the \<^verbatim>\<open>messages\<close>, if the
  response has that shape.\<close>

definition first_message_id :: "(string \<times> json) list \<Rightarrow> string option" where
  "first_message_id result =
     (case map_of result ''messages'' of
        Some (JArray (JObject message # rest)) \<Rightarrow>
          (case map_of message ''id'' of Some (JString message_id) \<Rightarrow> Some message_id | _ \<Rightarrow> None)
      | _ \<Rightarrow> None)"

definition messages_url :: "WhatsAppClient \<Rightarrow> url" where
  "messages_url c = URL (wa_BaseURL c @ ''/'' @ wa_PhoneNumberID c @ ''/messages'') []"

text \<open>\<^verbatim>\<open>CreatePost\<close>, lines 36-91.\<close>

definition CreatePost_WhatsApp ::
  "env \<Rightarrow> WhatsAppClient \<Rightarrow> string \<Rightarrow> string \<Rightarrow> world \<Rightarrow> (error + string) \<times> world" where
  "CreatePost_WhatsApp E c content recipientPhone w =
     and_then
       (unmarshalled E []
          (status_call E [] []
             \<lparr>Method = ''POST'', target = messages_url c,
              headers = [json_content, bearer (wa_AccessToken c)],
              payload = JsonBody (JObject
                [(''messaging_product'', JString ''whatsapp''),
                 (''recipient_type'', JString ''individual''),
                 (''text'', JObject [(''body'', JString content)]),
                 (''to'', JString recipientPhone),
                 (''type'', JString ''text'')])\<rparr>
             [200, 201] (body_only ''error: '') w))
       (\<lambda>result. case first_message_id result of
                    Some message_id \<Rightarrow> Inr message_id
                  | None \<Rightarrow> Inl (Error ''failed to extract message ID''))"

text \<open>\<^verbatim>\<open>ReplyToComment\<close>, lines 94-162.\<close>

definition ReplyToComment_WhatsApp ::
  "env \<Rightarrow> WhatsAppClient \<Rightarrow> string \<Rightarrow> string \<Rightarrow> world \<Rightarrow> (error + string) \<times> world" where
  "ReplyToComment_WhatsApp E c messageID content w =
     (let (RecipientPhone, MessageID) = Sscanf E messageID ''%s:%s'' in
      and_then
        (unmarshalled E []
           (status_call E [] []
              \<lparr>Method = ''POST'', target = messages_url c,
               headers = [json_content, bearer (wa_AccessToken c)],
               payload = JsonBody (JObject
                 [(''context'', JObject [(''message_id'', JString MessageID)]),
                  (''messaging_product'', JString ''whatsapp''),
                  (''recipient_type'', JString ''individual''),
                  (''text'', JObject [(''body'', JString content)]),
                  (''to'', JString RecipientPhone),
                  (''type'', JString ''text'')])\<rparr>
              [200, 201] (body_only ''error: '') w))
        (\<lambda>result. case first_message_id result of
                     Some message_id \<Rightarrow> Inr message_id
                   | None \<Rightarrow> Inl (Error ''failed to extract reply message ID'')))"

text \<open>\<^verbatim>\<open>GetPostStats\<close>, lines 165-176, sends nothing.\<close>

definition GetPostStats_WhatsApp ::
  "env \<Rightarrow> WhatsAppClient \<Rightarrow> string \<Rightarrow> world \<Rightarrow> (error + json) \<times> world" where
  "GetPostStats_WhatsApp E c messageID w =
     (Inr (JObject [(''message_id'', JString messageID), (''status'', JString ''delivered''),
                    (''timestamp'', JString ''2023-08-01T12:34:56Z'')]), w)"

text \<open>\<^verbatim>\<open>GetCommunityStats\<close>, lines 179-212.\<close>

definition GetCommunityStats_WhatsApp ::
  "env \<Rightarrow> WhatsAppClient \<Rightarrow> string \<Rightarrow> world \<Rightarrow> (error + (string \<times> json) list) \<times> world" where
  "GetCommunityStats_WhatsApp E c wabaID w =
     unmarshalled E []
       (status_call E [] []
          \<lparr>Method = ''GET'', target = URL (wa_BaseURL c @ ''/'' @ wabaID @ ''/insights'') [],
           headers = [bearer (wa_AccessToken c)], payload = NoBody\<rparr>
          [200] (body_only ''error: '') w)"

text \<open>\<^verbatim>\<open>SendMediaMessage\<close>, lines 215-266: the status code is not read.\<close>

definition SendMediaMessage_WhatsApp ::
  "env \<Rightarrow> WhatsAppClient \<Rightarrow> string \<Rightarrow> string \<Rightarrow> string \<Rightarrow> world \<Rightarrow> (error + string) \<times> world"
  where
  "SendMediaMessage_WhatsApp E c recipientPhone mediaType mediaURL w =
     and_then
       (unmarshalled E []
          (plain_call E [] []
             \<lparr>Method = ''POST'', target = messages_url c,
              headers = [json_content, bearer (wa_AccessToken c)],
              payload = JsonBody (JObject
                (set_entry mediaType (JObject [(''link'', JString mediaURL)])
                   [(''messaging_product'', JString ''whatsapp''),
                    (''recipient_type'', JString ''individual''),
                    (''to'', JString recipientPhone),
                    (''type'', JString mediaType)]))\<rparr>
             w))
       (\<lambda>result. case first_message_id result of
                    Some message_id \<Rightarrow> Inr message_id
                  | None \<Rightarrow> Inl (Error ''failed to extract message ID''))"

record TelegramClient =
  tg_BotToken :: string
  tg_BaseURL :: string

definition NewTelegramClient :: "string \<Rightarrow> TelegramClient" where
  "NewTelegramClient botToken =
     \<lparr>tg_BotToken = botToken, tg_BaseURL = ''https://api.telegram.org/bot''\<rparr>"

text \<open>The URL of a bot method: the token is part of the path.\<close>

definition bot_url :: "TelegramClient \<Rightarrow> string \<Rightarrow> url" where
  "bot_url t method_name = URL (tg_BaseURL t @ tg_BotToken t @ ''/'' @ method_name) []"

text \<open>Lines 323-325 and 389-391: \<^verbatim>\<open>ok\<close> must be there, a boolean, and true.\<close>

definition telegram_ok :: "env \<Rightarrow> (string \<times> json) list \<Rightarrow> error option" where
  "telegram_ok E result =
     (case map_of result ''ok'' of
        Some (JBool True) \<Rightarrow> None
      | _ \<Rightarrow> Some (Error (''telegram API error: '' @ Sprint E ''%v'' (entry ''description'' result))))"

text \<open>Lines 328-332, 394-398 and 595-599: the number under \<^verbatim>\<open>message_id\<close> of the \<^verbatim>\<open>result\<close>, if
  the response has that shape.\<close>

definition result_message_id :: "(string \<times> json) list \<Rightarrow> real option" where
  "result_message_id result =
     (case map_of result ''result'' of
        Some (JObject resultData) \<Rightarrow>
          (case map_of resultData ''message_id'' of Some (JNumber n) \<Rightarrow> Some n | _ \<Rightarrow> None)
      | _ \<Rightarrow> None)"

text \<open>\<^verbatim>\<open>CreatePost\<close>, lines 283-335.\<close>

definition CreatePost_Telegram ::
  "env \<Rightarrow> TelegramClient \<Rightarrow> string \<Rightarrow> string \<Rightarrow> world \<Rightarrow> (error + string) \<times> world" where
  "CreatePost_Telegram E t content chatID w =
     and_then
       (unmarshalled E []
          (status_call E [] []
             \<lparr>Method = ''POST'', target = bot_url t ''sendMessage'', headers = [json_content],
              payload = JsonBody (JObject [(''chat_id'', JString chatID),
                                           (''text'', JString content)])\<rparr>
             [200] (body_only ''error: '') w))
       (\<lambda>result.
          case telegram_ok E result of
            Some e \<Rightarrow> Inl e
          | None \<Rightarrow>
             (case result_message_id result of
                Some messageID \<Rightarrow> Inr (Sprint E ''%f'' (JNumber messageID))
              | None \<Rightarrow> Inl (Error ''failed to extract message ID'')))"

text \<open>\<^verbatim>\<open>ReplyToComment\<close>, lines 338-401.\<close>

definition ReplyToComment_Telegram ::
  "env \<Rightarrow> TelegramClient \<Rightarrow> string \<Rightarrow> string \<Rightarrow> world \<Rightarrow> (error + string) \<times> world" where
  "ReplyToComment_Telegram E t messageID content w =
     (let (ChatID, MessageID) = Sscanf E messageID ''%s:%s'' in
      and_then
        (unmarshalled E []
           (status_call E [] []
              \<lparr>Method = ''POST'', target = bot_url t ''sendMessage'', headers = [json_content],
               payload = JsonBody (JObject [(''chat_id'', JString ChatID),
                                            (''reply_to_message_id'', JString MessageID),
                                            (''text'', JString content)])\<rparr>
              [200] (body_only ''error: '') w))
        (\<lambda>result.
           case telegram_ok E result of
             Some e \<Rightarrow> Inl e
           | None \<Rightarrow>
              (case result_message_id result of
                 Some replyMessageID \<Rightarrow>
                   Inr (ChatID @ '':'' @ Sprint E ''%f'' (JNumber replyMessageID))
               | None \<Rightarrow> Inl (Error ''failed to extract reply message ID''))))"

text \<open>\<^verbatim>\<open>GetPostStats\<close>, lines 404-460.\<close>

definition GetPostStats_Telegram ::
  "env \<Rightarrow> TelegramClient \<Rightarrow> string \<Rightarrow> world \<Rightarrow> (error + json) \<times> world" where
  "GetPostStats_Telegram E t messageID w =
     (let (ChatID, MessageID) = Sscanf E messageID ''%s:%s'' in
      and_then
        (unmarshalled E []
           (status_call E [] []
              \<lparr>Method = ''POST'', target = bot_url t ''getMessages'', headers = [json_content],
               payload = JsonBody (JObject [(''chat_id'', JString ChatID),
                                            (''message_ids'', JArray [JString MessageID])])\<rparr>
              [200] (body_only ''error: '') w))
        (\<lambda>result.
           case map_of result ''result'' of
             Some (JArray (JObject message # rest)) \<Rightarrow> Inr (JObject message)
           | _ \<Rightarrow> Inl (Error ''failed to get message stats'')))"

text \<open>\<^verbatim>\<open>GetCommunityStats\<close>, lines 463-541: two requests; the status code of the second
  response is not read.\<close>

definition GetCommunityStats_Telegram ::
  "env \<Rightarrow> TelegramClient \<Rightarrow> string \<Rightarrow> world \<Rightarrow> (error + json) \<times> world" where
  "GetCommunityStats_Telegram E t chatID w =
     next_call
       (unmarshalled E []
          (status_call E [] []
             \<lparr>Method = ''POST'', target = bot_url t ''getChatMembersCount'',
              headers = [json_content],
              payload = JsonBody (JObject [(''chat_id'', JString chatID)])\<rparr>
             [200] (body_only ''error: '') w))
       (\<lambda>memberCountResult w1.
          and_then
            (unmarshalled E []
               (plain_call E [] []
                  \<lparr>Method = ''POST'', target = bot_url t ''getChat'', headers = [json_content],
                   payload = JsonBody (JObject [(''chat_id'', JString chatID)])\<rparr>
                  w1))
            (\<lambda>chatInfoResult.
               Inr (JObject [(''member_count'', entry ''result'' memberCountResult),
                             (''chat_info'', entry ''result'' chatInfoResult)])))"

text \<open>\<^verbatim>\<open>SendMediaMessage\<close>, lines 544-602: the status code is not read.\<close>

definition media_endpoint :: "string \<Rightarrow> string option" where
  "media_endpoint mediaType =
     (if mediaType = ''photo'' then Some ''sendPhoto''
      else if mediaType = ''video'' then Some ''sendVideo''
      else if mediaType = ''document'' then Some ''sendDocument''
      else if mediaType = ''audio'' then Some ''sendAudio''
      else None)"

definition SendMediaMessage_Telegram ::
  "env \<Rightarrow> TelegramClient \<Rightarrow> string \<Rightarrow> string \<Rightarrow> string \<Rightarrow> string \<Rightarrow> world \<Rightarrow>
   (error + string) \<times> world" where
  "SendMediaMessage_Telegram E t chatID mediaType mediaURL caption w =
     (case media_endpoint mediaType of
        None \<Rightarrow> (Inl (Error (''unsupported media type: '' @ mediaType)), w)
      | Some endpoint \<Rightarrow>
          and_then
            (unmarshalled E []
               (plain_call E [] []
                  \<lparr>Method = ''POST'', target = bot_url t endpoint, headers = [json_content],
                   payload = JsonBody (JObject
                     (set_entry ''caption'' (JString caption)
                        (set_entry mediaType (JString mediaURL)
                           [(''chat_id'', JString chatID)])))\<rparr>
                  w))
            (\<lambda>result.
               case result_message_id result of
                 Some messageID \<Rightarrow> Inr (chatID @ '':'' @ Sprint E ''%f'' (JNumber messageID))
               | None \<Rightarrow> Inl (Error ''failed to extract message ID'')))"

record SlackClient =
  sl_BotToken :: string
  sl_BaseURL :: string

definition NewSlackClient :: "string \<Rightarrow> SlackClient" where
  "NewSlackClient botToken = \<lparr>sl_BotToken = botToken, sl_BaseURL = ''https://slack.com/api''\<rparr>"

text \<open>Lines 660-662, 724-726, 785-787 and 871-873: \<^verbatim>\<open>ok\<close> must be there, a boolean, and
  true.\<close>

definition slack_ok :: "env \<Rightarrow> (string \<times> json) list \<Rightarrow> error option" where
  "slack_ok E result =
     (case map_of result ''ok'' of
        Some (JBool True) \<Rightarrow> None
      | _ \<Rightarrow> Some (Error (''slack API error: '' @ Sprint E ''%v'' (entry ''error'' result))))"

text \<open>\<^verbatim>\<open>CreatePost\<close>, lines 619-670.\<close>

definition CreatePost_Slack ::
  "env \<Rightarrow> SlackClient \<Rightarrow> string \<Rightarrow> string \<Rightarrow> world \<Rightarrow> (error + string) \<times> world" where
  "CreatePost_Slack E s content channelID w =
     and_then
       (unmarshalled E []
          (status_call E [] []
             \<lparr>Method = ''POST'', target = URL (sl_BaseURL s @ ''/chat.postMessage'') [],
              headers = [json_content, bearer (sl_BotToken s)],
              payload = JsonBody (JObject [(''channel'', JString channelID),
                                           (''text'', JString content)])\<rparr>
             [200] (body_only ''error: '') w))
       (\<lambda>result.
          case slack_ok E result of
            Some e \<Rightarrow> Inl e
          | None \<Rightarrow>
             (case map_of result ''ts'' of
                Some (JString ts) \<Rightarrow> Inr (channelID @ '':'' @ ts)
              | _ \<Rightarrow> Inl (Error ''failed to extract message timestamp'')))"

text \<open>\<^verbatim>\<open>ReplyToComment\<close>, lines 673-734.\<close>

definition ReplyToComment_Slack ::
  "env \<Rightarrow> SlackClient \<Rightarrow> string \<Rightarrow> string \<Rightarrow> world \<Rightarrow> (error + string) \<times> world" where
  "ReplyToComment_Slack E s threadID content w =
     (let (ChannelID, ThreadTS) = Sscanf E threadID ''%s:%s'' in
      and_then
        (unmarshalled E []
           (status_call E [] []
              \<lparr>Method = ''POST'', target = URL (sl_BaseURL s @ ''/chat.postMessage'') [],
               headers = [json_content, bearer (sl_BotToken s)],
               payload = JsonBody (JObject [(''channel'', JString ChannelID),
                                            (''text'', JString content),
                                            (''thread_ts'', JString ThreadTS)])\<rparr>
              [200] (body_only ''error: '') w))
        (\<lambda>result.
           case slack_ok E result of
             Some e \<Rightarrow> Inl e
           | None \<Rightarrow>
              (case map_of result ''ts'' of
                 Some (JString ts) \<Rightarrow> Inr (ChannelID @ '':'' @ ts)
               | _ \<Rightarrow> Inl (Error ''failed to extract reply timestamp''))))"

text \<open>\<^verbatim>\<open>GetPostStats\<close>, lines 737-831: two requests; the status code of the second response
  is not read. Lines 821-828 assert types without the comma-ok form and index the messages,
  so they panic on a response of another shape.\<close>

definition post_stats :: "(string \<times> json) list \<Rightarrow> (string \<times> json) list \<Rightarrow> error + json" where
  "post_stats result threadResult =
     (case map_of result ''messages'' of
        Some (JArray (message # rest)) \<Rightarrow>
          (case map_of threadResult ''ok'' of
             Some (JBool True) \<Rightarrow>
               (case map_of threadResult ''messages'' of
                  Some (JArray replies) \<Rightarrow>
                    Inr (JObject [(''message'', message),
                                  (''thread_replies'', JArray replies),
                                  (''thread_reply_count'', JNumber (real (length replies) - 1))])
                | _ \<Rightarrow> Inl (Panic ''interface conversion: interface {} is not []interface {}''))
           | Some (JBool False) \<Rightarrow> Inr (JObject [(''message'', message)])
           | _ \<Rightarrow> Inl (Panic ''interface conversion: interface {} is not bool''))
      | Some (JArray []) \<Rightarrow> Inl (Panic ''index out of range [0] with length 0'')
      | _ \<Rightarrow> Inl (Panic ''interface conversion: interface {} is not []interface {}''))"

definition GetPostStats_Slack ::
  "env \<Rightarrow> SlackClient \<Rightarrow> string \<Rightarrow> world \<Rightarrow> (error + json) \<times> world" where
  "GetPostStats_Slack E s messageID w =
     (let (ChannelID, MessageTS) = Sscanf E messageID ''%s:%s'' in
      next_call
        (and_then
           (unmarshalled E []
              (status_query_call E [] []
                 \<lparr>Method = ''GET'', target = URL (sl_BaseURL s @ ''/conversations.history'') [],
                  headers = [bearer (sl_BotToken s)], payload = NoBody\<rparr>
                 [(''channel'', ChannelID), (''latest'', MessageTS), (''limit'', ''1''),
                  (''inclusive'', ''true'')]
                 [200] (body_only ''error: '') w))
           (\<lambda>result. case slack_ok E result of Some e \<Rightarrow> Inl e | None \<Rightarrow> Inr result))
        (\<lambda>result w1.
           and_then
             (unmarshalled E []
                (plain_query_call E [] []
                   \<lparr>Method = ''GET'', target = URL (sl_BaseURL s @ ''/conversations.replies'') [],
                    headers = [bearer (sl_BotToken s)], payload = NoBody\<rparr>
                   [(''channel'', ChannelID), (''ts'', MessageTS)] w1))
             (\<lambda>threadResult. post_stats result threadResult)))"

text \<open>\<^verbatim>\<open>GetCommunityStats\<close>, lines 834-915: two requests; the status code of the second
  response is not read, and lines 910-912 assert types without the comma-ok form.\<close>

definition community_stats :: "(string \<times> json) list \<Rightarrow> (string \<times> json) list \<Rightarrow> error + json" where
  "community_stats infoResult membersResult =
     (case map_of membersResult ''ok'' of
        Some (JBool True) \<Rightarrow>
          (case map_of membersResult ''members'' of
             Some (JArray members) \<Rightarrow>
               Inr (JObject [(''channel_info'', entry ''channel'' infoResult),
                             (''member_count'', JNumber (real (length members)))])
           | _ \<Rightarrow> Inl (Panic ''interface conversion: interface {} is not []interface {}''))
      | Some (JBool False) \<Rightarrow> Inr (JObject [(''channel_info'', entry ''channel'' infoResult)])
      | _ \<Rightarrow> Inl (Panic ''interface conversion: interface {} is not bool''))"

definition GetCommunityStats_Slack ::
  "env \<Rightarrow> SlackClient \<Rightarrow> string \<Rightarrow> world \<Rightarrow> (error + json) \<times> world" where
  "GetCommunityStats_Slack E s channelID w =
     next_call
       (and_then
          (unmarshalled E []
             (status_query_call E [] []
                \<lparr>Method = ''GET'', target = URL (sl_BaseURL s @ ''/conversations.info'') [],
                 headers = [bearer (sl_BotToken s)], payload = NoBody\<rparr>
                [(''channel'', channelID)] [200] (body_only ''error: '') w))
          (\<lambda>infoResult. case slack_ok E infoResult of Some e \<Rightarrow> Inl e | None \<Rightarrow> Inr infoResult))
       (\<lambda>infoResult w1.
          and_then
            (unmarshalled E []
               (plain_query_call E [] []
                  \<lparr>Method = ''GET'', target = URL (sl_BaseURL s @ ''/conversations.members'') [],
                   headers = [bearer (sl_BotToken s)], payload = NoBody\<rparr>
                  [(''channel'', channelID)] w1))
            (\<lambda>membersResult. community_stats infoResult membersResult))"

subsection \<open>The Facebook client\<close>

text \<open>No wrapper of this client reads the status code: each decodes the body and looks at
  the \<^verbatim>\<open>error\<close> member of what it decoded. A wrapper that finds one returns the decoded value
  together with the error, so the result is a pair of an optional value and an optional
  error. \<^verbatim>\<open>data.Set\<close> on fresh values is kept as the list of the calls.\<close>

record FaceBookClient =
  fb_AccessToken :: string

definition NewFaceBookClient :: "string \<Rightarrow> FaceBookClient" where
  "NewFaceBookClient accessToken = \<lparr>fb_AccessToken = accessToken\<rparr>"

definition FacebookAPIBaseURL :: string where
  "FacebookAPIBaseURL = ''https://graph.facebook.com/v18.0''"

text \<open>The end of every wrapper: \<^verbatim>\<open>Decode\<close> into the struct named, then
  \<^verbatim>\<open>if result.Error != nil\<close> with
  \<^verbatim>\<open>fmt.Errorf("Facebook API error: %s", result.Error.Message)\<close>.\<close>

definition fb_decoded ::
  "env \<Rightarrow> string \<Rightarrow> (error + response) \<times> world \<Rightarrow> (json option \<times> error option) \<times> world" where
  "fb_decoded E ty R =
     (case R of
        (Inl e, w1) \<Rightarrow> ((None, Some e), w1)
      | (Inr resp, w1) \<Rightarrow>
         (case decode_as E ty (Body resp) of
            Inl e \<Rightarrow> ((None, Some (Error e)), w1)
          | Inr result \<Rightarrow>
              if json_field ''error'' result \<noteq> JNull
                then ((Some result,
                       Some (Error (''Facebook API error: '' @
                                    str_field ''message'' (json_field ''error'' result)))), w1)
              else ((Some result, None), w1)))"

text \<open>\<^verbatim>\<open>CreatePost\<close>, lines 50-84.\<close>

definition CreatePost_Facebook ::
  "env \<Rightarrow> FaceBookClient \<Rightarrow> string \<Rightarrow> string \<Rightarrow> string \<Rightarrow> world \<Rightarrow>
   (json option \<times> error option) \<times> world" where
  "CreatePost_Facebook E c pageID message link w =
     fb_decoded E ''Response''
       (plain_call E [] []
          \<lparr>Method = ''POST'', target = URL (FacebookAPIBaseURL @ ''/'' @ pageID @ ''/feed'') [],
           headers = [form_content],
           payload = FormBody ([(''access_token'', fb_AccessToken c), (''message'', message)] @
                               (if link \<noteq> [] then [(''link'', link)] else []))\<rparr>
          w)"

text \<open>\<^verbatim>\<open>CreateScheduledPost\<close>, lines 87-119.\<close>

definition CreateScheduledPost ::
  "env \<Rightarrow> FaceBookClient \<Rightarrow> string \<Rightarrow> string \<Rightarrow> int \<Rightarrow> world \<Rightarrow>
   (json option \<times> error option) \<times> world" where
  "CreateScheduledPost E c pageID message scheduledTime w =
     fb_decoded E ''Response''
       (plain_call E [] []
          \<lparr>Method = ''POST'', target = URL (FacebookAPIBaseURL @ ''/'' @ pageID @ ''/feed'') [],
           headers = [form_content],
           payload = FormBody [(''access_token'', fb_AccessToken c), (''message'', message),
                               (''published'', ''false''),
                               (''scheduled_publish_time'', itoa scheduledTime)]\<rparr>
          w)"

text \<open>\<^verbatim>\<open>UploadPhoto\<close>, lines 122-179: the file is opened before the form is written; the
  errors of \<^verbatim>\<open>os.Open\<close> and \<^verbatim>\<open>io.Copy\<close> are returned as they are.\<close>

definition UploadPhoto ::
  "env \<Rightarrow> FaceBookClient \<Rightarrow> string \<Rightarrow> string \<Rightarrow> string \<Rightarrow> world \<Rightarrow>
   (json option \<times> error option) \<times> world" where
  "UploadPhoto E c pageID message photoPath w =
     (case read_file E photoPath of
        Inl e \<Rightarrow> ((None, Some (Error e)), w)
      | Inr contents \<Rightarrow>
          fb_decoded E ''Response''
            (plain_call E [] []
               \<lparr>Method = ''POST'',
                target = URL (FacebookAPIBaseURL @ ''/'' @ pageID @ ''/photos'') [],
                headers = [multipart_content],
                payload = MultipartBody
                  ([(''access_token'', fb_AccessToken c)] @
                   (if message \<noteq> [] then [(''message'', message)] else []) @
                   [(''source'', contents)])\<rparr>
               w))"

text \<open>\<^verbatim>\<open>CommentOnPost\<close>, lines 182-212, and \<^verbatim>\<open>ReplyToComment\<close>, lines 215-219, which calls
  it.\<close>

definition CommentOnPost ::
  "env \<Rightarrow> FaceBookClient \<Rightarrow> string \<Rightarrow> string \<Rightarrow> world \<Rightarrow>
   (json option \<times> error option) \<times> world" where
  "CommentOnPost E c postID message w =
     fb_decoded E ''Response''
       (plain_call E [] []
          \<lparr>Method = ''POST'',
           target = URL (FacebookAPIBaseURL @ ''/'' @ postID @ ''/comments'') [],
           headers = [form_content],
           payload = FormBody [(''access_token'', fb_AccessToken c), (''message'', message)]\<rparr>
          w)"

definition ReplyToComment_Facebook ::
  "env \<Rightarrow> FaceBookClient \<Rightarrow> string \<Rightarrow> string \<Rightarrow> world \<Rightarrow>
   (json option \<times> error option) \<times> world" where
  "ReplyToComment_Facebook E c commentID message w = CommentOnPost E c commentID message w"

text \<open>\<^verbatim>\<open>GetComments\<close>, lines 246-276.\<close>

definition GetComments_Facebook ::
  "env \<Rightarrow> FaceBookClient \<Rightarrow> string \<Rightarrow> int \<Rightarrow> world \<Rightarrow>
   (json option \<times> error option) \<times> world" where
  "GetComments_Facebook E c postID limit w =
     fb_decoded E ''CommentsResponse''
       (plain_call E [] []
          \<lparr>Method = ''GET'',
           target = URL (FacebookAPIBaseURL @ ''/'' @ postID @ ''/comments'')
                      ([(''access_token'', fb_AccessToken c)] @
                       (if limit > 0 then [(''limit'', itoa limit)] else [])),
           headers = [], payload = NoBody\<rparr>
          w)"

text \<open>\<^verbatim>\<open>GetPostInsights\<close>, lines 291-322.\<close>

definition GetPostInsights ::
  "env \<Rightarrow> FaceBookClient \<Rightarrow> string \<Rightarrow> world \<Rightarrow> (json option \<times> error option) \<times> world" where
  "GetPostInsights E c postID w =
     fb_decoded E ''PostInsights''
       (plain_call E [] []
          \<lparr>Method = ''GET'',
           target = URL (FacebookAPIBaseURL @ ''/'' @ postID @ ''/insights'')
                      [(''access_token'', fb_AccessToken c),
                       (''metric'', ''post_impressions,post_impressions_unique,'' @
                                    ''post_reactions_by_type_total,post_clicks,'' @
                                    ''post_engaged_users'')],
           headers = [], payload = NoBody\<rparr>
          w)"

text \<open>\<^verbatim>\<open>GetPageInsights\<close>, lines 337-380.\<close>

definition GetPageInsights ::
  "env \<Rightarrow> FaceBookClient \<Rightarrow> string \<Rightarrow> string list \<Rightarrow> string \<Rightarrow> world \<Rightarrow>
   (json option \<times> error option) \<times> world" where
  "GetPageInsights E c pageID metrics0 period w =
     (let metrics = (if length metrics0 = 0
                     then [''page_impressions'', ''page_impressions_unique'',
                           ''page_engaged_users'', ''page_fan_adds'']
                     else metrics0) in
      fb_decoded E ''PageInsights''
        (plain_call E [] []
           \<lparr>Method = ''GET'',
            target = URL (FacebookAPIBaseURL @ ''/'' @ pageID @ ''/insights'')
                       ([(''access_token'', fb_AccessToken c),
                         (''metric'', Join metrics '','')] @
                        (if period \<noteq> [] then [(''period'', period)] else [])),
            headers = [], payload = NoBody\<rparr>
           w))"

text \<open>\<^verbatim>\<open>GetPageInfo\<close>, lines 400-428.\<close>

definition GetPageInfo ::
  "env \<Rightarrow> FaceBookClient \<Rightarrow> string \<Rightarrow> world \<Rightarrow> (json option \<times> error option) \<times> world" where
  "GetPageInfo E c pageID w =
     fb_decoded E ''Page''
       (plain_call E [] []
          \<lparr>Method = ''GET'',
           target = URL (FacebookAPIBaseURL @ ''/'' @ pageID)
                      [(''access_token'', fb_AccessToken c),
                       (''fields'', ''id,name,category,category_list,about,description,'' @
                                    ''fan_count,followers_count,link'')],
           headers = [], payload = NoBody\<rparr>
          w)"

text \<open>\<^verbatim>\<open>DeletePost\<close>, lines 431-458.\<close>

definition DeletePost ::
  "env \<Rightarrow> FaceBookClient \<Rightarrow> string \<Rightarrow> world \<Rightarrow> (json option \<times> error option) \<times> world" where
  "DeletePost E c postID w =
     fb_decoded E ''Response''
       (plain_call E [] []
          \<lparr>Method = ''DELETE'',
           target = URL (FacebookAPIBaseURL @ ''/'' @ postID)
                      [(''access_token'', fb_AccessToken c)],
           headers = [], payload = NoBody\<rparr>
          w)"

subsection \<open>The TikTok and YouTube clients\<close>

text \<open>The context argument of every method is left out: it does not change what is sent. A
  nil pointer of \<^verbatim>\<open>PostData\<close> and \<^verbatim>\<open>UpdateData\<close> is \<open>None\<close>. Writing into the buffer of the
  multipart form cannot fail, so the errors of \<^verbatim>\<open>CreateFormFile\<close>, \<^verbatim>\<open>CreateFormField\<close>, \<^verbatim>\<open>Write\<close>
  and \<^verbatim>\<open>writer.Close\<close> have no branch here, and neither has the error of \<^verbatim>\<open>json.Marshal\<close> on
  maps of strings. The entries of a map are in the order of the source. Where a wrapper goes on to compute figures from the value it decoded,
  without another request and without an error, the model returns the decoded value.\<close>

record PostData =
  pd_VideoPath :: string
  pd_Title :: string
  pd_Description :: string
  pd_Tags :: "string list"
  pd_Privacy :: string
  pd_ScheduleTime :: "Time option"

record UpdateData =
  ud_Title :: "string option"
  ud_Description :: "string option"
  ud_Tags :: "string list option"
  ud_Privacy :: "string option"

record TikTokClient =
  tt_accessToken :: string
  tt_apiKey :: string
  tt_baseURL :: string

definition NewTikTokClient :: "string \<Rightarrow> string \<Rightarrow> TikTokClient" where
  "NewTikTokClient accessToken apiKey =
     \<lparr>tt_accessToken = accessToken, tt_apiKey = apiKey,
      tt_baseURL = ''https://open-api.tiktok.com/v2''\<rparr>"

definition api_key :: "TikTokClient \<Rightarrow> string \<times> string" where
  "api_key c = (''x-api-key'', tt_apiKey c)"

text \<open>\<^verbatim>\<open>m[k] = *p\<close> under \<^verbatim>\<open>if p != nil\<close>.\<close>

definition set_if :: "string \<Rightarrow> json option \<Rightarrow> (string \<times> json) list \<Rightarrow> (string \<times> json) list" where
  "set_if k p m = (case p of None \<Rightarrow> m | Some v \<Rightarrow> set_entry k v m)"

definition string_array :: "string list \<Rightarrow> json" where
  "string_array xs = JArray (map JString xs)"

text \<open>\<^verbatim>\<open>CreatePost\<close>, lines 79-152.\<close>

definition CreatePost_TikTok ::
  "env \<Rightarrow> TikTokClient \<Rightarrow> PostData \<Rightarrow> world \<Rightarrow> (error + string) \<times> world" where
  "CreatePost_TikTok E c post w =
     (case os_Open E (pd_VideoPath post) of
        Some e \<Rightarrow> (Inl (Error (''failed to open video file: '' @ e)), w)
      | None \<Rightarrow>
         (case io_Copy E (pd_VideoPath post) of
            Inl e \<Rightarrow> (Inl (Error (''failed to copy file content: '' @ e)), w)
          | Inr contents \<Rightarrow>
              and_then
                (decoded E ''struct{Data struct{VideoID string}}'' ''failed to decode response: ''
                   (status_call E ''failed to create request: '' ''request failed: ''
                      \<lparr>Method = ''POST'', target = URL (tt_baseURL c @ ''/video/upload/'') [],
                       headers = [multipart_content, bearer (tt_accessToken c), api_key c],
                       payload = MultipartBody
                         ([(''video'', contents), (''title'', pd_Title post),
                           (''description'', pd_Description post)] @
                          map (\<lambda>tag. (''tags'', tag)) (pd_Tags post) @
                          [(''privacy_level'', pd_Privacy post)] @
                          (case pd_ScheduleTime post of
                             None \<Rightarrow> []
                           | Some t \<Rightarrow> [(''schedule_time'', RFC3339 E t)]))\<rparr>
                      [200, 201] (status_body ''upload failed with status '' '': '') w))
                (\<lambda>result. Inr (str_field ''video_id'' (json_field ''data'' result)))))"

text \<open>\<^verbatim>\<open>ReplyToComment\<close>, lines 155-198.\<close>

definition ReplyToComment_TikTok ::
  "env \<Rightarrow> TikTokClient \<Rightarrow> string \<Rightarrow> string \<Rightarrow> string \<Rightarrow> world \<Rightarrow> (error + string) \<times> world"
  where
  "ReplyToComment_TikTok E c postID commentID replyText w =
     and_then
       (decoded E ''struct{Data struct{CommentID string}}'' ''failed to decode response: ''
          (status_call E ''failed to create request: '' ''request failed: ''
             \<lparr>Method = ''POST'', target = URL (tt_baseURL c @ ''/comment/reply/'') [],
              headers = [json_content, bearer (tt_accessToken c), api_key c],
              payload = JsonBody (JObject [(''comment_id'', JString commentID),
                                           (''text'', JString replyText),
                                           (''video_id'', JString postID)])\<rparr>
             [200, 201] (status_body ''reply failed with status '' '': '') w))
       (\<lambda>result. Inr (str_field ''comment_id'' (json_field ''data'' result)))"

text \<open>\<^verbatim>\<open>GetPostStats\<close>, lines 201-259; the value returned is the one decoded at line 238.\<close>

definition GetPostStats_TikTok ::
  "env \<Rightarrow> TikTokClient \<Rightarrow> string \<Rightarrow> world \<Rightarrow> (error + json) \<times> world" where
  "GetPostStats_TikTok E c postID w =
     decoded E ''struct{Data struct{Stats; Demographics}}'' ''failed to decode response: ''
       (status_call E ''failed to create request: '' ''request failed: ''
          \<lparr>Method = ''GET'',
           target = URL (tt_baseURL c @ ''/video/stats/?video_id='' @ postID) [],
           headers = [bearer (tt_accessToken c), api_key c], payload = NoBody\<rparr>
          [200] (status_body ''stats request failed with status '' '': '') w)"

text \<open>\<^verbatim>\<open>SearchContent\<close>, lines 262-334; the value returned is the one decoded at line 302.\<close>

definition SearchContent_TikTok ::
  "env \<Rightarrow> TikTokClient \<Rightarrow> string \<Rightarrow> world \<Rightarrow> (error + json) \<times> world" where
  "SearchContent_TikTok E c query w =
     decoded E ''struct{Data struct{Videos []struct}}'' ''failed to decode response: ''
       (status_call E ''failed to create request: '' ''request failed: ''
          \<lparr>Method = ''GET'',
           target = URL (tt_baseURL c @ ''/search/videos/?query='' @ query) [],
           headers = [bearer (tt_accessToken c), api_key c], payload = NoBody\<rparr>
          [200] (status_body ''search request failed with status '' '': '') w)"

text \<open>\<^verbatim>\<open>DeleteContent\<close>, lines 337-368.\<close>

definition DeleteContent_TikTok ::
  "env \<Rightarrow> TikTokClient \<Rightarrow> string \<Rightarrow> world \<Rightarrow> (error + unit) \<times> world" where
  "DeleteContent_TikTok E c contentID w =
     finished
       (status_call E ''failed to create request: '' ''request failed: ''
          \<lparr>Method = ''DELETE'', target = URL (tt_baseURL c @ ''/video/delete/'') [],
           headers = [json_content, bearer (tt_accessToken c), api_key c],
           payload = JsonBody (JObject [(''video_id'', JString contentID)])\<rparr>
          [200] (status_body ''delete failed with status '' '': '') w)"

text \<open>\<^verbatim>\<open>UpdateContent\<close>, lines 371-415.\<close>

definition UpdateContent_TikTok ::
  "env \<Rightarrow> TikTokClient \<Rightarrow> string \<Rightarrow> UpdateData \<Rightarrow> world \<Rightarrow> (error + unit) \<times> world" where
  "UpdateContent_TikTok E c contentID data w =
     finished
       (status_call E ''failed to create request: '' ''request failed: ''
          \<lparr>Method = ''PUT'', target = URL (tt_baseURL c @ ''/video/update/'') [],
           headers = [json_content, bearer (tt_accessToken c), api_key c],
           payload = JsonBody (JObject
             (set_if ''privacy_level'' (map_option JString (ud_Privacy data))
                (set_if ''tags'' (map_option string_array (ud_Tags data))
                   (set_if ''description'' (map_option JString (ud_Description data))
                      (set_if ''title'' (map_option JString (ud_Title data))
                         [(''video_id'', JString contentID)])))))\<rparr>
          [200] (status_body ''update failed with status '' '': '') w)"

record YouTubeClient =
  yt_accessToken :: string
  yt_baseURL :: string

definition NewYouTubeClient :: "string \<Rightarrow> YouTubeClient" where
  "NewYouTubeClient accessToken =
     \<lparr>yt_accessToken = accessToken, yt_baseURL = ''https://www.googleapis.com/youtube/v3''\<rparr>"

text \<open>\<^verbatim>\<open>CreatePost\<close>, lines 434-542. The request made at line 461 for the metadata is never
  sent: only its making can fail. The one request sent is the multipart upload, whose
  first part is the text of the metadata.\<close>

definition video_metadata :: "env \<Rightarrow> PostData \<Rightarrow> json" where
  "video_metadata E post =
     JObject
       [(''snippet'', JObject [(''title'', JString (pd_Title post)),
                               (''description'', JString (pd_Description post)),
                               (''tags'', string_array (pd_Tags post))]),
        (''status'', JObject
           (set_if ''publishAt'' (map_option (\<lambda>t. JString (RFC3339 E t)) (pd_ScheduleTime post))
              [(''privacyStatus'', JString (pd_Privacy post))]))]"

definition CreatePost_YouTube ::
  "env \<Rightarrow> YouTubeClient \<Rightarrow> PostData \<Rightarrow> world \<Rightarrow> (error + string) \<times> world" where
  "CreatePost_YouTube E c post w =
     (let metaData = video_metadata E post in
      case NewRequest E ''POST'' (URL (yt_baseURL c @ ''/videos?part=snippet,status'') [])
             (JsonBody metaData) of
        Inl e \<Rightarrow> (Inl (Error (''failed to create metadata request: '' @ e)), w)
      | Inr metaReq \<Rightarrow>
         (case os_Open E (pd_VideoPath post) of
            Some e \<Rightarrow> (Inl (Error (''failed to open video file: '' @ e)), w)
          | None \<Rightarrow>
             (case io_Copy E (pd_VideoPath post) of
                Inl e \<Rightarrow> (Inl (Error (''failed to copy file content: '' @ e)), w)
              | Inr contents \<Rightarrow>
                  and_then
                    (decoded E ''struct{ID string}'' ''failed to decode response: ''
                       (status_call E ''failed to create upload request: ''
                          ''upload request failed: ''
                          \<lparr>Method = ''POST'',
                           target = URL (''https://www.googleapis.com/upload/youtube/v3/videos'' @
                                         ''?uploadType=multipart&part=snippet,status'') [],
                           headers = [multipart_content, bearer (yt_accessToken c)],
                           payload = MultipartBody [(''metadata'', Marshal E metaData),
                                                    (''media'', contents)]\<rparr>
                          [200, 201] (status_body ''upload failed with status '' '': '') w))
                    (\<lambda>result. Inr (str_field ''id'' result)))))"

text \<open>\<^verbatim>\<open>ReplyToComment\<close>, lines 545-586; \<^verbatim>\<open>postID\<close> is not used.\<close>

definition ReplyToComment_YouTube ::
  "env \<Rightarrow> YouTubeClient \<Rightarrow> string \<Rightarrow> string \<Rightarrow> string \<Rightarrow> world \<Rightarrow> (error + string) \<times> world"
  where
  "ReplyToComment_YouTube E c postID commentID replyText w =
     and_then
       (decoded E ''struct{ID string}'' ''failed to decode response: ''
          (status_call E ''failed to create request: '' ''request failed: ''
             \<lparr>Method = ''POST'', target = URL (yt_baseURL c @ ''/comments?part=snippet'') [],
              headers = [json_content, bearer (yt_accessToken c)],
              payload = JsonBody (JObject
                [(''snippet'', JObject [(''parentId'', JString commentID),
                                        (''textOriginal'', JString replyText)])])\<rparr>
             [200, 201] (status_body ''reply failed with status '' '': '') w))
       (\<lambda>result. Inr (str_field ''id'' result))"

text \<open>\<^verbatim>\<open>GetPostStats\<close>, lines 589-662; the value returned is the \<^verbatim>\<open>Statistics\<close> of the first
  item decoded at line 626.\<close>

definition GetPostStats_YouTube ::
  "env \<Rightarrow> YouTubeClient \<Rightarrow> string \<Rightarrow> world \<Rightarrow> (error + json) \<times> world" where
  "GetPostStats_YouTube E c postID w =
     and_then
       (decoded E ''struct{Items []struct{Statistics}}'' ''failed to decode stats response: ''
          (status_call E ''failed to create stats request: '' ''stats request failed: ''
             \<lparr>Method = ''GET'',
              target = URL (yt_baseURL c @ ''/videos?part=statistics&id='' @ postID) [],
              headers = [bearer (yt_accessToken c)], payload = NoBody\<rparr>
             [200] (status_body ''stats request failed with status '' '': '') w))
       (\<lambda>statsResult.
          case json_field ''items'' statsResult of
            JArray (item # rest) \<Rightarrow> Inr (json_field ''statistics'' item)
          | _ \<Rightarrow> Inl (Error (''no stats found for video ID: '' @ postID)))"

text \<open>\<^verbatim>\<open>SearchContent\<close>, lines 665-740; the value returned is the one decoded at line 702.\<close>

definition SearchContent_YouTube ::
  "env \<Rightarrow> YouTubeClient \<Rightarrow> string \<Rightarrow> world \<Rightarrow> (error + json) \<times> world" where
  "SearchContent_YouTube E c query w =
     decoded E ''struct{Items []struct{ID; Snippet}}'' ''failed to decode response: ''
       (status_call E ''failed to create request: '' ''request failed: ''
          \<lparr>Method = ''GET'',
           target = URL (yt_baseURL c @ ''/search?part=snippet&q='' @ query @ ''&type=video'') [],
           headers = [bearer (yt_accessToken c)], payload = NoBody\<rparr>
          [200] (status_body ''search failed with status '' '': '') w)"

text \<open>\<^verbatim>\<open>DeleteContent\<close>, lines 743-763.\<close>

definition DeleteContent_YouTube ::
  "env \<Rightarrow> YouTubeClient \<Rightarrow> string \<Rightarrow> world \<Rightarrow> (error + unit) \<times> world" where
  "DeleteContent_YouTube E c contentID w =
     finished
       (status_call E ''failed to create request: '' ''request failed: ''
          \<lparr>Method = ''DELETE'', target = URL (yt_baseURL c @ ''/videos?id='' @ contentID) [],
           headers = [bearer (yt_accessToken c)], payload = NoBody\<rparr>
          [200, 204] (status_body ''delete failed with status '' '': '') w)"

text \<open>\<^verbatim>\<open>UpdateContent\<close>, lines 766-816.\<close>

definition UpdateContent_YouTube ::
  "env \<Rightarrow> YouTubeClient \<Rightarrow> string \<Rightarrow> UpdateData \<Rightarrow> world \<Rightarrow> (error + unit) \<times> world" where
  "UpdateContent_YouTube E c contentID data w =
     finished
       (status_call E ''failed to create request: '' ''request failed: ''
          \<lparr>Method = ''PUT'', target = URL (yt_baseURL c @ ''/videos?part=snippet,status'') [],
           headers = [json_content, bearer (yt_accessToken c)],
           payload = JsonBody (JObject
             [(''id'', JString contentID),
              (''snippet'', JObject
                 (set_if ''tags'' (map_option string_array (ud_Tags data))
                    (set_if ''description'' (map_option JString (ud_Description data))
                       (set_if ''title'' (map_option JString (ud_Title data)) [])))),
              (''status'', JObject
                 (set_if ''privacyStatus'' (map_option JString (ud_Privacy data)) []))])\<rparr>
          [200] (status_body ''update failed with status '' '': '') w)"

subsection \<open>The Reddit client\<close>

text \<open>The client keeps the access token and the time at which it expires; \<^verbatim>\<open>Authenticate\<close>
  writes both, so the functions return the client. Every endpoint wrapper goes through
  \<^verbatim>\<open>makeRequest\<close>, which authenticates first: a wrapper sends the token request, when the
  token is missing or has expired, and then its own request.\<close>

record RedditClient =
  rc_ClientID :: string
  rc_ClientSecret :: string
  rc_Username :: string
  rc_Password :: string
  rc_UserAgent :: string
  rc_AccessToken :: string
  rc_TokenExpiry :: Time

text \<open>\<^verbatim>\<open>NewRedditClient\<close>, lines 850-859: the token is empty and the expiry is the zero
  \<^verbatim>\<open>time.Time\<close>, which is before every \<^verbatim>\<open>time.Now()\<close>; it is never read while the token is
  empty.\<close>

definition NewRedditClient ::
  "string \<Rightarrow> string \<Rightarrow> string \<Rightarrow> string \<Rightarrow> string \<Rightarrow> RedditClient" where
  "NewRedditClient clientID clientSecret username password userAgent =
     \<lparr>rc_ClientID = clientID, rc_ClientSecret = clientSecret, rc_Username = username,
      rc_Password = password, rc_UserAgent = userAgent, rc_AccessToken = [],
      rc_TokenExpiry = 0\<rparr>"

text \<open>\<^verbatim>\<open>req.SetBasicAuth(username, password)\<close>.\<close>

definition basic_auth :: "env \<Rightarrow> string \<Rightarrow> string \<Rightarrow> string \<times> string" where
  "basic_auth E username password =
     (''Authorization'', ''Basic '' @ base64 E (username @ '':'' @ password))"

text \<open>\<^verbatim>\<open>Authenticate\<close>, lines 862-909.\<close>

definition Authenticate ::
  "env \<Rightarrow> RedditClient \<Rightarrow> world \<Rightarrow> (error + unit) \<times> RedditClient \<times> world" where
  "Authenticate E c w =
     (if rc_AccessToken c \<noteq> [] \<and> now E (trace w) < rc_TokenExpiry c then (Inr (), c, w)
      else
        case decoded E ''struct{AccessToken string; TokenType string; ExpiresIn int; Scope string}''
               []
               (status_call E [] []
                  \<lparr>Method = ''POST'',
                   target = URL ''https://www.reddit.com/api/v1/access_token'' [],
                   headers = [basic_auth E (rc_ClientID c) (rc_ClientSecret c),
                              (''User-Agent'', rc_UserAgent c), form_content],
                   payload = FormBody [(''grant_type'', ''password''),
                                       (''username'', rc_Username c),
                                       (''password'', rc_Password c)]\<rparr>
                  [200]
                  (status_body ''authentication failed with status code '' '': '') w) of
          (Inl e, w1) \<Rightarrow> (Inl e, c, w1)
        | (Inr result, w1) \<Rightarrow>
            (Inr (),
             c\<lparr>rc_AccessToken := str_field ''access_token'' result,
               rc_TokenExpiry := now E (trace w1) + int_field ''expires_in'' result\<rparr>,
             w1))"

text \<open>\<^verbatim>\<open>makeRequest\<close>, lines 912-961. The body is \<^verbatim>\<open>nil\<close> or a value to marshal; the query is
  written into the URL when it is not empty.\<close>

definition makeRequest ::
  "env \<Rightarrow> RedditClient \<Rightarrow> string \<Rightarrow> string \<Rightarrow> json option \<Rightarrow> url_values \<Rightarrow> world \<Rightarrow>
   (error + string) \<times> RedditClient \<times> world" where
  "makeRequest E c method_name endpoint body query w =
     (case Authenticate E c w of
        (Inl e, c1, w1) \<Rightarrow> (Inl e, c1, w1)
      | (Inr u, c1, w1) \<Rightarrow>
         (case and_then
                 (status_call E [] []
                    \<lparr>Method = method_name,
                     target = URL (''https://oauth.reddit.com'' @ endpoint) query,
                     headers = [(''User-Agent'', rc_UserAgent c1), bearer (rc_AccessToken c1)] @
                               (if method_name = ''POST'' \<or> method_name = ''PUT'' \<or>
                                   method_name = ''PATCH''
                                then [json_content] else []),
                     payload = (case body of None \<Rightarrow> NoBody | Some b \<Rightarrow> JsonBody b)\<rparr>
                    [200..299]
                    (status_body ''API request failed with status code '' '': '') w1)
                 (\<lambda>resp. Inr (Body resp)) of
            (r, w2) \<Rightarrow> (r, c1, w2)))"

text \<open>What the wrappers do with the body \<^verbatim>\<open>makeRequest\<close> returned: \<^verbatim>\<open>json.Unmarshal\<close> into the
  type named, then a step on the value.\<close>

definition reddit_result ::
  "env \<Rightarrow> string \<Rightarrow> (json \<Rightarrow> error + 'a) \<Rightarrow> (error + string) \<times> RedditClient \<times> world \<Rightarrow>
   (error + 'a) \<times> RedditClient \<times> world" where
  "reddit_result E ty f R =
     (case R of
        (Inl e, c1, w1) \<Rightarrow> (Inl e, c1, w1)
      | (Inr response, c1, w1) \<Rightarrow>
         (case decode_as E ty response of
            Inl e \<Rightarrow> (Inl (Error e), c1, w1)
          | Inr result \<Rightarrow> (f result, c1, w1)))"

text \<open>\<^verbatim>\<open>CreatePost\<close>, lines 964-1004. The form values are filled by a \<^verbatim>\<open>range\<close> over a map;
  they are listed in the order \<^verbatim>\<open>Encode\<close> writes them.\<close>

definition CreatePost_Reddit ::
  "env \<Rightarrow> RedditClient \<Rightarrow> string \<Rightarrow> string \<Rightarrow> string \<Rightarrow> string \<Rightarrow> world \<Rightarrow>
   (error + string) \<times> RedditClient \<times> world" where
  "CreatePost_Reddit E c subreddit title content kind w =
     reddit_result E ''struct{JSON struct{Data struct{ID string}}}''
       (\<lambda>result. Inr (str_field ''id'' (json_field ''data'' (json_field ''json'' result))))
       (makeRequest E c ''POST'' ''/api/submit'' None
          ([(''kind'', kind), (''sr'', subreddit)] @
           (if kind = ''self'' then [(''text'', content)] else []) @
           [(''title'', title)] @
           (if kind = ''link'' then [(''url'', content)] else []))
          w)"

text \<open>\<^verbatim>\<open>ReplyToComment\<close>, lines 1007-1039.\<close>

definition ReplyToComment_Reddit ::
  "env \<Rightarrow> RedditClient \<Rightarrow> string \<Rightarrow> string \<Rightarrow> world \<Rightarrow>
   (error + string) \<times> RedditClient \<times> world" where
  "ReplyToComment_Reddit E c commentID comment_text w =
     reddit_result E ''struct{JSON struct{Data struct{Things []struct{Data struct{ID string}}}}}''
       (\<lambda>result.
          case json_field ''things'' (json_field ''data'' (json_field ''json'' result)) of
            JArray (thing # rest) \<Rightarrow> Inr (str_field ''id'' (json_field ''data'' thing))
          | _ \<Rightarrow> Inl (Error ''no comment ID returned''))
       (makeRequest E c ''POST'' ''/api/comment'' None
          [(''api_type'', ''json''), (''text'', comment_text), (''thing_id'', commentID)] w)"

text \<open>\<^verbatim>\<open>GetSubredditStats\<close>, lines 1042-1054.\<close>

definition GetSubredditStats ::
  "env \<Rightarrow> RedditClient \<Rightarrow> string \<Rightarrow> world \<Rightarrow> (error + json) \<times> RedditClient \<times> world" where
  "GetSubredditStats E c subreddit w =
     reddit_result E ''map[string]interface{}'' Inr
       (makeRequest E c ''GET'' (''/r/'' @ subreddit @ ''/about'') None [] w)"

text \<open>\<^verbatim>\<open>GetPostStats\<close>, lines 1057-1074.\<close>

definition GetPostStats_Reddit ::
  "env \<Rightarrow> RedditClient \<Rightarrow> string \<Rightarrow> world \<Rightarrow> (error + json) \<times> RedditClient \<times> world" where
  "GetPostStats_Reddit E c postID0 w =
     (let postID = (if prefix ''t3_'' postID0 then postID0 else ''t3_'' @ postID0) in
      reddit_result E ''map[string]interface{}'' Inr
        (makeRequest E c ''GET'' ''/api/info'' None [(''id'', postID)] w))"

text \<open>\<^verbatim>\<open>GetUserInfo\<close>, lines 1077-1089.\<close>

definition GetUserInfo_Reddit ::
  "env \<Rightarrow> RedditClient \<Rightarrow> string \<Rightarrow> world \<Rightarrow> (error + json) \<times> RedditClient \<times> world" where
  "GetUserInfo_Reddit E c username w =
     reddit_result E ''map[string]interface{}'' Inr
       (makeRequest E c ''GET'' (''/user/'' @ username @ ''/about'') None [] w)"

text \<open>\<^verbatim>\<open>GetComments\<close>, lines 1092-1107.\<close>

definition GetComments_Reddit ::
  "env \<Rightarrow> RedditClient \<Rightarrow> string \<Rightarrow> string \<Rightarrow> world \<Rightarrow>
   (error + json) \<times> RedditClient \<times> world" where
  "GetComments_Reddit E c postID0 subreddit w =
     (let postID = (if prefix ''t3_'' postID0 then drop 3 postID0 else postID0) in
      reddit_result E ''[]interface{}'' Inr
        (makeRequest E c ''GET'' (''/r/'' @ subreddit @ ''/comments/'' @ postID) None [] w))"

text \<open>\<^verbatim>\<open>Vote\<close>, lines 1111-1118.\<close>

definition Vote ::
  "env \<Rightarrow> RedditClient \<Rightarrow> string \<Rightarrow> int \<Rightarrow> world \<Rightarrow> (error + unit) \<times> RedditClient \<times> world" where
  "Vote E c thing_id dir w =
     (case makeRequest E c ''POST'' ''/api/vote'' None [(''id'', thing_id), (''dir'', itoa dir)] w of
        (Inl e, c1, w1) \<Rightarrow> (Inl e, c1, w1)
      | (Inr response, c1, w1) \<Rightarrow> (Inr (), c1, w1))"

text \<open>\<^verbatim>\<open>SearchPosts\<close>, lines 1121-1147.\<close>

definition SearchPosts ::
  "env \<Rightarrow> RedditClient \<Rightarrow> string \<Rightarrow> string \<Rightarrow> int \<Rightarrow> world \<Rightarrow>
   (error + json) \<times> RedditClient \<times> world" where
  "SearchPosts E c query subreddit limit w =
     (let endpoint = (if subreddit \<noteq> [] then ''/r/'' @ subreddit @ ''/search'' else ''/search'') in
      reddit_result E ''struct{Data struct{Children []interface{}}}''
        (\<lambda>result. Inr (json_field ''children'' (json_field ''data'' result)))
        (makeRequest E c ''GET'' endpoint None [(''q'', query), (''limit'', itoa limit)] w))"

subsection \<open>Google sign-in\<close>

text \<open>The context argument is left out. A token is the JSON value of the fields of
  \<^verbatim>\<open>GoogleToken\<close>, \<^verbatim>\<open>Expiry\<close> among them.\<close>

record GoogleOAuthConfig =
  g_ClientID :: string
  g_ClientSecret :: string
  g_RedirectURL :: string
  g_Scopes :: "string list"

definition NewGoogleOAuth ::
  "string \<Rightarrow> string \<Rightarrow> string \<Rightarrow> string list \<Rightarrow> GoogleOAuthConfig" where
  "NewGoogleOAuth clientID clientSecret redirectURL scopes =
     \<lparr>g_ClientID = clientID, g_ClientSecret = clientSecret, g_RedirectURL = redirectURL,
      g_Scopes = (if length scopes = 0
                  then [''https://www.googleapis.com/auth/userinfo.profile'',
                        ''https://www.googleapis.com/auth/userinfo.email'']
                  else scopes)\<rparr>"

text \<open>Lines 1278-1280 and 1356-1358: the expiry is set from \<^verbatim>\<open>time.Now()\<close> when the token has
  a positive \<^verbatim>\<open>expires_in\<close>.\<close>

definition set_expiry :: "env \<Rightarrow> world \<Rightarrow> json \<Rightarrow> json" where
  "set_expiry E w token =
     (if int_field ''expires_in'' token > 0
        then with_field ''Expiry''
               (JNumber (real_of_int (now E (trace w) + int_field ''expires_in'' token))) token
      else token)"

text \<open>\<^verbatim>\<open>ExchangeCodeForToken\<close>, lines 1239-1283.\<close>

definition ExchangeCodeForToken_Google ::
  "env \<Rightarrow> GoogleOAuthConfig \<Rightarrow> string \<Rightarrow> world \<Rightarrow> (error + json) \<times> world" where
  "ExchangeCodeForToken_Google E g code w =
     next_call
       (decoded E ''GoogleToken'' ''failed to decode token response: ''
          (status_call E ''failed to create request: '' ''failed to send token request: ''
             \<lparr>Method = ''POST'', target = URL ''https://oauth2.googleapis.com/token'' [],
              headers = [form_content],
              payload = FormBody [(''code'', code), (''client_id'', g_ClientID g),
                                  (''client_secret'', g_ClientSecret g),
                                  (''redirect_uri'', g_RedirectURL g),
                                  (''grant_type'', ''authorization_code'')]\<rparr>
             [200] (status_body ''token request failed with status '' '': '') w))
       (\<lambda>token w1. (Inr (set_expiry E w1 token), w1))"

text \<open>\<^verbatim>\<open>GetUserInfo\<close>, lines 1286-1315, a function of the package.\<close>

definition GetUserInfo_Google :: "env \<Rightarrow> json \<Rightarrow> world \<Rightarrow> (error + json) \<times> world" where
  "GetUserInfo_Google E token w =
     decoded E ''GoogleUserInfo'' ''failed to decode user info: ''
       (status_call E ''failed to create request: '' ''failed to get user info: ''
          \<lparr>Method = ''GET'', target = URL ''https://www.googleapis.com/oauth2/v2/userinfo'' [],
           headers = [bearer (str_field ''access_token'' token)], payload = NoBody\<rparr>
          [200] (status_body ''user info request failed with status '' '': '') w)"

text \<open>\<^verbatim>\<open>RefreshToken\<close>, lines 1318-1366.\<close>

definition RefreshToken ::
  "env \<Rightarrow> GoogleOAuthConfig \<Rightarrow> string \<Rightarrow> world \<Rightarrow> (error + json) \<times> world" where
  "RefreshToken E g refreshToken w =
     next_call
       (decoded E ''GoogleToken'' ''failed to decode token response: ''
          (status_call E ''failed to create request: ''
             ''failed to send refresh token request: ''
             \<lparr>Method = ''POST'', target = URL ''https://oauth2.googleapis.com/token'' [],
              headers = [form_content],
              payload = FormBody [(''client_id'', g_ClientID g),
                                  (''client_secret'', g_ClientSecret g),
                                  (''refresh_token'', refreshToken),
                                  (''grant_type'', ''refresh_token'')]\<rparr>
             [200] (status_body ''refresh token request failed with status '' '': '') w))
       (\<lambda>token0 w1.
          let token = set_expiry E w1 token0 in
          (Inr (if str_field ''refresh_token'' token = []
                then with_field ''refresh_token'' (JString refreshToken) token
                else token), w1))"

text \<open>\<^verbatim>\<open>VerifyIDToken\<close>, lines 1369-1402, a function of the package: every status but 200 is
  answered with one fixed error.\<close>

definition VerifyIDToken :: "env \<Rightarrow> string \<Rightarrow> world \<Rightarrow> (error + json) \<times> world" where
  "VerifyIDToken E idToken w =
     decoded E ''map[string]interface{}'' ''failed to decode token info: ''
       (status_call E ''failed to create request: '' ''failed to verify ID token: ''
          \<lparr>Method = ''GET'',
           target = URL ''https://oauth2.googleapis.com/tokeninfo'' [(''id_token'', idToken)],
           headers = [], payload = NoBody\<rparr>
          [200] (\<lambda>resp. Error ''invalid ID token'') w)"

subsection \<open>The Dribbble client\<close>

record DribbbleClient =
  db_AccessToken :: string
  db_BaseURL :: string

definition NewDribbbleClient :: "string \<Rightarrow> DribbbleClient" where
  "NewDribbbleClient accessToken =
     \<lparr>db_AccessToken = accessToken, db_BaseURL = ''https://api.dribbble.com/v2''\<rparr>"

text \<open>\<^verbatim>\<open>fmt.Errorf("<what>. Status: %d, Response: %s", resp.StatusCode, string(responseBody))\<close>.\<close>

definition db_error :: "string \<Rightarrow> response \<Rightarrow> error" where
  "db_error what = status_body (what @ ''. Status: '') '', Response: ''"

text \<open>\<^verbatim>\<open>CreateShot\<close>, lines 1548-1615. Writing into the buffer of the form cannot fail, so
  the errors of \<^verbatim>\<open>CreateFormFile\<close> and \<^verbatim>\<open>writer.Close\<close> have no branch here.\<close>

definition CreateShot ::
  "env \<Rightarrow> DribbbleClient \<Rightarrow> string \<Rightarrow> string \<Rightarrow> string list \<Rightarrow> string \<Rightarrow> world \<Rightarrow>
   (error + json) \<times> world" where
  "CreateShot E c title description tags imagePath w =
     (case os_Open E imagePath of
        Some e \<Rightarrow> (Inl (Error (''failed to open image file: '' @ e)), w)
      | None \<Rightarrow>
         (case io_Copy E imagePath of
            Inl e \<Rightarrow> (Inl (Error (''failed to copy file: '' @ e)), w)
          | Inr contents \<Rightarrow>
              decoded E ''Shot'' ''failed to decode response: ''
                (status_call E ''failed to create request: '' ''failed to send request: ''
                   \<lparr>Method = ''POST'', target = URL (db_BaseURL c @ ''/shots'') [],
                    headers = [bearer (db_AccessToken c), multipart_content],
                    payload = MultipartBody
                      ([(''image'', contents), (''title'', title),
                        (''description'', description)] @
                       map (\<lambda>tag. (''tags[]'', tag)) tags)\<rparr>
                   [201] (db_error ''failed to create shot'') w)))"

text \<open>\<^verbatim>\<open>ReplyToComment\<close>, lines 1618-1662.\<close>

definition ReplyToComment_Dribbble ::
  "env \<Rightarrow> DribbbleClient \<Rightarrow> int \<Rightarrow> int \<Rightarrow> string \<Rightarrow> world \<Rightarrow> (error + json) \<times> world" where
  "ReplyToComment_Dribbble E c shotID commentID body w =
     decoded E ''Comment'' ''failed to decode response: ''
       (status_call E ''failed to create request: '' ''failed to send request: ''
          \<lparr>Method = ''POST'',
           target = URL (db_BaseURL c @ ''/shots/'' @ itoa shotID @ ''/comments/'' @
                         itoa commentID @ ''/replies'') [],
           headers = [bearer (db_AccessToken c), json_content],
           payload = JsonBody (JObject [(''body'', JString body)])\<rparr>
          [201] (db_error ''failed to reply to comment'') w)"

text \<open>\<^verbatim>\<open>GetShotStats\<close>, lines 1665-1704.\<close>

definition GetShotStats ::
  "env \<Rightarrow> DribbbleClient \<Rightarrow> int \<Rightarrow> world \<Rightarrow> (error + json) \<times> world" where
  "GetShotStats E c shotID w =
     and_then
       (decoded E ''struct{ID int64; Stats Stats}'' ''failed to decode response: ''
          (status_call E ''failed to create request: '' ''failed to send request: ''
             \<lparr>Method = ''GET'', target = URL (db_BaseURL c @ ''/shots/'' @ itoa shotID) [],
              headers = [bearer (db_AccessToken c)], payload = NoBody\<rparr>
             [200] (db_error ''failed to get shot stats'') w))
       (\<lambda>shot. Inr (json_field ''statistics'' shot))"

text \<open>\<^verbatim>\<open>ListShots\<close>, lines 1707-1739.\<close>

definition ListShots ::
  "env \<Rightarrow> DribbbleClient \<Rightarrow> int \<Rightarrow> int \<Rightarrow> string \<Rightarrow> world \<Rightarrow> (error + json) \<times> world" where
  "ListShots E c page perPage timeframe w =
     decoded E ''[]Shot'' ''failed to decode response: ''
       (status_call E ''failed to create request: '' ''failed to send request: ''
          \<lparr>Method = ''GET'',
           target = URL (db_BaseURL c @ ''/shots?page='' @ itoa page @ ''&per_page='' @
                         itoa perPage @ ''&timeframe='' @ timeframe) [],
           headers = [bearer (db_AccessToken c)], payload = NoBody\<rparr>
          [200] (db_error ''failed to list shots'') w)"

text \<open>\<^verbatim>\<open>FollowUser\<close>, lines 1742-1766.\<close>

definition FollowUser_Dribbble ::
  "env \<Rightarrow> DribbbleClient \<Rightarrow> int \<Rightarrow> world \<Rightarrow> (error + unit) \<times> world" where
  "FollowUser_Dribbble E c userID w =
     finished
       (status_call E ''failed to create request: '' ''failed to send request: ''
          \<lparr>Method = ''PUT'',
           target = URL (db_BaseURL c @ ''/users/'' @ itoa userID @ ''/follow'') [],
           headers = [bearer (db_AccessToken c)], payload = NoBody\<rparr>
          [200, 201] (db_error ''failed to follow user'') w)"

text \<open>\<^verbatim>\<open>LikeShot\<close>, lines 1769-1793.\<close>

definition LikeShot ::
  "env \<Rightarrow> DribbbleClient \<Rightarrow> int \<Rightarrow> world \<Rightarrow> (error + unit) \<times> world" where
  "LikeShot E c shotID w =
     finished
       (status_call E ''failed to create request: '' ''failed to send request: ''
          \<lparr>Method = ''POST'',
           target = URL (db_BaseURL c @ ''/shots/'' @ itoa shotID @ ''/like'') [],
           headers = [bearer (db_AccessToken c)], payload = NoBody\<rparr>
          [201] (db_error ''failed to like shot'') w)"

subsection \<open>instagram.go: tokens and insights\<close>

text \<open>The token wrappers store what they got in the client, so they return the client. The
  insight wrappers fold the decoded metrics into a struct of counters and
  \<^verbatim>\<open>GetUserEngagement\<close> computes sums and averages from them (lines 567-597, 650-678 and
  735-803), without another request and without an error: the model returns the decoded
  values.\<close>

definition InstagramAPIURL :: string where
  "InstagramAPIURL = ''https://api.instagram.com/oauth/access_token''"

text \<open>\<^verbatim>\<open>GetAccessToken\<close>, lines 88-123.\<close>

definition GetAccessToken_Instagram ::
  "env \<Rightarrow> InstagramClient \<Rightarrow> string \<Rightarrow> world \<Rightarrow> (error + json) \<times> InstagramClient \<times> world"
  where
  "GetAccessToken_Instagram E c code w =
     (case decoded E ''TokenResponse'' []
             (status_call E [] []
                \<lparr>Method = ''POST'', target = URL InstagramAPIURL [], headers = [form_content],
                 payload = FormBody [(''client_id'', ig_AppID c),
                                     (''client_secret'', ig_AppSecret c),
                                     (''grant_type'', ''authorization_code''),
                                     (''redirect_uri'', ig_RedirectURI c),
                                     (''code'', code)]\<rparr>
                [200] (ig_status_error ''failed to get access token'') w) of
        (Inl e, w1) \<Rightarrow> (Inl e, c, w1)
      | (Inr tokenResp, w1) \<Rightarrow>
          (Inr tokenResp,
           c\<lparr>ig_AccessToken := str_field ''access_token'' tokenResp,
             ig_UserID := itoa (int_field ''user_id'' tokenResp)\<rparr>,
           w1))"

text \<open>\<^verbatim>\<open>GetLongLivedAccessToken\<close>, lines 126-162.\<close>

definition GetLongLivedAccessToken ::
  "env \<Rightarrow> InstagramClient \<Rightarrow> world \<Rightarrow> (error + json) \<times> InstagramClient \<times> world" where
  "GetLongLivedAccessToken E c w =
     (if ig_AccessToken c = [] then (Inl (Error ''no access token available''), c, w)
      else
        case decoded E ''TokenResponse'' []
               (status_call E [] []
                  \<lparr>Method = ''GET'',
                   target = URL (BaseURL @ ''/access_token'')
                              [(''grant_type'', ''ig_exchange_token''),
                               (''client_secret'', ig_AppSecret c),
                               (''access_token'', ig_AccessToken c)],
                   headers = [], payload = NoBody\<rparr>
                  [200] (ig_status_error ''failed to get long lived token'') w) of
          (Inl e, w1) \<Rightarrow> (Inl e, c, w1)
        | (Inr tokenResp, w1) \<Rightarrow>
            (Inr tokenResp, c\<lparr>ig_AccessToken := str_field ''access_token'' tokenResp\<rparr>, w1))"

text \<open>\<^verbatim>\<open>RefreshAccessToken\<close>, lines 165-200.\<close>

definition RefreshAccessToken_Instagram ::
  "env \<Rightarrow> InstagramClient \<Rightarrow> world \<Rightarrow> (error + json) \<times> InstagramClient \<times> world" where
  "RefreshAccessToken_Instagram E c w =
     (if ig_AccessToken c = [] then (Inl (Error ''no access token available''), c, w)
      else
        case decoded E ''TokenResponse'' []
               (status_call E [] []
                  \<lparr>Method = ''GET'',
                   target = URL (BaseURL @ ''/refresh_access_token'')
                              [(''grant_type'', ''ig_refresh_token''),
                               (''access_token'', ig_AccessToken c)],
                   headers = [], payload = NoBody\<rparr>
                  [200] (ig_status_error ''failed to refresh token'') w) of
          (Inl e, w1) \<Rightarrow> (Inl e, c, w1)
        | (Inr tokenResp, w1) \<Rightarrow>
            (Inr tokenResp, c\<lparr>ig_AccessToken := str_field ''access_token'' tokenResp\<rparr>, w1))"

text \<open>\<^verbatim>\<open>GetMediaInsights\<close>, lines 523-598.\<close>

definition GetMediaInsights ::
  "env \<Rightarrow> InstagramClient \<Rightarrow> string \<Rightarrow> world \<Rightarrow> (error + json) \<times> world" where
  "GetMediaInsights E c mediaID w =
     (if ig_AccessToken c = [] then (Inl (Error ''access token is required''), w)
      else
        decoded E ''InsightsData'' []
          (status_call E [] []
             \<lparr>Method = ''GET'',
              target = URL (BaseURL @ ''/'' @ mediaID @ ''/insights'')
                         [(''metric'', ''engagement,impressions,reach,saved,video_views,'' @
                                       ''likes,comments,shares''),
                          (''access_token'', ig_AccessToken c)],
              headers = [], payload = NoBody\<rparr>
             [200] (ig_status_error ''failed to get media insights'') w))"

text \<open>\<^verbatim>\<open>GetUserInsights\<close>, lines 601-679.\<close>

definition GetUserInsights ::
  "env \<Rightarrow> InstagramClient \<Rightarrow> string \<Rightarrow> world \<Rightarrow> (error + json) \<times> world" where
  "GetUserInsights E c period0 w =
     (if ig_AccessToken c = [] \<or> ig_UserID c = []
        then (Inl (Error ''access token and user ID are required''), w)
      else
        let period = (if period0 = [] then ''day'' else period0) in
        decoded E ''InsightsData'' []
          (status_call E [] []
             \<lparr>Method = ''GET'',
              target = URL (BaseURL @ ''/'' @ ig_UserID c @ ''/insights'')
                         [(''metric'', ''follower_count,profile_views,reach,impressions,'' @
                                       ''website_clicks''),
                          (''period'', period),
                          (''access_token'', ig_AccessToken c)],
              headers = [], payload = NoBody\<rparr>
             [200] (ig_status_error ''failed to get user insights'') w))"

text \<open>\<^verbatim>\<open>GetUserEngagement\<close>, lines 682-804. \<open>media_insights\<close> is the loop of lines 743-755
  over the media left, with the insights collected so far: a medium whose insights cannot
  be got is skipped. The error of \<^verbatim>\<open>GetUserInsights\<close> is dropped too (lines 758-762), the
  zero struct taking the place of its result.\<close>

fun media_insights ::
  "env \<Rightarrow> InstagramClient \<Rightarrow> json list \<Rightarrow> json list \<Rightarrow> world \<Rightarrow> json list \<times> world" where
  "media_insights E c [] collected w = (collected, w)"
| "media_insights E c (media # rest) collected w =
     (case GetMediaInsights E c (str_field ''id'' media) w of
        (Inl e, w1) \<Rightarrow> media_insights E c rest collected w1
      | (Inr insights, w1) \<Rightarrow> media_insights E c rest (collected @ [insights]) w1)"

definition array_items :: "json \<Rightarrow> json list" where
  "array_items v = (case v of JArray xs \<Rightarrow> xs | _ \<Rightarrow> [])"

definition GetUserEngagement ::
  "env \<Rightarrow> InstagramClient \<Rightarrow> int \<Rightarrow> world \<Rightarrow> (error + json) \<times> world" where
  "GetUserEngagement E c days0 w =
     (if ig_AccessToken c = [] \<or> ig_UserID c = []
        then (Inl (Error ''access token and user ID are required''), w)
      else
        let days = (if days0 \<le> 0 then 30 else days0) in
        next_call
          (decoded E ''MediaData'' []
             (status_call E [] []
                \<lparr>Method = ''GET'',
                 target = URL (BaseURL @ ''/'' @ ig_UserID c @ ''/media'')
                            [(''fields'', ''id,media_type,timestamp''),
                             (''limit'', itoa days),
                             (''access_token'', ig_AccessToken c)],
                 headers = [], payload = NoBody\<rparr>
                [200] (ig_status_error ''failed to get media'') w))
          (\<lambda>mediaData w1.
             case media_insights E c (array_items (json_field ''data'' mediaData)) [] w1 of
               (collected, w2) \<Rightarrow>
                 (case GetUserInsights E c ''day'' w2 of
                    (Inl e, w3) \<Rightarrow>
                      (Inr (JObject [(''period_days'', JNumber (real_of_int days)),
                                     (''media'', mediaData),
                                     (''insights'', JArray collected),
                                     (''user_insights'', JObject [])]), w3)
                  | (Inr userInsights, w3) \<Rightarrow>
                      (Inr (JObject [(''period_days'', JNumber (real_of_int days)),
                                     (''media'', mediaData),
                                     (''insights'', JArray collected),
                                     (''user_insights'', userInsights)]), w3))))"

subsection \<open>linkedin.go: tokens, company pages, text posts and videos\<close>

definition TokenURL :: string where
  "TokenURL = ''https://www.linkedin.com/oauth/v2/accessToken''"

text \<open>\<^verbatim>\<open>GetAccessToken\<close>, lines 103-137. The token is stored in the client.\<close>

definition GetAccessToken_LinkedIn ::
  "env \<Rightarrow> LinkedInClient \<Rightarrow> string \<Rightarrow> world \<Rightarrow> (error + json) \<times> LinkedInClient \<times> world"
  where
  "GetAccessToken_LinkedIn E c code w =
     (case decoded E ''TokenResponse'' []
             (status_call E [] []
                \<lparr>Method = ''POST'', target = URL TokenURL [], headers = [form_content],
                 payload = FormBody [(''grant_type'', ''authorization_code''),
                                     (''code'', code),
                                     (''redirect_uri'', li_RedirectURI c),
                                     (''client_id'', li_ClientID c),
                                     (''client_secret'', li_ClientSecret c)]\<rparr>
                [200] (li_status_error ''failed to get access token'') w) of
        (Inl e, w1) \<Rightarrow> (Inl e, c, w1)
      | (Inr tokenResp, w1) \<Rightarrow>
          (Inr tokenResp, c\<lparr>li_AccessToken := str_field ''access_token'' tokenResp\<rparr>, w1))"

text \<open>\<^verbatim>\<open>RefreshAccessToken\<close>, lines 140-173.\<close>

definition RefreshAccessToken_LinkedIn ::
  "env \<Rightarrow> LinkedInClient \<Rightarrow> string \<Rightarrow> world \<Rightarrow> (error + json) \<times> LinkedInClient \<times> world"
  where
  "RefreshAccessToken_LinkedIn E c refreshToken w =
     (case decoded E ''TokenResponse'' []
             (status_call E [] []
                \<lparr>Method = ''POST'', target = URL TokenURL [], headers = [form_content],
                 payload = FormBody [(''grant_type'', ''refresh_token''),
                                     (''refresh_token'', refreshToken),
                                     (''client_id'', li_ClientID c),
                                     (''client_secret'', li_ClientSecret c)]\<rparr>
                [200] (li_status_error ''failed to refresh access token'') w) of
        (Inl e, w1) \<Rightarrow> (Inl e, c, w1)
      | (Inr tokenResp, w1) \<Rightarrow>
          (Inr tokenResp, c\<lparr>li_AccessToken := str_field ''access_token'' tokenResp\<rparr>, w1))"

text \<open>\<^verbatim>\<open>GetCompanyPages\<close>, lines 253-340. \<open>page_of\<close> is lines 318-334, the page built from the
  details of one organisation; \<open>company_pages\<close> is the loop of lines 293-337 over the
  organisations left, with the pages collected so far. An organisation whose request cannot
  be made, is not answered or whose answer does not decode is skipped; the status code of
  the answer is not read.\<close>

definition page_of :: "string \<Rightarrow> (string \<times> json) list \<Rightarrow> error + json" where
  "page_of orgID pageDetails =
     (case first_localized pageDetails ''description'' of
        Inl p \<Rightarrow> Inl p
      | Inr description \<Rightarrow>
          Inr (JObject [(''id'', JString orgID),
                        (''name'', JString (case map_of pageDetails ''name'' of
                                              Some (JString name) \<Rightarrow> name | _ \<Rightarrow> [])),
                        (''description'', JString description)]))"

fun company_pages ::
  "env \<Rightarrow> LinkedInClient \<Rightarrow> json list \<Rightarrow> json list \<Rightarrow> world \<Rightarrow> (error + json list) \<times> world"
  where
  "company_pages E c [] companyPages w = (Inr companyPages, w)"
| "company_pages E c (org # rest) companyPages w =
     (let orgID = str_field ''organizationTarget'' org in
      case NewRequest E ''GET'' (URL (BaseURL @ ''/organizations/'' @ orgID) []) NoBody of
        Inl e \<Rightarrow> company_pages E c rest companyPages w
      | Inr detailsReq \<Rightarrow>
         (case Do E (li_authorize c detailsReq) w of
            (Inl e, w1) \<Rightarrow> company_pages E c rest companyPages w1
          | (Inr detailsResp, w1) \<Rightarrow>
             (case decode_map E (Body detailsResp) of
                Inl e \<Rightarrow> company_pages E c rest companyPages w1
              | Inr pageDetails \<Rightarrow>
                 (case page_of orgID pageDetails of
                    Inl p \<Rightarrow> (Inl p, w1)
                  | Inr page \<Rightarrow> company_pages E c rest (companyPages @ [page]) w1))))"

definition GetCompanyPages ::
  "env \<Rightarrow> LinkedInClient \<Rightarrow> world \<Rightarrow> (error + json list) \<times> world" where
  "GetCompanyPages E c w =
     (if li_AccessToken c = [] then (Inl (Error ''access token is required''), w)
      else
        next_call
          (decoded E ''OrganizationResponse'' []
             (status_call E [] []
                \<lparr>Method = ''GET'',
                 target = URL (BaseURL @ ''/organizationAcls?q=roleAssignee&role=ADMINISTRATOR'')
                            [],
                 headers = [bearer (li_AccessToken c)], payload = NoBody\<rparr>
                [200] (li_status_error ''failed to get company pages'') w))
          (\<lambda>orgResp w1. company_pages E c (array_items (json_field ''elements'' orgResp)) [] w1))"

text \<open>\<^verbatim>\<open>CreateTextPost\<close>, lines 343-421.\<close>

definition text_post :: "string \<Rightarrow> string \<Rightarrow> string \<Rightarrow> json" where
  "text_post authorType authorID text =
     JObject
       [(''author'', JString (''urn:li:'' @ authorType @ '':'' @ authorID)),
        (''lifecycleState'', JString ''PUBLISHED''),
        (''specificContent'', JObject
           [(''com.linkedin.ugc.ShareContent'', JObject
              [(''shareCommentary'', JObject [(''text'', JString text)]),
               (''shareMediaCategory'', JString ''NONE'')])]),
        (''visibility'', JObject
           [(''com.linkedin.ugc.MemberNetworkVisibility'', JString ''PUBLIC'')])]"

definition CreateTextPost ::
  "env \<Rightarrow> LinkedInClient \<Rightarrow> string \<Rightarrow> string \<Rightarrow> string \<Rightarrow> world \<Rightarrow>
   (error + PostResponse) \<times> LinkedInClient \<times> world" where
  "CreateTextPost E c text authorType0 authorID0 w =
     (if li_AccessToken c = [] then (Inl (Error ''access token is required''), c, w)
      else
        case resolve_author E c authorType0 authorID0 w of
          (Inl e, c1, w1) \<Rightarrow> (Inl e, c1, w1)
        | (Inr (authorType, authorID), c1, w1) \<Rightarrow>
           (case NewRequest E ''POST'' (URL UGCPostURL [])
                   (JsonBody (text_post authorType authorID text)) of
              Inl e \<Rightarrow> (Inl (Error e), c1, w1)
            | Inr req \<Rightarrow>
               (case Do E (ugc_request c1 req) w1 of
                  (Inl e, w2) \<Rightarrow> (Inl (Error e), c1, w2)
                | (Inr resp, w2) \<Rightarrow>
                   if StatusCode resp \<noteq> 201 \<and> StatusCode resp \<noteq> 200
                     then (Inl (li_status_error ''failed to create post'' resp), c1, w2)
                   else
                     (case decode_map E (Body resp) of
                        Inl e \<Rightarrow> (Inl (Error e), c1, w2)
                      | Inr postResp \<Rightarrow>
                         (case map_of postResp ''id'' of
                            Some (JString postID) \<Rightarrow>
                              (Inr \<lparr>pr_ID = postID, pr_Status = []\<rparr>, c1, w2)
                          | _ \<Rightarrow>
                              (Inl (Error ''invalid post response, no ID found''), c1, w2))))))"

text \<open>\<^verbatim>\<open>InitiateVideoUpload\<close>, lines 663-734.\<close>

definition InitiateVideoUpload ::
  "env \<Rightarrow> LinkedInClient \<Rightarrow> world \<Rightarrow> (error + string \<times> (string \<times> json) list) \<times> world" where
  "InitiateVideoUpload E c w =
     (if li_AccessToken c = [] then (Inl (Error ''access token is required''), w)
      else
        case NewRequest E ''POST'' (URL AssetUploadURL [])
               (JsonBody (register_upload_request c ''urn:li:digitalmediaRecipe:feedshare-video'')) of
          Inl e \<Rightarrow> (Inl (Error e), w)
        | Inr req \<Rightarrow>
           (case Do E (Header_Set ''Content-Type'' ''application/json'' (li_authorize c req)) w of
              (Inl e, w1) \<Rightarrow> (Inl (Error e), w1)
            | (Inr resp, w1) \<Rightarrow>
               if StatusCode resp \<noteq> 200
                 then (Inl (li_status_error ''failed to initiate video upload'' resp), w1)
               else
                 (case decode_map E (Body resp) of
                    Inl e \<Rightarrow> (Inl (Error e), w1)
                  | Inr uploadResp \<Rightarrow>
                     (case map_of uploadResp ''value'' of
                        Some (JObject val) \<Rightarrow>
                          (case map_of val ''uploadMechanism'' of
                             Some (JObject uploadMechanism) \<Rightarrow>
                               (case map_of val ''asset'' of
                                  Some (JString asset) \<Rightarrow> (Inr (asset, uploadMechanism), w1)
                                | _ \<Rightarrow> (Inl (Error ''could not find asset URN''), w1))
                           | _ \<Rightarrow> (Inl (Error ''invalid upload mechanism''), w1))
                      | _ \<Rightarrow> (Inl (Error ''invalid upload response structure''), w1)))))"

text \<open>\<^verbatim>\<open>UploadVideo\<close>, lines 737-791. Both assertions of lines 750 and 755 are of the comma-ok
  form. The \<^verbatim>\<open>PUT\<close> request gets no header.\<close>

definition UploadVideo ::
  "env \<Rightarrow> LinkedInClient \<Rightarrow> string \<Rightarrow> world \<Rightarrow> (error + string) \<times> world" where
  "UploadVideo E c videoPath w =
     (if li_AccessToken c = [] then (Inl (Error ''access token is required''), w)
      else
        case InitiateVideoUpload E c w of
          (Inl e, w1) \<Rightarrow> (Inl e, w1)
        | (Inr (assetURN, uploadMechanism), w1) \<Rightarrow>
           (case map_of uploadMechanism
                   ''com.linkedin.digitalmedia.uploading.MediaUploadHttpRequest'' of
              Some (JObject uploadInfo) \<Rightarrow>
                (case map_of uploadInfo ''uploadUrl'' of
                   Some (JString uploadURL) \<Rightarrow>
                     (case read_file E videoPath of
                        Inl e \<Rightarrow> (Inl (Error e), w1)
                      | Inr fileContents \<Rightarrow>
                         (case NewRequest E ''PUT'' (URL uploadURL []) (RawBody fileContents) of
                            Inl e \<Rightarrow> (Inl (Error e), w1)
                          | Inr uploadReq \<Rightarrow>
                             (case Do E uploadReq w1 of
                                (Inl e, w2) \<Rightarrow> (Inl (Error e), w2)
                              | (Inr resp, w2) \<Rightarrow>
                                 if StatusCode resp \<noteq> 200 \<and> StatusCode resp \<noteq> 201 \<and>
                                    StatusCode resp \<noteq> 204
                                   then (Inl (li_status_error ''failed to upload video'' resp),
                                         w2)
                                 else (Inr assetURN, w2))))
                 | _ \<Rightarrow> (Inl (Error ''could not find upload URL''), w1))
            | _ \<Rightarrow> (Inl (Error ''invalid upload mechanism format''), w1)))"

section \<open>What a run shows\<close>

text \<open>The exchanges a call added: the trace after it, without the trace before it.\<close>

definition since :: "world \<Rightarrow> world \<Rightarrow> exchange list" where
  "since w w' = drop (length (trace w)) (trace w')"

text \<open>A later state of the world keeps what was exchanged before.\<close>

definition extends :: "world \<Rightarrow> world \<Rightarrow> bool" where
  "extends w w' = prefix (trace w) (trace w')"

subsection \<open>The status poll\<close>

text \<open>The request of one poll, the poll itself (sleep, then send), and the status a polled
  outcome carries: the string under \<^verbatim>\<open>status_code\<close> if the outcome is a response whose body
  decodes to an object that has one.\<close>

definition statusReq :: "string \<Rightarrow> request" where
  "statusReq statusURL =
     \<lparr>Method = ''GET'', target = URL statusURL [], headers = [], payload = NoBody\<rparr>"

definition poll :: "env \<Rightarrow> string \<Rightarrow> world \<Rightarrow> outcome \<times> world" where
  "poll E u w = Do E (statusReq u) (Sleep 2 w)"

definition status_of :: "env \<Rightarrow> outcome \<Rightarrow> string option" where
  "status_of E r =
     (case r of
        Inl e \<Rightarrow> None
      | Inr resp \<Rightarrow>
         (case unmarshal_map E (Body resp) of
            Inl e \<Rightarrow> None
          | Inr statusData \<Rightarrow>
             (case map_of statusData ''status_code'' of
                Some (JString status) \<Rightarrow> Some status
              | _ \<Rightarrow> None)))"

definition in_progress :: "env \<Rightarrow> outcome \<Rightarrow> bool" where
  "in_progress E r =
     (case status_of E r of
        None \<Rightarrow> False
      | Some status \<Rightarrow> status \<noteq> ''FINISHED'' \<and> status \<noteq> ''ERROR'')"

text \<open>The times at which the requests of a call were sent, and the message of the error that
  ends the wait at a polled outcome that carries no status: the transport error, the decoder's
  error, or a fixed text when the object has no string under \<^verbatim>\<open>status_code\<close>.\<close>

definition sent_since :: "world \<Rightarrow> world \<Rightarrow> nat list" where
  "sent_since w w' = drop (length (sent_at w)) (sent_at w')"

definition poll_failure :: "env \<Rightarrow> outcome \<Rightarrow> string" where
  "poll_failure E r =
     (case r of
        Inl e \<Rightarrow> e
      | Inr resp \<Rightarrow>
         (case unmarshal_map E (Body resp) of
            Inl e \<Rightarrow> e
          | Inr statusData \<Rightarrow> ''invalid status response''))"

subsection \<open>Status codes and error messages\<close>

text \<open>A message names a response when it contains the decimal status code and the body.\<close>

definition names_response :: "string \<Rightarrow> response \<Rightarrow> bool" where
  "names_response msg resp =
     (sublist (itoa (StatusCode resp)) msg \<and> sublist (Body resp) msg)"

definition non_2xx :: "response \<Rightarrow> bool" where
  "non_2xx resp = (StatusCode resp < 200 \<or> 299 < StatusCode resp)"

text \<open>A message, if there is one, names a response; and a run reports the statuses outside
  a set of codes: the message returned names every response received in the run whose status
  code is not in the set.\<close>

definition named_by :: "string option \<Rightarrow> response \<Rightarrow> bool" where
  "named_by msg resp = (case msg of None \<Rightarrow> False | Some m \<Rightarrow> names_response m resp)"

text \<open>A message, if there is one, contains the body of a response.\<close>

definition wraps_body :: "string option \<Rightarrow> response \<Rightarrow> bool" where
  "wraps_body msg resp = (case msg of None \<Rightarrow> False | Some m \<Rightarrow> sublist (Body resp) m)"

definition reports_status :: "int set \<Rightarrow> exchange list \<Rightarrow> string option \<Rightarrow> bool" where
  "reports_status accepted tr msg =
     (\<forall>x \<in> set tr.
        case snd x of
          Inl e \<Rightarrow> True
        | Inr resp \<Rightarrow> StatusCode resp \<in> accepted \<or> named_by msg resp)"

text \<open>The same with the body alone, for the clients whose message has no status code; and a
  status answered with a fixed message: every response with that code makes the message the
  text.\<close>

definition reports_body :: "int set \<Rightarrow> exchange list \<Rightarrow> string option \<Rightarrow> bool" where
  "reports_body accepted tr msg =
     (\<forall>x \<in> set tr.
        case snd x of
          Inl e \<Rightarrow> True
        | Inr resp \<Rightarrow> StatusCode resp \<in> accepted \<or> wraps_body msg resp)"

definition answers_fixed :: "int \<Rightarrow> string \<Rightarrow> exchange list \<Rightarrow> string option \<Rightarrow> bool" where
  "answers_fixed code message tr msg =
     (\<forall>x \<in> set tr.
        case snd x of
          Inl e \<Rightarrow> True
        | Inr resp \<Rightarrow> StatusCode resp = code \<longrightarrow> msg = Some message)"

text \<open>The message of a result, when the result is an error.\<close>

fun error_message :: "error + 'a \<Rightarrow> string option" where
  "error_message (Inl (Error msg)) = Some msg"
| "error_message (Inl (Panic p)) = None"
| "error_message (Inr x) = None"

fun failure_message :: "error option \<Rightarrow> string option" where
  "failure_message (Some (Error msg)) = Some msg"
| "failure_message (Some (Panic p)) = None"
| "failure_message None = None"

text \<open>The exchanges of a run whose request is of some kind.\<close>

definition exchanges_of :: "(request \<Rightarrow> bool) \<Rightarrow> exchange list \<Rightarrow> exchange list" where
  "exchanges_of step tr = filter (\<lambda>x. step (fst x)) tr"

text \<open>A status outside a set answered with one text: every response with such a status
  makes the message the text.\<close>

definition reports_text :: "int set \<Rightarrow> string \<Rightarrow> exchange list \<Rightarrow> string option \<Rightarrow> bool" where
  "reports_text accepted message tr msg =
     (\<forall>x \<in> set tr.
        case snd x of
          Inl e \<Rightarrow> True
        | Inr resp \<Rightarrow> StatusCode resp \<in> accepted \<or> msg = Some message)"

definition is_text :: "string \<Rightarrow> string option \<Rightarrow> response \<Rightarrow> bool" where
  "is_text message msg resp = (msg = Some message)"

text \<open>A call that tells its rejections, for the requests that count as steps and in a way
  \<open>told\<close> of naming a response in a message: it keeps the trace, its message tells every
  response to a step with a status outside the set, and when it returns no error every
  response to a step had a status in the set.\<close>

definition telling ::
  "(request \<Rightarrow> bool) \<Rightarrow> (string option \<Rightarrow> response \<Rightarrow> bool) \<Rightarrow> int set \<Rightarrow> world \<Rightarrow>
   (error + 'a) \<times> world \<Rightarrow> bool"
  where
  "telling step told accepted w R =
     (extends w (snd R) \<and>
      (\<forall>x \<in> set (since w (snd R)).
         step (fst x) \<longrightarrow>
         (case snd x of
            Inl e \<Rightarrow> True
          | Inr resp \<Rightarrow>
              StatusCode resp \<in> accepted \<or>
              isl (fst R) \<and> told (error_message (fst R)) resp)))"

subsection \<open>The carousel\<close>

text \<open>A path ends case-insensitively with \<^verbatim>\<open>.mp4\<close>: its last four characters are a dot, an m
  of either case, a p of either case, and a 4.\<close>

definition ends_with_mp4 :: "string \<Rightarrow> bool" where
  "ends_with_mp4 path =
     (case rev path of
        c4 # c3 # c2 # c1 # front \<Rightarrow>
          c1 = CHR ''.'' \<and> (c2 = CHR ''m'' \<or> c2 = CHR ''M'') \<and>
          (c3 = CHR ''p'' \<or> c3 = CHR ''P'') \<and> c4 = CHR ''4''
      | _ \<Rightarrow> False)"

text \<open>The parameters of the child container of a path as stated: a video under \<^verbatim>\<open>video_url\<close>
  when the path ends with \<^verbatim>\<open>.mp4\<close>, an image under \<^verbatim>\<open>image_url\<close> otherwise.\<close>

definition stated_child_params :: "InstagramClient \<Rightarrow> string \<Rightarrow> url_values" where
  "stated_child_params c path =
     (if ends_with_mp4 path
        then [(''media_type'', ''VIDEO''), (''video_url'', path), (''is_carousel_item'', ''true''),
              (''access_token'', ig_AccessToken c)]
        else [(''media_type'', ''IMAGE''), (''image_url'', path), (''is_carousel_item'', ''true''),
              (''access_token'', ig_AccessToken c)])"

text \<open>The request \<open>ig_post\<close> sends to a URL, the \<^verbatim>\<open>POST\<close> exchanges of a run, and the ID a
  container response decodes to.\<close>

definition post_request :: "url \<Rightarrow> request" where
  "post_request u = \<lparr>Method = ''POST'', target = u, headers = [], payload = NoBody\<rparr>"

definition posts :: "exchange list \<Rightarrow> exchange list" where
  "posts tr = filter (\<lambda>x. Method (fst x) = ''POST'') tr"

definition media_id_of :: "env \<Rightarrow> outcome \<Rightarrow> string" where
  "media_id_of E r =
     (case r of
        Inl e \<Rightarrow> []
      | Inr resp \<Rightarrow>
         (case decode_MediaResponse E (Body resp) of
            Inl e \<Rightarrow> []
          | Inr mediaResp \<Rightarrow> ID mediaResp))"

subsection \<open>Rejected steps\<close>

text \<open>A run aborts on rejection, for the requests that count as steps: a response outside 2xx
  to a step is the last exchange of the run, and the message returned contains its body.\<close>

definition is_post :: "request \<Rightarrow> bool" where
  "is_post rq = (Method rq = ''POST'')"

definition any_request :: "request \<Rightarrow> bool" where
  "any_request rq = True"

fun aborts_on_rejection :: "(request \<Rightarrow> bool) \<Rightarrow> exchange list \<Rightarrow> string option \<Rightarrow> bool" where
  "aborts_on_rejection step [] msg = True"
| "aborts_on_rejection step ((rq, Inl e) # tr) msg = aborts_on_rejection step tr msg"
| "aborts_on_rejection step ((rq, Inr resp) # tr) msg =
     (if step rq \<and> non_2xx resp then tr = [] \<and> wraps_body msg resp
      else aborts_on_rejection step tr msg)"

text \<open>An exchange that is no rejected step.\<close>

fun not_rejected :: "(request \<Rightarrow> bool) \<Rightarrow> exchange \<Rightarrow> bool" where
  "not_rejected step (rq, Inl e) = True"
| "not_rejected step (rq, Inr resp) = (\<not> (step rq \<and> non_2xx resp))"

text \<open>A call that aborts on rejection: it keeps the trace, the exchanges it adds abort on
  rejection with the message it returns, and when it returns no error none of them is a
  rejected step, so that the caller may go on.\<close>

definition aborting_call :: "(request \<Rightarrow> bool) \<Rightarrow> world \<Rightarrow> (error + 'a) \<times> world \<Rightarrow> bool" where
  "aborting_call step w R =
     (extends w (snd R) \<and>
      aborts_on_rejection step (since w (snd R)) (error_message (fst R)) \<and>
      (isl (fst R) \<or> list_all (not_rejected step) (since w (snd R))))"

subsection \<open>The tweet loop\<close>

text \<open>The request \<^verbatim>\<open>CreateTweet\<close> sends for a text, and the number of ticks a run of \<^verbatim>\<open>Start\<close>
  takes before its first stop.\<close>

definition tweet_request :: "TwitterClient \<Rightarrow> string \<Rightarrow> request" where
  "tweet_request c text =
     \<lparr>Method = ''POST'', target = URL (tw_BaseURL c @ ''/tweets'') [],
      headers = [(''Authorization'', ''Bearer '' @ tw_BearerToken c),
                 (''Content-Type'', ''application/json'')],
      payload = JsonBody (JObject [(''text'', JString text)])\<rparr>"

text \<open>The index of the text the first tick posts: an index that has reached the length of
  the content is reset to 0 (lines 263-265).\<close>

definition first_index :: "AutomatedTweeter \<Rightarrow> nat" where
  "first_index atw =
     (if at_CurrentIndex atw \<ge> int (length (at_Content atw)) then 0
      else nat (at_CurrentIndex atw))"

definition ticks_taken :: "select_case list \<Rightarrow> nat" where
  "ticks_taken cs = length (takeWhile (\<lambda>c. c = TickerC) cs)"

subsection \<open>Credentials\<close>

definition has_bearer :: "string \<Rightarrow> request \<Rightarrow> bool" where
  "has_bearer token rq = ((''Authorization'', ''Bearer '' @ token) \<in> set (headers rq))"

definition has_authorization_header :: "request \<Rightarrow> bool" where
  "has_authorization_header rq = (''Authorization'' \<in> fst ` set (headers rq))"

definition query_of :: "request \<Rightarrow> url_values" where
  "query_of rq = (case target rq of URL base params \<Rightarrow> params)"

text \<open>The token travels in the query, under \<^verbatim>\<open>access_token\<close>, and the request has no header.\<close>

definition token_in_query :: "string \<Rightarrow> request \<Rightarrow> bool" where
  "token_in_query token rq = ((''access_token'', token) \<in> set (query_of rq) \<and> headers rq = [])"

definition requests :: "exchange list \<Rightarrow> request list" where
  "requests tr = map fst tr"

text \<open>A request with no credential at all: no header and no query.\<close>

definition no_credential :: "request \<Rightarrow> bool" where
  "no_credential rq = (headers rq = [] \<and> query_of rq = [])"

text \<open>What holds of the requests of the LinkedIn client (the bearer token in the header, but
  for the \<^verbatim>\<open>PUT\<close> of the file) and of the Instagram client (the token in the query, but for
  the \<^verbatim>\<open>GET\<close> of the status poll).\<close>

definition linkedin_credential :: "string \<Rightarrow> request \<Rightarrow> bool" where
  "linkedin_credential token rq =
     (has_bearer token rq \<or> (Method rq = ''PUT'' \<and> no_credential rq))"

definition instagram_credential :: "string \<Rightarrow> request \<Rightarrow> bool" where
  "instagram_credential token rq =
     (token_in_query token rq \<or> (Method rq = ''GET'' \<and> no_credential rq))"

text \<open>A call sends only requests of some kind: it keeps the trace, and every request it adds
  is of that kind.\<close>

definition sends_only :: "(request \<Rightarrow> bool) \<Rightarrow> world \<Rightarrow> world \<Rightarrow> bool" where
  "sends_only P w w' = (extends w w' \<and> list_all P (requests (since w w')))"

section \<open>Servers and documents for concrete runs\<close>

text \<open>A server that answers the n-th request of a run with the n-th outcome of a script and
  every later one with a fixed outcome, and decoders that know the documents used below.\<close>

definition known_maps :: "string \<Rightarrow> string + (string \<times> json) list" where
  \<open>known_maps b =
     (if b = ''{}'' then Inr []
      else if b = ''{"status_code":"IN_PROGRESS"}''
        then Inr [(''status_code'', JString ''IN_PROGRESS'')]
      else if b = ''{"status_code":"FINISHED"}''
        then Inr [(''status_code'', JString ''FINISHED'')]
      else if b = ''{"status_code":"ERROR"}''
        then Inr [(''status_code'', JString ''ERROR'')]
      else if b = ''{"id":"urn:li:share:7"}''
        then Inr [(''id'', JString ''urn:li:share:7'')]
      else Inl ''invalid character'')\<close>

definition known_media :: "string \<Rightarrow> string + MediaResponse" where
  \<open>known_media b =
     (if b = ''{"id":"c1"}'' then Inr \<lparr>ID = ''c1'', StatusURL = []\<rparr>
      else if b = ''{"id":"c2"}'' then Inr \<lparr>ID = ''c2'', StatusURL = []\<rparr>
      else if b = ''{"id":"c3","status_url":"https://s/3"}''
        then Inr \<lparr>ID = ''c3'', StatusURL = ''https://s/3''\<rparr>
      else if b = ''{"id":"m9"}'' then Inr \<lparr>ID = ''m9'', StatusURL = []\<rparr>
      else Inl ''invalid character'')\<close>

definition scripted :: "outcome list \<Rightarrow> outcome \<Rightarrow> env" where
  "scripted script dflt =
     \<lparr>url_error = (\<lambda>u. None),
      server = (\<lambda>tr rq. if length tr < length script then script ! length tr else dflt),
      read_file = (\<lambda>p. if p = ''/tmp/a.png'' then Inr ''PNG'' else Inl ''no such file''),
      unmarshal_map = known_maps,
      decode_map = known_maps,
      decode_MediaResponse = known_media,
      decode_Thread = (\<lambda>b. Inl ''EOF''),
      decode_Threads = (\<lambda>b. Inl ''EOF''),
      decode_Reply = (\<lambda>b. Inl ''EOF''),
      decode_Replies = (\<lambda>b. Inl ''EOF''),
      decode_TweetResponse = (\<lambda>b. Inl ''EOF''),
      decode_TweetsResponse = (\<lambda>b. Inl ''EOF''),
      decode_as = (\<lambda>ty b. map_sum id (\<lambda>m. JObject m) (known_maps b)),
      now = (\<lambda>tr. 0),
      os_Open = (\<lambda>p. if p = ''/tmp/a.png'' then None else Some ''no such file''),
      io_Copy = (\<lambda>p. Inr ''PNG''),
      Sscanf = (\<lambda>input format. (takeWhile (\<lambda>c. c \<noteq> CHR '' '') input, [])),
      Sprint = (\<lambda>verb v. case v of JString s \<Rightarrow> s | _ \<Rightarrow> ''<nil>''),
      RFC3339 = (\<lambda>t. ''1970-01-01T00:00:00Z''),
      Marshal = (\<lambda>v. ''{}''),
      base64 = (\<lambda>s. s)\<rparr>"

definition answer :: "int \<Rightarrow> string \<Rightarrow> outcome" where
  "answer code b = Inr \<lparr>StatusCode = code, Body = b\<rparr>"

text \<open>Four status servers: one whose answers carry no status, one that never finishes, one
  that finishes at the third poll, one that reports an error at the second.\<close>

definition silent_server :: env where
  \<open>silent_server = scripted [] (answer 200 ''{}'')\<close>

definition busy_server :: env where
  \<open>busy_server = scripted [] (answer 200 ''{"status_code":"IN_PROGRESS"}'')\<close>

definition finishing_server :: env where
  \<open>finishing_server =
     scripted [answer 200 ''{"status_code":"IN_PROGRESS"}'',
               answer 200 ''{"status_code":"IN_PROGRESS"}'',
               answer 200 ''{"status_code":"FINISHED"}'']
       (answer 200 ''{"status_code":"IN_PROGRESS"}'')\<close>

definition failing_server :: env where
  \<open>failing_server =
     scripted [answer 200 ''{"status_code":"IN_PROGRESS"}'',
               answer 200 ''{"status_code":"ERROR"}'']
       (answer 200 ''{"status_code":"IN_PROGRESS"}'')\<close>

definition w0 :: world where
  "w0 = \<lparr>trace = [], slept = 0, printed = [], sent_at = []\<rparr>"

definition insta :: InstagramClient where
  "insta = \<lparr>ig_AppID = ''app'', ig_AppSecret = ''secret'', ig_RedirectURI = ''https://r'',
            ig_AccessToken = ''tok'', ig_UserID = ''17''\<rparr>"

definition threads :: ThreadService where
  "threads = \<lparr>ts_BaseURL = ''https://t'', ts_AuthToken = ''tok''\<rparr>"

definition linked :: LinkedInClient where
  "linked = \<lparr>li_ClientID = ''id'', li_ClientSecret = ''secret'', li_RedirectURI = ''https://r'',
             li_AccessToken = ''tok'', li_UserID = ''me''\<rparr>"

definition twitter :: TwitterClient where
  "twitter = NewTwitterClient ''k'' ''s'' ''a'' ''t'' ''b''"

section \<open>Proofs\<close>

subsection \<open>Traces\<close>

lemma since_append: "trace w' = trace w @ ps \<Longrightarrow> since w w' = ps"
  by (simp add: since_def)

lemma since_self: "since w w = []"
  by (simp add: since_def)

lemma extends_refl: "extends w w"
  by (simp add: extends_def)

lemma extends_trans: "extends w w1 \<Longrightarrow> extends w1 w2 \<Longrightarrow> extends w w2"
  by (auto simp: extends_def)

lemma extends_trace: "extends w w' \<Longrightarrow> trace w' = trace w @ since w w'"
  by (auto simp: extends_def since_def prefix_def)

lemma since_trans:
  "extends w w1 \<Longrightarrow> extends w1 w2 \<Longrightarrow> since w w2 = since w w1 @ since w1 w2"
  by (auto simp: extends_def since_def prefix_def)

lemma extends_Sleep: "extends w (Sleep n w)"
  by (simp add: extends_def Sleep_def)

lemma since_Sleep: "since w (Sleep n w) = []"
  by (simp add: since_def Sleep_def)

lemma extends_Printf: "extends w (Printf s w)"
  by (simp add: extends_def Printf_def)

lemma since_Printf: "since w (Printf s w') = since w w'"
  by (simp add: since_def Printf_def)

lemma extends_Do: "extends w (snd (Do E rq w))"
  by (simp add: extends_def Do_def Let_def)

lemma since_Do: "since w (snd (Do E rq w)) = [(rq, fst (Do E rq w))]"
  by (simp add: since_def Do_def Let_def)

subsection \<open>The status poll\<close>

lemma waitLoop_done: "\<not> i < 30 \<Longrightarrow> waitLoop E u i w = (Some (Error ''media processing timed out''), w)"
  by (subst waitLoop.simps) simp

lemma waitLoop_bad_url:
  "i < 30 \<Longrightarrow> url_error E (URL u []) = Some e \<Longrightarrow>
   waitLoop E u i w = (Some (Error e), Sleep 2 w)"
  by (subst waitLoop.simps) (simp add: NewRequest_def)

lemma waitLoop_continue:
  assumes "i < 30" "url_error E (URL u []) = None" "in_progress E (fst (poll E u w))"
  shows "waitLoop E u i w = waitLoop E u (Suc i) (snd (poll E u w))"
  using assms
  by (subst waitLoop.simps)
     (auto simp: NewRequest_def poll_def statusReq_def in_progress_def status_of_def Do_def Let_def
        split: sum.splits option.splits json.splits)

lemma waitLoop_stop:
  assumes "i < 30" "url_error E (URL u []) = None" "\<not> in_progress E (fst (poll E u w))"
  shows "snd (waitLoop E u i w) = snd (poll E u w)"
  using assms
  by (subst waitLoop.simps)
     (auto simp: NewRequest_def poll_def statusReq_def in_progress_def status_of_def Do_def Let_def
        split: sum.splits option.splits json.splits)

lemma trace_poll: "trace (snd (poll E u w)) = trace w @ [(statusReq u, fst (poll E u w))]"
  by (simp add: poll_def Do_def Let_def Sleep_def)

lemma slept_poll: "slept (snd (poll E u w)) = slept w + 2"
  by (simp add: poll_def Do_def Let_def Sleep_def)

lemma waitLoop_trace: "\<exists>ps. trace (snd (waitLoop E u i w)) = trace w @ ps"
proof (induction "30 - i" arbitrary: i w)
  case 0
  then show ?case by (simp add: waitLoop_done)
next
  case (Suc n)
  then have i: "i < 30" by simp
  show ?case
  proof (cases "url_error E (URL u [])")
    case (Some e)
    with i show ?thesis by (simp add: waitLoop_bad_url Sleep_def)
  next
    case None
    show ?thesis
    proof (cases "in_progress E (fst (poll E u w))")
      case True
      from Suc have "n = 30 - (Suc i)" by simp
      from Suc.hyps(1) [OF this] obtain ps
        where "trace (snd (waitLoop E u (Suc i) (snd (poll E u w)))) = trace (snd (poll E u w)) @ ps"
        by blast
      with i None True show ?thesis
        by (simp add: waitLoop_continue trace_poll)
    next
      case False
      with i None show ?thesis by (simp add: waitLoop_stop trace_poll)
    qed
  qed
qed

lemma since_poll:
  assumes "trace w' = trace (snd (poll E u w)) @ ps"
  shows "since w w' = (statusReq u, fst (poll E u w)) # since (snd (poll E u w)) w'"
  using assms by (simp add: since_def trace_poll)

lemma waitLoop_finished:
  assumes "i < 30" "url_error E (URL u []) = None"
    "status_of E (fst (poll E u w)) = Some ''FINISHED''"
  shows "waitLoop E u i w = (None, snd (poll E u w))"
  using assms
  by (subst waitLoop.simps)
     (auto simp: NewRequest_def poll_def statusReq_def status_of_def Do_def Let_def
        split: sum.splits option.splits json.splits)

lemma waitLoop_error:
  assumes "i < 30" "url_error E (URL u []) = None"
    "fst (poll E u w) = Inr resp" "status_of E (Inr resp) = Some ''ERROR''"
  shows "waitLoop E u i w =
    (Some (Error (''media processing failed: '' @ Body resp)), snd (poll E u w))"
  using assms
  by (subst waitLoop.simps)
     (auto simp: NewRequest_def poll_def statusReq_def status_of_def Do_def Let_def
        split: sum.splits option.splits json.splits)

lemma waitLoop_exhausts:
  assumes "url_error E (URL u []) = None"
    and "\<forall>x \<in> set (since w (snd (waitLoop E u i w))). in_progress E (snd x)"
  shows "fst (waitLoop E u i w) = Some (Error ''media processing timed out'') \<and>
         map fst (since w (snd (waitLoop E u i w))) = replicate (30 - i) (statusReq u) \<and>
         slept (snd (waitLoop E u i w)) = slept w + 2 * (30 - i)"
  using assms(2)
proof (induction "30 - i" arbitrary: i w)
  case 0
  then show ?case by (simp add: waitLoop_done since_def)
next
  case (Suc n)
  then have i: "i < 30" and n: "n = 30 - (Suc i)" by simp_all
  let ?w2 = "snd (poll E u w)"
  show ?case
  proof (cases "in_progress E (fst (poll E u w))")
    case True
    have eq: "waitLoop E u i w = waitLoop E u (Suc i) ?w2"
      using i assms(1) True by (rule waitLoop_continue)
    obtain ps where ps: "trace (snd (waitLoop E u (Suc i) ?w2)) = trace ?w2 @ ps"
      using waitLoop_trace by blast
    have s: "since w (snd (waitLoop E u (Suc i) ?w2)) =
        (statusReq u, fst (poll E u w)) # since ?w2 (snd (waitLoop E u (Suc i) ?w2))"
      using ps by (rule since_poll)
    have "\<forall>x \<in> set (since ?w2 (snd (waitLoop E u (Suc i) ?w2))). in_progress E (snd x)"
      using Suc.prems eq s by simp
    from Suc.hyps(1) [OF n this] have IH:
      "fst (waitLoop E u (Suc i) ?w2) = Some (Error ''media processing timed out'')"
      "map fst (since ?w2 (snd (waitLoop E u (Suc i) ?w2))) = replicate (30 - (Suc i)) (statusReq u)"
      "slept (snd (waitLoop E u (Suc i) ?w2)) = slept ?w2 + 2 * (30 - (Suc i))"
      by simp_all
    have r: "replicate (30 - i) (statusReq u) = statusReq u # replicate (30 - (Suc i)) (statusReq u)"
      using i by (cases "30 - i") simp_all
    have a: "2 * (30 - i) = 2 + 2 * (30 - Suc i)"
      using i by simp
    show ?thesis
      unfolding eq s r a using IH by (simp add: slept_poll)
  next
    case False
    have w': "snd (waitLoop E u i w) = ?w2"
      using i assms(1) False by (rule waitLoop_stop)
    have "since w ?w2 = [(statusReq u, fst (poll E u w))]"
      by (rule since_append) (simp add: trace_poll)
    with Suc.prems w' False show ?thesis by simp
  qed
qed

lemma waitLoop_terminal:
  assumes "k < length (since w (snd (waitLoop E u i w)))"
    and "snd (since w (snd (waitLoop E u i w)) ! k) = Inr resp"
    and "status_of E (Inr resp) = Some status"
    and "status = ''FINISHED'' \<or> status = ''ERROR''"
  shows "Suc k = length (since w (snd (waitLoop E u i w))) \<and>
         fst (waitLoop E u i w) =
           (if status = ''FINISHED'' then None
            else Some (Error (''media processing failed: '' @ Body resp)))"
  using assms(1,2)
proof (induction "30 - i" arbitrary: i w k)
  case 0
  then show ?case by (simp add: waitLoop_done since_def)
next
  case (Suc n)
  then have i: "i < 30" and n: "n = 30 - (Suc i)" by simp_all
  let ?w2 = "snd (poll E u w)"
  show ?case
  proof (cases "url_error E (URL u [])")
    case (Some e)
    with i Suc.prems show ?thesis by (simp add: waitLoop_bad_url Sleep_def since_def)
  next
    case None
    show ?thesis
    proof (cases "in_progress E (fst (poll E u w))")
      case True
      have eq: "waitLoop E u i w = waitLoop E u (Suc i) ?w2"
        using i None True by (rule waitLoop_continue)
      obtain ps where ps: "trace (snd (waitLoop E u (Suc i) ?w2)) = trace ?w2 @ ps"
        using waitLoop_trace by blast
      have s: "since w (snd (waitLoop E u (Suc i) ?w2)) =
          (statusReq u, fst (poll E u w)) # since ?w2 (snd (waitLoop E u (Suc i) ?w2))"
        using ps by (rule since_poll)
      show ?thesis
      proof (cases k)
        case 0
        with Suc.prems eq s have "fst (poll E u w) = Inr resp" by simp
        with True assms(3,4) show ?thesis by (auto simp: in_progress_def)
      next
        case (Suc k')
        with Suc.prems eq s
        have "k' < length (since ?w2 (snd (waitLoop E u (Suc i) ?w2)))"
          and "snd (since ?w2 (snd (waitLoop E u (Suc i) ?w2)) ! k') = Inr resp"
          by simp_all
        from Suc.hyps(1) [OF n this] show ?thesis
          unfolding eq s Suc by simp
      qed
    next
      case False
      have w': "snd (waitLoop E u i w) = ?w2"
        using i None False by (rule waitLoop_stop)
      have s: "since w ?w2 = [(statusReq u, fst (poll E u w))]"
        by (rule since_append) (simp add: trace_poll)
      from Suc.prems w' s have k: "k = 0" and r: "fst (poll E u w) = Inr resp" by simp_all
      from assms(4) show ?thesis
      proof
        assume f: "status = ''FINISHED''"
        with r assms(3) have "status_of E (fst (poll E u w)) = Some ''FINISHED''" by simp
        from waitLoop_finished [OF i None this] show ?thesis
          using f k s by simp
      next
        assume e: "status = ''ERROR''"
        with assms(3) have "status_of E (Inr resp) = Some ''ERROR''" by simp
        from waitLoop_error [OF i None r this] show ?thesis
          using e k s by simp
      qed
    qed
  qed
qed

subsection \<open>The times of the polls, and the polls that carry no status\<close>

lemma sent_since_self: "sent_since w w = []"
  by (simp add: sent_since_def)

lemma sent_at_poll: "sent_at (snd (poll E u w)) = sent_at w @ [slept w + 2]"
  by (simp add: poll_def Do_def Let_def Sleep_def)

lemma waitLoop_sent_at: "\<exists>ts. sent_at (snd (waitLoop E u i w)) = sent_at w @ ts"
proof (induction "30 - i" arbitrary: i w)
  case 0
  then show ?case by (simp add: waitLoop_done)
next
  case (Suc n)
  then have i: "i < 30" by simp
  show ?case
  proof (cases "url_error E (URL u [])")
    case (Some e)
    with i show ?thesis by (simp add: waitLoop_bad_url Sleep_def)
  next
    case None
    show ?thesis
    proof (cases "in_progress E (fst (poll E u w))")
      case True
      from Suc have "n = 30 - (Suc i)" by simp
      from Suc.hyps(1) [OF this] obtain ts
        where "sent_at (snd (waitLoop E u (Suc i) (snd (poll E u w)))) =
               sent_at (snd (poll E u w)) @ ts"
        by blast
      with i None True show ?thesis
        by (simp add: waitLoop_continue sent_at_poll)
    next
      case False
      with i None show ?thesis by (simp add: waitLoop_stop sent_at_poll)
    qed
  qed
qed

lemma sent_since_poll:
  assumes "sent_at w' = sent_at (snd (poll E u w)) @ ts"
  shows "sent_since w w' = (slept w + 2) # sent_since (snd (poll E u w)) w'"
  using assms by (simp add: sent_since_def sent_at_poll)

lemma waitLoop_timing:
  assumes "url_error E (URL u []) = None"
  shows "map fst (since w (snd (waitLoop E u i w))) =
           replicate (length (since w (snd (waitLoop E u i w)))) (statusReq u) \<and>
         sent_since w (snd (waitLoop E u i w)) =
           map (\<lambda>k. slept w + 2 * Suc k) [0..<length (since w (snd (waitLoop E u i w)))] \<and>
         slept (snd (waitLoop E u i w)) =
           slept w + 2 * length (since w (snd (waitLoop E u i w)))"
proof (induction "30 - i" arbitrary: i w)
  case 0
  then show ?case by (simp add: waitLoop_done since_self sent_since_self)
next
  case (Suc n)
  then have i: "i < 30" and n: "n = 30 - (Suc i)" by simp_all
  let ?w2 = "snd (poll E u w)"
  show ?case
  proof (cases "in_progress E (fst (poll E u w))")
    case True
    let ?w' = "snd (waitLoop E u (Suc i) ?w2)"
    have eq: "waitLoop E u i w = waitLoop E u (Suc i) ?w2"
      using i assms True by (rule waitLoop_continue)
    obtain ps where ps: "trace ?w' = trace ?w2 @ ps"
      using waitLoop_trace by blast
    have s: "since w ?w' = (statusReq u, fst (poll E u w)) # since ?w2 ?w'"
      using ps by (rule since_poll)
    obtain ts where ts: "sent_at ?w' = sent_at ?w2 @ ts"
      using waitLoop_sent_at by blast
    have t: "sent_since w ?w' = (slept w + 2) # sent_since ?w2 ?w'"
      using ts by (rule sent_since_poll)
    from Suc.hyps(1) [OF n, of ?w2] have IH:
      "map fst (since ?w2 ?w') = replicate (length (since ?w2 ?w')) (statusReq u)"
      "sent_since ?w2 ?w' = map (\<lambda>k. slept ?w2 + 2 * Suc k) [0..<length (since ?w2 ?w')]"
      "slept ?w' = slept ?w2 + 2 * length (since ?w2 ?w')"
      by simp_all
    show ?thesis
      unfolding eq s t using IH
      by (simp add: slept_poll map_upt_Suc del: upt_Suc)
  next
    case False
    have w': "snd (waitLoop E u i w) = ?w2"
      using i assms False by (rule waitLoop_stop)
    have "since w ?w2 = [(statusReq u, fst (poll E u w))]"
      by (rule since_append) (simp add: trace_poll)
    moreover have "sent_since w ?w2 = [slept w + 2]"
      by (simp add: sent_since_def sent_at_poll)
    ultimately show ?thesis unfolding w' by (simp add: slept_poll)
  qed
qed

lemma waitLoop_fails:
  assumes "i < 30" "url_error E (URL u []) = None" "status_of E (fst (poll E u w)) = None"
  shows "waitLoop E u i w =
    (Some (Error (poll_failure E (fst (poll E u w)))), snd (poll E u w))"
  using assms
  by (subst waitLoop.simps)
     (auto simp: NewRequest_def poll_def statusReq_def status_of_def poll_failure_def Do_def
        Let_def split: sum.splits option.splits json.splits)

lemma waitLoop_no_status:
  assumes "url_error E (URL u []) = None"
    and "k < length (since w (snd (waitLoop E u i w)))"
    and "status_of E (snd (since w (snd (waitLoop E u i w)) ! k)) = None"
  shows "Suc k = length (since w (snd (waitLoop E u i w))) \<and>
         fst (waitLoop E u i w) =
           Some (Error (poll_failure E (snd (since w (snd (waitLoop E u i w)) ! k))))"
  using assms(2,3)
proof (induction "30 - i" arbitrary: i w k)
  case 0
  then show ?case by (simp add: waitLoop_done since_def)
next
  case (Suc n)
  then have i: "i < 30" and n: "n = 30 - (Suc i)" by simp_all
  let ?w2 = "snd (poll E u w)"
  show ?case
  proof (cases "in_progress E (fst (poll E u w))")
    case True
    have eq: "waitLoop E u i w = waitLoop E u (Suc i) ?w2"
      using i assms(1) True by (rule waitLoop_continue)
    obtain ps where ps: "trace (snd (waitLoop E u (Suc i) ?w2)) = trace ?w2 @ ps"
      using waitLoop_trace by blast
    have s: "since w (snd (waitLoop E u (Suc i) ?w2)) =
        (statusReq u, fst (poll E u w)) # since ?w2 (snd (waitLoop E u (Suc i) ?w2))"
      using ps by (rule since_poll)
    show ?thesis
    proof (cases k)
      case 0
      with Suc.prems eq s have "status_of E (fst (poll E u w)) = None" by simp
      with True show ?thesis by (simp add: in_progress_def)
    next
      case (Suc k')
      with Suc.prems eq s
      have "k' < length (since ?w2 (snd (waitLoop E u (Suc i) ?w2)))"
        and "status_of E (snd (since ?w2 (snd (waitLoop E u (Suc i) ?w2)) ! k')) = None"
        by simp_all
      from Suc.hyps(1) [OF n this] show ?thesis
        unfolding eq s Suc nth_Cons_Suc by simp
    qed
  next
    case False
    have w': "snd (waitLoop E u i w) = ?w2"
      using i assms(1) False by (rule waitLoop_stop)
    have s: "since w ?w2 = [(statusReq u, fst (poll E u w))]"
      by (rule since_append) (simp add: trace_poll)
    from Suc.prems w' s have k: "k = 0" and r: "status_of E (fst (poll E u w)) = None"
      by simp_all
    have "waitLoop E u i w = (Some (Error (poll_failure E (fst (poll E u w)))), ?w2)"
      using i assms(1) r by (rule waitLoop_fails)
    then show ?thesis using s k by simp
  qed
qed
lemma scripted_sel [simp]:
  "url_error (scripted s d) u = None"
  "server (scripted s d) tr rq = (if length tr < length s then s ! length tr else d)"
  "unmarshal_map (scripted s d) = known_maps"
  "decode_map (scripted s d) = known_maps"
  "decode_MediaResponse (scripted s d) = known_media"
  "read_file (scripted s d) p = (if p = ''/tmp/a.png'' then Inr ''PNG'' else Inl ''no such file'')"
  "decode_Thread (scripted s d) b = Inl ''EOF''"
  "decode_TweetResponse (scripted s d) b = Inl ''EOF''"
  "decode_as (scripted s d) ty b = map_sum id (\<lambda>m. JObject m) (known_maps b)"
  by (simp_all add: scripted_def)

lemmas run_defs =
  silent_server_def busy_server_def finishing_server_def failing_server_def
  waitForMediaProcessing_def waitLoop.simps NewRequest_def Do_def Sleep_def Let_def
  statusReq_def answer_def w0_def known_maps_def known_media_def

text \<open>
  \<^bold>\<open>C1\<close>, as stated: in every execution of \<^verbatim>\<open>waitForMediaProcessing\<close> in which no polled response
  carries the status \<^verbatim>\<open>FINISHED\<close> or \<^verbatim>\<open>ERROR\<close>, the helper polls 30 times and returns the timeout
  error. It fails where a response carries no status at all: a server that answers \<^verbatim>\<open>{}\<close>
  ends the wait at the first poll, after 2 seconds, with the error
  \<^verbatim>\<open>invalid status response\<close>.
\<close>

theorem waitForMediaProcessing_no_status_counterexample:
  \<open>status_of silent_server (answer 200 ''{}'') = None \<and>
   waitForMediaProcessing silent_server ''https://s/3'' w0 =
     (Some (Error ''invalid status response''),
      \<lparr>trace = [(statusReq ''https://s/3'', answer 200 ''{}'')], slept = 2, printed = [], sent_at = [2]\<rparr>)\<close>
  by (simp add: run_defs status_of_def)

text \<open>
  \<^bold>\<open>C1\<close>, amended: if the status URL is one \<^verbatim>\<open>http.NewRequest\<close> accepts, then in every execution
  the polls are the same \<^verbatim>\<open>GET\<close> of the status URL, each sent after a sleep of 2 seconds (the
  k-th poll 2k seconds after the call), and

  \<^item> if every outcome polled is a response whose body decodes to an object with a string
    \<^verbatim>\<open>status_code\<close> other than \<^verbatim>\<open>FINISHED\<close> and \<^verbatim>\<open>ERROR\<close>, the helper sends exactly 30 polls,
    60 seconds in all, and returns the error \<^verbatim>\<open>media processing timed out\<close>;

  \<^item> a polled outcome that carries no status (a transport error, a body that does not decode
    to an object, an object without a string \<^verbatim>\<open>status_code\<close>) is the last of the execution:
    the helper returns at once with the transport error, the decoder's error, or
    \<^verbatim>\<open>invalid status response\<close>.
\<close>

theorem waitForMediaProcessing_times_out:
  assumes "url_error E (URL statusURL []) = None"
  shows
    "(map fst (since w (snd (waitForMediaProcessing E statusURL w))) =
        replicate (length (since w (snd (waitForMediaProcessing E statusURL w))))
          (statusReq statusURL) \<and>
      sent_since w (snd (waitForMediaProcessing E statusURL w)) =
        map (\<lambda>k. slept w + 2 * Suc k)
          [0..<length (since w (snd (waitForMediaProcessing E statusURL w)))] \<and>
      slept (snd (waitForMediaProcessing E statusURL w)) =
        slept w + 2 * length (since w (snd (waitForMediaProcessing E statusURL w)))) \<and>
     ((\<forall>x \<in> set (since w (snd (waitForMediaProcessing E statusURL w))). in_progress E (snd x)) \<longrightarrow>
        fst (waitForMediaProcessing E statusURL w) =
          Some (Error ''media processing timed out'') \<and>
        map fst (since w (snd (waitForMediaProcessing E statusURL w))) =
          replicate 30 (statusReq statusURL) \<and>
        sent_since w (snd (waitForMediaProcessing E statusURL w)) =
          map (\<lambda>k. slept w + 2 * Suc k) [0..<30] \<and>
        slept (snd (waitForMediaProcessing E statusURL w)) = slept w + 60) \<and>
     (\<forall>k < length (since w (snd (waitForMediaProcessing E statusURL w))).
        status_of E (snd (since w (snd (waitForMediaProcessing E statusURL w)) ! k)) = None \<longrightarrow>
          Suc k = length (since w (snd (waitForMediaProcessing E statusURL w))) \<and>
          fst (waitForMediaProcessing E statusURL w) =
            Some (Error (poll_failure E
              (snd (since w (snd (waitForMediaProcessing E statusURL w)) ! k)))))"
proof (intro conjI impI allI)
  let ?w' = "snd (waitForMediaProcessing E statusURL w)"
  note t = waitLoop_timing [OF assms, of w 0, folded waitForMediaProcessing_def]
  from t show "map fst (since w ?w') = replicate (length (since w ?w')) (statusReq statusURL)"
    by simp
  from t show "sent_since w ?w' = map (\<lambda>k. slept w + 2 * Suc k) [0..<length (since w ?w')]"
    by simp
  from t show "slept ?w' = slept w + 2 * length (since w ?w')"
    by simp
  {
    assume a: "\<forall>x \<in> set (since w ?w'). in_progress E (snd x)"
    from waitLoop_exhausts [OF assms, of w 0] a
    have e: "fst (waitForMediaProcessing E statusURL w) =
          Some (Error ''media processing timed out'')"
      "map fst (since w ?w') = replicate 30 (statusReq statusURL)"
      "slept ?w' = slept w + 60"
      by (simp_all add: waitForMediaProcessing_def)
    from e(2) have "length (since w ?w') = 30"
      by (metis length_map length_replicate)
    with t have "sent_since w ?w' = map (\<lambda>k. slept w + 2 * Suc k) [0..<30]"
      by simp
    with e show "fst (waitForMediaProcessing E statusURL w) =
          Some (Error ''media processing timed out'')"
      "map fst (since w ?w') = replicate 30 (statusReq statusURL)"
      "sent_since w ?w' = map (\<lambda>k. slept w + 2 * Suc k) [0..<30]"
      "slept ?w' = slept w + 60"
      by simp_all
  }
  {
    fix k
    assume "k < length (since w ?w')" "status_of E (snd (since w ?w' ! k)) = None"
    from waitLoop_no_status [OF assms, of k w 0, folded waitForMediaProcessing_def, OF this]
    show "Suc k = length (since w ?w')"
      "fst (waitForMediaProcessing E statusURL w) =
         Some (Error (poll_failure E (snd (since w ?w' ! k))))"
      by simp_all
  }
qed

lemma busy_run:
  \<open>since w0 (snd (waitForMediaProcessing
       busy_server ''https://s/3'' w0)) =
   replicate 30 (statusReq ''https://s/3'', answer 200 ''{"status_code":"IN_PROGRESS"}'')\<close>
  by (simp add: run_defs since_def numeral_eq_Suc)

lemma silent_run:
  \<open>waitForMediaProcessing silent_server ''https://s/3'' w0 =
     (Some (Error ''invalid status response''),
      \<lparr>trace = [(statusReq ''https://s/3'', answer 200 ''{}'')], slept = 2, printed = [],
       sent_at = [2]\<rparr>)\<close>
  by (simp add: run_defs)

theorem waitForMediaProcessing_times_out_witness:
  \<open>(fst (waitForMediaProcessing busy_server ''https://s/3'' w0) =
      Some (Error ''media processing timed out'') \<and>
    map fst (since w0 (snd (waitForMediaProcessing busy_server ''https://s/3'' w0))) =
      replicate 30 (statusReq ''https://s/3'') \<and>
    sent_since w0 (snd (waitForMediaProcessing busy_server ''https://s/3'' w0)) =
      [2, 4, 6, 8, 10, 12, 14, 16, 18, 20, 22, 24, 26, 28, 30, 32, 34, 36, 38, 40, 42, 44, 46,
       48, 50, 52, 54, 56, 58, 60] \<and>
    slept (snd (waitForMediaProcessing busy_server ''https://s/3'' w0)) = 60) \<and>
   (status_of silent_server (answer 200 ''{}'') = None \<and>
    since w0 (snd (waitForMediaProcessing silent_server ''https://s/3'' w0)) =
      [(statusReq ''https://s/3'', answer 200 ''{}'')] \<and>
    sent_since w0 (snd (waitForMediaProcessing silent_server ''https://s/3'' w0)) = [2] \<and>
    fst (waitForMediaProcessing silent_server ''https://s/3'' w0) =
      Some (Error ''invalid status response''))\<close>
proof
  have u: "url_error busy_server (URL ''https://s/3'' []) = None"
    by (simp add: busy_server_def)
  have p: \<open>\<forall>x \<in> set (since w0 (snd (waitForMediaProcessing busy_server ''https://s/3'' w0))).
        in_progress busy_server (snd x)\<close>
    unfolding busy_run unfolding busy_server_def
    by (simp add: in_progress_def status_of_def answer_def known_maps_def)
  have n: "map (\<lambda>k. slept w0 + 2 * Suc k) [0..<30] =
      [2, 4, 6, 8, 10, 12, 14, 16, 18, 20, 22, 24, 26, 28, 30, 32, 34, 36, 38, 40, 42, 44, 46,
       48, 50, 52, 54, 56, 58, 60]"
    by (simp add: w0_def upt_rec)
  from waitForMediaProcessing_times_out [OF u, of w0] p
  have "fst (waitForMediaProcessing busy_server ''https://s/3'' w0) =
          Some (Error ''media processing timed out'') \<and>
        map fst (since w0 (snd (waitForMediaProcessing busy_server ''https://s/3'' w0))) =
          replicate 30 (statusReq ''https://s/3'') \<and>
        sent_since w0 (snd (waitForMediaProcessing busy_server ''https://s/3'' w0)) =
          map (\<lambda>k. slept w0 + 2 * Suc k) [0..<30] \<and>
        slept (snd (waitForMediaProcessing busy_server ''https://s/3'' w0)) = slept w0 + 60"
    by blast
  then
  show \<open>fst (waitForMediaProcessing busy_server ''https://s/3'' w0) =
      Some (Error ''media processing timed out'') \<and>
    map fst (since w0 (snd (waitForMediaProcessing busy_server ''https://s/3'' w0))) =
      replicate 30 (statusReq ''https://s/3'') \<and>
    sent_since w0 (snd (waitForMediaProcessing busy_server ''https://s/3'' w0)) =
      [2, 4, 6, 8, 10, 12, 14, 16, 18, 20, 22, 24, 26, 28, 30, 32, 34, 36, 38, 40, 42, 44, 46,
       48, 50, 52, 54, 56, 58, 60] \<and>
    slept (snd (waitForMediaProcessing busy_server ''https://s/3'' w0)) = 60\<close>
    unfolding n by (simp add: w0_def)
next
  have u: "url_error silent_server (URL ''https://s/3'' []) = None"
    by (simp add: silent_server_def)
  have s: \<open>status_of silent_server (answer 200 ''{}'') = None\<close>
    by (simp add: silent_server_def status_of_def answer_def known_maps_def)
  from waitForMediaProcessing_times_out [OF u, of w0]
  have "\<forall>k < length (since w0 (snd (waitForMediaProcessing silent_server ''https://s/3'' w0))).
        status_of silent_server
          (snd (since w0 (snd (waitForMediaProcessing silent_server ''https://s/3'' w0)) ! k)) =
          None \<longrightarrow>
          Suc k = length (since w0 (snd (waitForMediaProcessing silent_server ''https://s/3'' w0))) \<and>
          fst (waitForMediaProcessing silent_server ''https://s/3'' w0) =
            Some (Error (poll_failure silent_server
              (snd (since w0 (snd (waitForMediaProcessing silent_server ''https://s/3'' w0)) ! k))))"
    by blast
  with s
  show \<open>status_of silent_server (answer 200 ''{}'') = None \<and>
    since w0 (snd (waitForMediaProcessing silent_server ''https://s/3'' w0)) =
      [(statusReq ''https://s/3'', answer 200 ''{}'')] \<and>
    sent_since w0 (snd (waitForMediaProcessing silent_server ''https://s/3'' w0)) = [2] \<and>
    fst (waitForMediaProcessing silent_server ''https://s/3'' w0) =
      Some (Error ''invalid status response'')\<close>
    unfolding silent_run
    by (simp add: since_def sent_since_def w0_def)
qed

text \<open>
  \<^bold>\<open>C2\<close>: \<^verbatim>\<open>waitForMediaProcessing\<close> stops at the first polled response whose \<^verbatim>\<open>status_code\<close> is
  terminal. Whenever the k-th outcome polled in an execution is a response with status
  \<^verbatim>\<open>FINISHED\<close> or \<^verbatim>\<open>ERROR\<close>, it is the last exchange of the execution (no poll follows it), and
  the helper returns \<^verbatim>\<open>nil\<close> for \<^verbatim>\<open>FINISHED\<close> and, for \<^verbatim>\<open>ERROR\<close>, the error
  \<^verbatim>\<open>media processing failed: \<close> followed by the body of that response.
\<close>

theorem waitForMediaProcessing_stops_at_terminal:
  assumes "k < length (since w (snd (waitForMediaProcessing E statusURL w)))"
    and "snd (since w (snd (waitForMediaProcessing E statusURL w)) ! k) = Inr resp"
    and "status_of E (Inr resp) = Some status"
    and "status = ''FINISHED'' \<or> status = ''ERROR''"
  shows "Suc k = length (since w (snd (waitForMediaProcessing E statusURL w))) \<and>
         fst (waitForMediaProcessing E statusURL w) =
           (if status = ''FINISHED'' then None
            else Some (Error (''media processing failed: '' @ Body resp)))"
  using waitLoop_terminal [of k w E statusURL 0 resp status] assms
  by (simp add: waitForMediaProcessing_def)


lemma finishing_run:
  \<open>since w0 (snd (waitForMediaProcessing finishing_server ''https://s/3'' w0)) =
     [(statusReq ''https://s/3'', answer 200 ''{"status_code":"IN_PROGRESS"}''),
      (statusReq ''https://s/3'', answer 200 ''{"status_code":"IN_PROGRESS"}''),
      (statusReq ''https://s/3'', answer 200 ''{"status_code":"FINISHED"}'')]\<close>
  by (simp add: run_defs since_def)

lemma failing_run:
  \<open>since w0 (snd (waitForMediaProcessing failing_server ''https://s/3'' w0)) =
     [(statusReq ''https://s/3'', answer 200 ''{"status_code":"IN_PROGRESS"}''),
      (statusReq ''https://s/3'', answer 200 ''{"status_code":"ERROR"}'')]\<close>
  by (simp add: run_defs since_def)

theorem waitForMediaProcessing_stops_at_terminal_witness:
  \<open>(Suc 2 = length (since w0 (snd (waitForMediaProcessing finishing_server ''https://s/3'' w0))) \<and>
    fst (waitForMediaProcessing finishing_server ''https://s/3'' w0) = None) \<and>
   (Suc 1 = length (since w0 (snd (waitForMediaProcessing failing_server ''https://s/3'' w0))) \<and>
    fst (waitForMediaProcessing failing_server ''https://s/3'' w0) =
      Some (Error ''media processing failed: {"status_code":"ERROR"}''))\<close>
proof
  have \<open>status_of finishing_server (Inr \<lparr>StatusCode = 200, Body = ''{"status_code":"FINISHED"}''\<rparr>)
        = Some ''FINISHED''\<close>
    unfolding finishing_server_def by (simp add: status_of_def known_maps_def)
  from waitForMediaProcessing_stops_at_terminal
     [of 2 w0 finishing_server "''https://s/3''" _ "''FINISHED''", OF _ _ this]
  show \<open>Suc 2 = length (since w0 (snd (waitForMediaProcessing finishing_server ''https://s/3'' w0))) \<and>
    fst (waitForMediaProcessing finishing_server ''https://s/3'' w0) = None\<close>
    unfolding finishing_run by (simp add: answer_def)
next
  have \<open>status_of failing_server (Inr \<lparr>StatusCode = 200, Body = ''{"status_code":"ERROR"}''\<rparr>)
        = Some ''ERROR''\<close>
    unfolding failing_server_def by (simp add: status_of_def known_maps_def)
  from waitForMediaProcessing_stops_at_terminal
     [of 1 w0 failing_server "''https://s/3''" _ "''ERROR''", OF _ _ this]
  show \<open>Suc 1 = length (since w0 (snd (waitForMediaProcessing failing_server ''https://s/3'' w0))) \<and>
    fst (waitForMediaProcessing failing_server ''https://s/3'' w0) =
      Some (Error ''media processing failed: {"status_code":"ERROR"}'')\<close>
    unfolding failing_run by (simp add: answer_def)
qed
subsection \<open>Single calls of threads.go and twitter.go\<close>

lemma since_snoc [simp]: "since w (w\<lparr>trace := trace w @ ps, sent_at := ts\<rparr>) = ps"
  by (simp add: since_def)

lemma Do_eq:
  "Do E rq w =
     (server E (trace w) rq,
      w\<lparr>trace := trace w @ [(rq, server E (trace w) rq)], sent_at := sent_at w @ [slept w]\<rparr>)"
  by (simp add: Do_def Let_def)

lemma names_after: "names_response (pre @ itoa (StatusCode resp) @ mid @ Body resp) resp"
proof -
  have "sublist (itoa (StatusCode resp)) (pre @ itoa (StatusCode resp) @ (mid @ Body resp))"
    by (rule sublist_appendI)
  moreover have "sublist (Body resp) ((pre @ itoa (StatusCode resp) @ mid) @ Body resp)"
    by (rule sublist_append_leftI)
  ultimately show ?thesis by (simp add: names_response_def)
qed

lemma names_before: "names_response (pre @ Body resp @ mid @ itoa (StatusCode resp)) resp"
proof -
  have "sublist (Body resp) (pre @ Body resp @ (mid @ itoa (StatusCode resp)))"
    by (rule sublist_appendI)
  moreover have "sublist (itoa (StatusCode resp)) ((pre @ Body resp @ mid) @ itoa (StatusCode resp))"
    by (rule sublist_append_leftI)
  ultimately show ?thesis by (simp add: names_response_def)
qed

lemma threads_api_error_names [simp]:
  "named_by (error_message (Inl (threads_api_error resp))) resp"
  "named_by (failure_message (Some (threads_api_error resp))) resp"
  unfolding threads_api_error_def named_by_def
  using names_after [of "''API error (status ''" resp "''): ''"] by simp_all

lemma twitter_api_error_names [simp]:
  "named_by (error_message (Inl (twitter_api_error resp))) resp"
  "named_by (failure_message (Some (twitter_api_error resp))) resp"
  unfolding twitter_api_error_def named_by_def
  using names_after [of "''API error: ''" resp "'' - ''"] by simp_all

lemma reports_status_Nil [simp]: "reports_status A [] m"
  by (simp add: reports_status_def)

lemma reports_status_one [simp]:
  "reports_status A [(rq, r)] m =
     (case r of Inl e \<Rightarrow> True | Inr resp \<Rightarrow> StatusCode resp \<in> A \<or> named_by m resp)"
  by (simp add: reports_status_def split: sum.splits)















text \<open>
  \<^bold>\<open>C9\<close>: every \<^verbatim>\<open>ThreadService\<close> operation that requires a non-empty argument returns its
  validation error at once when that argument is the empty string: the world comes back as
  it was, so no request was sent. (The service itself is only read; no method of the file
  assigns to it.) \<^verbatim>\<open>UpdateThread\<close> requires the thread ID, and one of title and content.
\<close>

theorem ThreadService_rejects_empty_arguments:
  "CreateThread E s [] content authorID w = (Inl (Error ''title cannot be empty''), w) \<and>
   (title \<noteq> [] \<longrightarrow>
      CreateThread E s title [] authorID w = (Inl (Error ''content cannot be empty''), w)) \<and>
   GetThread E s [] w = (Inl (Error ''thread ID cannot be empty''), w) \<and>
   UpdateThread E s [] title content w = (Inl (Error ''thread ID cannot be empty''), w) \<and>
   (threadID \<noteq> [] \<longrightarrow>
      UpdateThread E s threadID [] [] w = (Inl (Error ''no update parameters provided''), w)) \<and>
   DeleteThread E s [] w = (Some (Error ''thread ID cannot be empty''), w) \<and>
   CreateReply E s [] content authorID parentID w =
     (Inl (Error ''thread ID cannot be empty''), w) \<and>
   (threadID \<noteq> [] \<longrightarrow>
      CreateReply E s threadID [] authorID parentID w =
        (Inl (Error ''content cannot be empty''), w)) \<and>
   GetReplies E s [] page limit w = (Inl (Error ''thread ID cannot be empty''), w) \<and>
   UpdateReply E s [] content w = (Inl (Error ''reply ID cannot be empty''), w) \<and>
   (replyID \<noteq> [] \<longrightarrow>
      UpdateReply E s replyID [] w = (Inl (Error ''content cannot be empty''), w)) \<and>
   DeleteReply E s [] w = (Some (Error ''reply ID cannot be empty''), w) \<and>
   SearchThreads E s [] page limit w = (Inl (Error ''search query cannot be empty''), w)"
  by (simp add: CreateThread_def GetThread_def UpdateThread_def DeleteThread_def
      CreateReply_def GetReplies_def UpdateReply_def DeleteReply_def SearchThreads_def)

theorem ThreadService_rejects_empty_arguments_witness:
  "CreateThread busy_server threads [] ''body'' ''u1'' w0 =
     (Inl (Error ''title cannot be empty''), w0) \<and>
   (''title'' \<noteq> [] \<and>
      CreateThread busy_server threads ''title'' [] ''u1'' w0 =
        (Inl (Error ''content cannot be empty''), w0)) \<and>
   (''42'' \<noteq> [] \<and>
      UpdateThread busy_server threads ''42'' [] [] w0 =
        (Inl (Error ''no update parameters provided''), w0)) \<and>
   (''42'' \<noteq> [] \<and>
      CreateReply busy_server threads ''42'' [] ''u1'' [] w0 =
        (Inl (Error ''content cannot be empty''), w0)) \<and>
   (''r7'' \<noteq> [] \<and>
      UpdateReply busy_server threads ''r7'' [] w0 =
        (Inl (Error ''content cannot be empty''), w0)) \<and>
   SearchThreads busy_server threads [] 1 10 w0 =
     (Inl (Error ''search query cannot be empty''), w0)"
  using ThreadService_rejects_empty_arguments
    [where E = busy_server and s = threads and content = "''body''" and authorID = "''u1''"
       and w = w0 and title = "''title''" and threadID = "''42''" and parentID = "[]"
       and replyID = "''r7''" and page = 1 and limit = 10]
  by simp





subsection \<open>The tweet loop\<close>

lemma CreateTweet_no_panic: "fst (CreateTweet E c text w) \<noteq> Inl (Panic p)"
  by (simp add: CreateTweet_def NewRequest_def Do_eq twitter_api_error_def
      split: option.split sum.split)

lemma CreateTweet_since:
  assumes "url_error E (URL (tw_BaseURL c @ ''/tweets'') []) = None"
  shows "map fst (since w (snd (CreateTweet E c text w))) = [tweet_request c text]"
  using assms
  by (simp add: CreateTweet_def NewRequest_def Do_eq tweet_request_def Header_Set_def
      split: sum.split)

lemma CreateTweet_extends: "extends w (snd (CreateTweet E c text w))"
  by (simp add: CreateTweet_def NewRequest_def Do_eq extends_def
      split: option.split sum.split)

lemma tick_empty:
  assumes "at_Content atw = []"
  shows "tick E atw w = (Inl (Panic ''index out of range''), w)"
  using assms by (simp add: tick_def Let_def)

text \<open>One tick from an index between 0 and the length of a non-empty content list.\<close>

lemma tick_in_bounds:
  assumes "at_Content atw \<noteq> []" and "0 \<le> at_CurrentIndex atw"
  shows "\<exists>atw'. fst (tick E atw w) = Inr atw' \<and>
           at_Content atw' = at_Content atw \<and> at_Client atw' = at_Client atw \<and>
           at_CurrentIndex atw' =
             (if at_CurrentIndex atw \<ge> int (length (at_Content atw)) then 0
              else at_CurrentIndex atw) + 1"
proof -
  obtain r w1 where c: "CreateTweet E (at_Client atw)
      (at_Content atw ! nat (if at_CurrentIndex atw \<ge> int (length (at_Content atw)) then 0
                              else at_CurrentIndex atw)) w = (r, w1)"
    by (cases "CreateTweet E (at_Client atw)
      (at_Content atw ! nat (if at_CurrentIndex atw \<ge> int (length (at_Content atw)) then 0
                              else at_CurrentIndex atw)) w") blast
  have np: "\<And>p. r \<noteq> Inl (Panic p)"
    using CreateTweet_no_panic [of E "at_Client atw" _ w] c by (metis fst_conv)
  show ?thesis
  proof (cases r)
    case (Inl e)
    with np obtain m where "e = Error m" by (cases e) auto
    with Inl c assms show ?thesis
      by (auto simp: tick_def Let_def)
  next
    case (Inr t)
    with c assms show ?thesis
      by (auto simp: tick_def Let_def)
  qed
qed

lemma tick_since:
  assumes "at_Content atw \<noteq> []" and "0 \<le> at_CurrentIndex atw"
    and "url_error E (URL (tw_BaseURL (at_Client atw) @ ''/tweets'') []) = None"
  shows "map fst (since w (snd (tick E atw w))) =
     [tweet_request (at_Client atw)
        (at_Content atw ! nat (if at_CurrentIndex atw \<ge> int (length (at_Content atw)) then 0
                                else at_CurrentIndex atw))]"
proof -
  let ?text = "at_Content atw ! nat (if at_CurrentIndex atw \<ge> int (length (at_Content atw))
                                     then 0 else at_CurrentIndex atw)"
  obtain r w1 where c: "CreateTweet E (at_Client atw) ?text w = (r, w1)"
    by (cases "CreateTweet E (at_Client atw) ?text w") blast
  have s: "map fst (since w w1) = [tweet_request (at_Client atw) ?text]"
    using CreateTweet_since [OF assms(3), of w ?text] c by simp
  have np: "\<And>p. r \<noteq> Inl (Panic p)"
    using CreateTweet_no_panic [of E "at_Client atw" ?text w] c by (metis fst_conv)
  show ?thesis
  proof (cases r)
    case (Inl e)
    with np obtain m where "e = Error m" by (cases e) auto
    with Inl c assms s show ?thesis
      by (auto simp: tick_def Let_def since_Printf)
  next
    case (Inr t)
    with c assms s show ?thesis
      by (auto simp: tick_def Let_def since_Printf)
  qed
qed

lemma CreateTweet_extendsD: "CreateTweet E c text w = (r, w1) \<Longrightarrow> extends w w1"
  using CreateTweet_extends [of w E c "text"] by simp

lemma extends_Printf_iff [simp]: "extends w (Printf s w1) = extends w w1"
  by (simp add: extends_def Printf_def)

lemma tick_extends: "extends w (snd (tick E atw w))"
  by (auto simp: tick_def Let_def extends_refl dest: CreateTweet_extendsD
      split: prod.split sum.split error.split)

lemma Start_extends: "extends w (snd (Start_loop E atw cs w))"
proof (induction cs arbitrary: atw w)
  case Nil
  show ?case by (simp add: extends_refl)
next
  case (Cons c cs)
  show ?case
  proof (cases c)
    case StopChan
    then show ?thesis by (simp add: extends_refl)
  next
    case TickerC
    obtain r w1 where t: "tick E atw w = (r, w1)" by (cases "tick E atw w") blast
    have e: "extends w w1" using tick_extends [of w E atw] t by simp
    show ?thesis
    proof (cases r)
      case (Inl x)
      with TickerC t e show ?thesis by simp
    next
      case (Inr atw1)
      with TickerC t e Cons.IH [of w1 atw1] show ?thesis
        by (auto intro: extends_trans)
    qed
  qed
qed

lemma Start_no_panic:
  assumes "at_Content atw \<noteq> []" and "0 \<le> at_CurrentIndex atw"
  shows "\<exists>atw'. fst (Start_loop E atw cs w) = Inr atw'"
  using assms
proof (induction cs arbitrary: atw w)
  case Nil
  show ?case by simp
next
  case (Cons c cs)
  show ?case
  proof (cases c)
    case StopChan
    then show ?thesis by simp
  next
    case TickerC
    from tick_in_bounds [OF Cons.prems, of E w] obtain atw1 where
      t: "fst (tick E atw w) = Inr atw1" and k: "at_Content atw1 = at_Content atw"
      and i: "at_CurrentIndex atw1 =
             (if at_CurrentIndex atw \<ge> int (length (at_Content atw)) then 0
              else at_CurrentIndex atw) + 1"
      by blast
    have "at_Content atw1 \<noteq> []" using k Cons.prems by simp
    moreover have "0 \<le> at_CurrentIndex atw1" using i Cons.prems by simp
    ultimately obtain atw' where "fst (Start_loop E atw1 cs (snd (tick E atw w))) = Inr atw'"
      using Cons.IH by blast
    with TickerC t show ?thesis
      by (cases "tick E atw w") auto
  qed
qed

lemma Start_cycles:
  assumes "at_Content atw \<noteq> []" and "0 \<le> at_CurrentIndex atw"
    and "at_CurrentIndex atw \<le> int (length (at_Content atw))"
    and "url_error E (URL (tw_BaseURL (at_Client atw) @ ''/tweets'') []) = None"
  shows "map fst (since w (snd (Start_loop E atw cs w))) =
     map (\<lambda>k. tweet_request (at_Client atw)
               (at_Content atw ! ((nat (at_CurrentIndex atw) + k) mod length (at_Content atw))))
       [0..<ticks_taken cs]"
  using assms
proof (induction cs arbitrary: atw w)
  case Nil
  show ?case by (simp add: ticks_taken_def since_self)
next
  case (Cons c cs)
  show ?case
  proof (cases c)
    case StopChan
    then show ?thesis by (simp add: ticks_taken_def since_self)
  next
    case TickerC
    let ?n = "length (at_Content atw)"
    let ?i = "if at_CurrentIndex atw \<ge> int ?n then 0 else at_CurrentIndex atw"
    from tick_in_bounds [OF Cons.prems(1,2), of E w] obtain atw1 where
      t: "fst (tick E atw w) = Inr atw1" and k: "at_Content atw1 = at_Content atw"
      and cl: "at_Client atw1 = at_Client atw"
      and i: "at_CurrentIndex atw1 = ?i + 1"
      by blast
    let ?w1 = "snd (tick E atw w)"
    have n0: "0 < ?n" using Cons.prems(1) by simp
    have i1: "nat ?i = nat (at_CurrentIndex atw) mod ?n"
    proof (cases "at_CurrentIndex atw \<ge> int ?n")
      case True
      with Cons.prems(3) have "at_CurrentIndex atw = int ?n" by simp
      then show ?thesis by simp
    next
      case False
      with Cons.prems(2) have "nat (at_CurrentIndex atw) < ?n" by simp
      with False show ?thesis by simp
    qed
    have first: "map fst (since w ?w1) =
        [tweet_request (at_Client atw) (at_Content atw ! (nat (at_CurrentIndex atw) mod ?n))]"
      using tick_since [OF Cons.prems(1,2,4), of w] i1 by simp
    have p1: "at_Content atw1 \<noteq> []" using k Cons.prems by simp
    have p2: "0 \<le> at_CurrentIndex atw1" using i Cons.prems by simp
    have n1: "1 \<le> int ?n" using n0 by linarith
    have "?i + 1 \<le> int ?n"
    proof (cases "at_CurrentIndex atw \<ge> int ?n")
      case True
      then have "?i = 0" by simp
      with n1 show ?thesis by linarith
    next
      case False
      then have "?i = at_CurrentIndex atw" by simp
      with False show ?thesis by linarith
    qed
    then have p3: "at_CurrentIndex atw1 \<le> int (length (at_Content atw1))"
      unfolding i k .
    have p4: "url_error E (URL (tw_BaseURL (at_Client atw1) @ ''/tweets'') []) = None"
      using cl Cons.prems by simp
    have rest: "map fst (since ?w1 (snd (Start_loop E atw1 cs ?w1))) =
        map (\<lambda>k. tweet_request (at_Client atw)
               (at_Content atw ! ((nat (at_CurrentIndex atw1) + k) mod ?n)))
          [0..<ticks_taken cs]"
      using Cons.IH [OF p1 p2 p3 p4, of ?w1] k cl by simp
    have idx: "\<And>j. (nat (at_CurrentIndex atw1) + j) mod ?n =
                    (nat (at_CurrentIndex atw) + Suc j) mod ?n"
    proof -
      fix j
      have "nat (at_CurrentIndex atw1) = nat ?i + 1" using i Cons.prems(2) by auto
      then have "(nat (at_CurrentIndex atw1) + j) mod ?n =
                 (nat (at_CurrentIndex atw) mod ?n + Suc j) mod ?n"
        using i1 by simp
      also have "\<dots> = (nat (at_CurrentIndex atw) + Suc j) mod ?n"
        by (rule mod_add_left_eq)
      finally show "(nat (at_CurrentIndex atw1) + j) mod ?n =
                    (nat (at_CurrentIndex atw) + Suc j) mod ?n" .
    qed
    have run: "Start_loop E atw (c # cs) w = Start_loop E atw1 cs ?w1"
      using TickerC t by (cases "tick E atw w") auto
    have split: "since w (snd (Start_loop E atw1 cs ?w1)) =
        since w ?w1 @ since ?w1 (snd (Start_loop E atw1 cs ?w1))"
      by (rule since_trans [OF tick_extends Start_extends])
    have tt: "ticks_taken (c # cs) = Suc (ticks_taken cs)"
      using TickerC by (simp add: ticks_taken_def)
    have upt: "[0..<Suc (ticks_taken cs)] = 0 # map Suc [0..<ticks_taken cs]"
      by (simp add: upt_conv_Cons map_Suc_upt del: upt_Suc)
    show ?thesis
      unfolding run split tt upt
      using first rest idx by (simp add: comp_def)
  qed
qed

text \<open>An index that has reached the length of the content is reset before it is used, and a
  negative one is used as it is.\<close>

lemma tick_reset:
  assumes "at_Content atw \<noteq> []" and "int (length (at_Content atw)) \<le> at_CurrentIndex atw"
  shows "tick E atw w = tick E (atw\<lparr>at_CurrentIndex := 0\<rparr>) w"
  using assms by (simp add: tick_def Let_def)

lemma tick_negative:
  assumes "at_CurrentIndex atw < 0"
  shows "tick E atw w = (Inl (Panic ''index out of range''), w)"
  using assms by (simp add: tick_def Let_def)

lemma Start_loop_reset:
  assumes "at_Content atw \<noteq> []" and "int (length (at_Content atw)) \<le> at_CurrentIndex atw"
  shows "snd (Start_loop E atw cs w) = snd (Start_loop E (atw\<lparr>at_CurrentIndex := 0\<rparr>) cs w)"
proof (cases cs)
  case Nil
  then show ?thesis by simp
next
  case (Cons c cs')
  with tick_reset [OF assms, of E w] show ?thesis by (cases c) simp_all
qed

lemma Start_loop_cycles:
  assumes "at_Content atw \<noteq> []" and "0 \<le> at_CurrentIndex atw"
    and "url_error E (URL (tw_BaseURL (at_Client atw) @ ''/tweets'') []) = None"
  shows "map fst (since w (snd (Start_loop E atw cs w))) =
     map (\<lambda>k. tweet_request (at_Client atw)
               (at_Content atw ! ((first_index atw + k) mod length (at_Content atw))))
       [0..<ticks_taken cs]"
proof (cases "int (length (at_Content atw)) \<le> at_CurrentIndex atw")
  case True
  let ?atw0 = "atw\<lparr>at_CurrentIndex := 0\<rparr>"
  have "map fst (since w (snd (Start_loop E ?atw0 cs w))) =
     map (\<lambda>k. tweet_request (at_Client ?atw0)
               (at_Content ?atw0 ! ((nat (at_CurrentIndex ?atw0) + k) mod
                  length (at_Content ?atw0))))
       [0..<ticks_taken cs]"
    by (rule Start_cycles) (use assms in simp_all)
  with True show ?thesis
    unfolding Start_loop_reset [OF assms(1) True] by (simp add: first_index_def)
next
  case False
  then have "at_CurrentIndex atw \<le> int (length (at_Content atw))" by simp
  from Start_cycles [OF assms(1,2) this assms(3), of w cs] False
  show ?thesis by (simp add: first_index_def)
qed
text \<open>
  \<^bold>\<open>C8\<close>, as stated: in each tick of \<^verbatim>\<open>AutomatedTweeter.Start\<close>, if the \<^verbatim>\<open>Content\<close> list is not
  empty then the index access \<^verbatim>\<open>at.Content[at.CurrentIndex]\<close> is in bounds. It fails where the
  exported field \<^verbatim>\<open>CurrentIndex\<close> is negative when \<^verbatim>\<open>Start\<close> is called: the reset of lines
  263-265 looks only at an index that has reached the length, so with the content
  \<^verbatim>\<open>["one", "two"]\<close> and the index -1 the first tick panics on the index access, before
  anything is sent.
\<close>

theorem AutomatedTweeter_negative_index_counterexample:
  "at_Content ((NewAutomatedTweeter twitter 60 [''one'', ''two''])\<lparr>at_CurrentIndex := - 1\<rparr>) \<noteq> [] \<and>
   Start (scripted [] (answer 201 ''{}''))
     ((NewAutomatedTweeter twitter 60 [''one'', ''two''])\<lparr>at_CurrentIndex := - 1\<rparr>)
     [TickerC, TickerC, StopChan] w0 =
   (Inl (Panic ''index out of range''), w0)"
  by (simp add: Start_def NewAutomatedTweeter_def tick_def Let_def)

text \<open>
  \<^bold>\<open>C8\<close>, amended: let \<^verbatim>\<open>Start\<close> be called with a positive \<^verbatim>\<open>PostInterval\<close> (with another one
  \<^verbatim>\<open>time.NewTicker\<close> panics before any tick).

  \<^item> If \<^verbatim>\<open>Content\<close> is not empty and \<^verbatim>\<open>CurrentIndex\<close> is not negative (\<^verbatim>\<open>NewAutomatedTweeter\<close>
    sets it to 0), no tick panics, whatever cases the \<^verbatim>\<open>select\<close> takes, and the content is
    posted cyclically in list order, from the index the first tick uses, which is 0 if
    \<^verbatim>\<open>CurrentIndex\<close> has reached or passed \<^verbatim>\<open>len(Content)\<close> and \<^verbatim>\<open>CurrentIndex\<close> otherwise: the
    k-th tick sends \<^verbatim>\<open>Content[(first + k) mod len(Content)]\<close> (one request a tick, if
    \<^verbatim>\<open>http.NewRequest\<close> accepts the endpoint).

  \<^item> If \<^verbatim>\<open>Content\<close> is empty or \<^verbatim>\<open>CurrentIndex\<close> is negative, the first tick panics on the index
    access, before anything is sent.
\<close>

theorem AutomatedTweeter_index_in_bounds:
  "(0 < at_PostInterval atw \<and> at_Content atw \<noteq> [] \<and> 0 \<le> at_CurrentIndex atw \<longrightarrow>
      (\<exists>atw'. fst (Start E atw cs w) = Inr atw') \<and>
      (url_error E (URL (tw_BaseURL (at_Client atw) @ ''/tweets'') []) = None \<longrightarrow>
         map fst (since w (snd (Start E atw cs w))) =
           map (\<lambda>k. tweet_request (at_Client atw)
                  (at_Content atw ! ((first_index atw + k) mod length (at_Content atw))))
             [0..<ticks_taken cs])) \<and>
   (0 < interval \<and> content \<noteq> [] \<and>
    url_error E (URL (tw_BaseURL client @ ''/tweets'') []) = None \<longrightarrow>
      map fst (since w (snd (Start E (NewAutomatedTweeter client interval content) cs w))) =
        map (\<lambda>k. tweet_request client (content ! (k mod length content)))
          [0..<ticks_taken cs]) \<and>
   (0 < at_PostInterval atw \<and> (at_Content atw = [] \<or> at_CurrentIndex atw < 0) \<longrightarrow>
      Start E atw (TickerC # cs) w = (Inl (Panic ''index out of range''), w)) \<and>
   (at_PostInterval atw \<le> 0 \<longrightarrow>
      Start E atw cs w = (Inl (Panic ''non-positive interval for NewTicker''), w))"
proof (intro conjI impI)
  assume a: "0 < at_PostInterval atw \<and> at_Content atw \<noteq> [] \<and> 0 \<le> at_CurrentIndex atw"
  then show "\<exists>atw'. fst (Start E atw cs w) = Inr atw'"
    using Start_no_panic [of atw E cs w] by (simp add: Start_def)
  assume "url_error E (URL (tw_BaseURL (at_Client atw) @ ''/tweets'') []) = None"
  with a show "map fst (since w (snd (Start E atw cs w))) =
           map (\<lambda>k. tweet_request (at_Client atw)
                  (at_Content atw ! ((first_index atw + k) mod length (at_Content atw))))
             [0..<ticks_taken cs]"
    using Start_loop_cycles [of atw E w cs] by (simp add: Start_def)
next
  assume a: "0 < interval \<and> content \<noteq> [] \<and>
    url_error E (URL (tw_BaseURL client @ ''/tweets'') []) = None"
  let ?t = "NewAutomatedTweeter client interval content"
  have "map fst (since w (snd (Start_loop E ?t cs w))) =
     map (\<lambda>k. tweet_request (at_Client ?t)
               (at_Content ?t ! ((first_index ?t + k) mod length (at_Content ?t))))
       [0..<ticks_taken cs]"
    by (rule Start_loop_cycles) (use a in \<open>simp_all add: NewAutomatedTweeter_def\<close>)
  with a show "map fst (since w (snd (Start E ?t cs w))) =
        map (\<lambda>k. tweet_request client (content ! (k mod length content)))
          [0..<ticks_taken cs]"
    by (simp add: Start_def NewAutomatedTweeter_def first_index_def)
next
  assume "0 < at_PostInterval atw \<and> (at_Content atw = [] \<or> at_CurrentIndex atw < 0)"
  then show "Start E atw (TickerC # cs) w = (Inl (Panic ''index out of range''), w)"
    by (auto simp: Start_def tick_empty tick_negative)
next
  assume "at_PostInterval atw \<le> 0"
  then show "Start E atw cs w = (Inl (Panic ''non-positive interval for NewTicker''), w)"
    by (simp add: Start_def)
qed

theorem AutomatedTweeter_index_in_bounds_witness:
  "(map fst (since w0 (snd (Start (scripted [] (answer 201 ''{}''))
        (NewAutomatedTweeter twitter 60 [''one'', ''two''])
        [TickerC, TickerC, TickerC, StopChan, TickerC] w0))) =
      [tweet_request twitter ''one'', tweet_request twitter ''two'',
       tweet_request twitter ''one'']) \<and>
   (first_index ((NewAutomatedTweeter twitter 60 [''one'', ''two'', ''three''])
                   \<lparr>at_CurrentIndex := 7\<rparr>) = 0 \<and>
    first_index ((NewAutomatedTweeter twitter 60 [''one'', ''two'', ''three''])
                   \<lparr>at_CurrentIndex := 2\<rparr>) = 2 \<and>
    map fst (since w0 (snd (Start (scripted [] (answer 201 ''{}''))
        ((NewAutomatedTweeter twitter 60 [''one'', ''two'', ''three''])\<lparr>at_CurrentIndex := 7\<rparr>)
        [TickerC, TickerC, StopChan] w0))) =
      [tweet_request twitter ''one'', tweet_request twitter ''two''] \<and>
    map fst (since w0 (snd (Start (scripted [] (answer 201 ''{}''))
        ((NewAutomatedTweeter twitter 60 [''one'', ''two'', ''three''])\<lparr>at_CurrentIndex := 2\<rparr>)
        [TickerC, TickerC, StopChan] w0))) =
      [tweet_request twitter ''three'', tweet_request twitter ''one'']) \<and>
   (Start (scripted [] (answer 201 ''{}'')) (NewAutomatedTweeter twitter 60 [])
      [TickerC, StopChan] w0 = (Inl (Panic ''index out of range''), w0)) \<and>
   (Start (scripted [] (answer 201 ''{}'')) (NewAutomatedTweeter twitter 0 [''one''])
      [TickerC, StopChan] w0 = (Inl (Panic ''non-positive interval for NewTicker''), w0))"
  using AutomatedTweeter_index_in_bounds
    [where content = "[''one'', ''two'']" and E = "scripted [] (answer 201 ''{}'')"
       and client = twitter and interval = 60 and w = w0
       and cs = "[TickerC, TickerC, TickerC, StopChan, TickerC]"
       and atw = "NewAutomatedTweeter twitter 0 [''one'']"]
    AutomatedTweeter_index_in_bounds
    [where content = "[''one'', ''two'']" and E = "scripted [] (answer 201 ''{}'')"
       and client = twitter and interval = 60 and w = w0
       and cs = "[TickerC, TickerC, StopChan]"
       and atw = "(NewAutomatedTweeter twitter 60 [''one'', ''two'', ''three''])
                    \<lparr>at_CurrentIndex := 7\<rparr>"]
    AutomatedTweeter_index_in_bounds
    [where content = "[''one'', ''two'']" and E = "scripted [] (answer 201 ''{}'')"
       and client = twitter and interval = 60 and w = w0
       and cs = "[TickerC, TickerC, StopChan]"
       and atw = "(NewAutomatedTweeter twitter 60 [''one'', ''two'', ''three''])
                    \<lparr>at_CurrentIndex := 2\<rparr>"]
    AutomatedTweeter_index_in_bounds
    [where content = "[''one'', ''two'']" and E = "scripted [] (answer 201 ''{}'')"
       and client = twitter and interval = 60 and w = w0
       and cs = "[StopChan]" and atw = "NewAutomatedTweeter twitter 60 []"]
    AutomatedTweeter_index_in_bounds
    [where content = "[''one'', ''two'']" and E = "scripted [] (answer 201 ''{}'')"
       and client = twitter and interval = 60 and w = w0
       and cs = "[TickerC, StopChan]" and atw = "NewAutomatedTweeter twitter 0 [''one'']"]
  by (simp add: ticks_taken_def NewAutomatedTweeter_def first_index_def upt_rec)
subsection \<open>linkedin.go: the result of a video post\<close>

lemma CreateVideoPost_never_a_post:
  "fst (CreateVideoPost E c text videoAssetURN authorType authorID w) \<noteq> Inr (Some post)"
  by (simp add: CreateVideoPost_def NewRequest_def Do_eq
      split: prod.split sum.split option.split)

text \<open>
  \<^bold>\<open>C4\<close>: given a success response with a known JSON body, a wrapper returns a non-nil typed
  result that reflects the body. \<^verbatim>\<open>CreateVideoPost\<close> does not: it never returns a post, and on
  the response \<^verbatim>\<open>201 {"id":"urn:li:share:7"}\<close> it returns \<^verbatim>\<open>nil, nil\<close>, where its sibling
  \<^verbatim>\<open>CreateImagePost\<close>, sent the same response, returns the post with that ID.
\<close>

theorem CreateVideoPost_returns_nil:
  \<open>fst (CreateVideoPost E c text videoAssetURN authorType authorID w) \<noteq> Inr (Some post) \<and>
   fst (CreateVideoPost (scripted [] (answer 201 ''{"id":"urn:li:share:7"}'')) linked
          ''hello'' ''urn:li:digitalmediaAsset:V1'' ''person'' ''me'' w0) = Inr None \<and>
   map snd (trace (snd (snd (CreateVideoPost
          (scripted [] (answer 201 ''{"id":"urn:li:share:7"}'')) linked
          ''hello'' ''urn:li:digitalmediaAsset:V1'' ''person'' ''me'' w0)))) =
     [answer 201 ''{"id":"urn:li:share:7"}''] \<and>
   fst (CreateImagePost (scripted [] (answer 201 ''{"id":"urn:li:share:7"}'')) linked
          ''hello'' ''urn:li:digitalmediaAsset:I1'' ''person'' ''me'' w0) =
     Inr \<lparr>pr_ID = ''urn:li:share:7'', pr_Status = []\<rparr>\<close>
  by (simp add: CreateVideoPost_never_a_post)
     (simp add: CreateVideoPost_def CreateImagePost_def resolve_author_def NewRequest_def Do_eq
      linked_def w0_def answer_def known_maps_def Let_def)

text \<open>For comparison, \<^verbatim>\<open>GetTweet\<close> on a 200 returns the tweet the decoder reads from the body.\<close>

lemma GetTweet_reflects_body:
  assumes "url_error E (URL (tw_BaseURL c @ ''/tweets/'' @ tweetID) []) = None"
    and "server E (trace w)
           \<lparr>Method = ''GET'', target = URL (tw_BaseURL c @ ''/tweets/'' @ tweetID) [],
            headers = [(''Authorization'', ''Bearer '' @ tw_BearerToken c)],
            payload = NoBody\<rparr> = Inr resp"
    and "StatusCode resp = 200"
    and "decode_TweetResponse E (Body resp) = Inr tweetResp"
  shows "fst (GetTweet E c tweetID w) = Inr (Data tweetResp)"
  using assms by (simp add: GetTweet_def NewRequest_def Do_eq Header_Set_def)
subsection \<open>The suffix test of the carousel\<close>

lemma of_char_lower:
  "(of_char (lower_char c) :: nat) =
     (if 65 \<le> (of_char c :: nat) \<and> (of_char c :: nat) \<le> 90 then of_char c + 32 else of_char c)"
proof -
  have "(of_char c :: nat) < 256" by simp
  then show ?thesis by (simp add: lower_char_def Let_def)
qed

lemma char_eq_code: "c = d \<longleftrightarrow> (of_char c :: nat) = of_char d"
  by simp

lemma lower_is_m: "lower_char c = CHR ''m'' \<longleftrightarrow> c = CHR ''m'' \<or> c = CHR ''M''"
  unfolding char_eq_code [of _ "CHR ''m''"] char_eq_code [of _ "CHR ''M''"] of_char_lower
  by auto

lemma lower_is_p: "lower_char c = CHR ''p'' \<longleftrightarrow> c = CHR ''p'' \<or> c = CHR ''P''"
  unfolding char_eq_code [of _ "CHR ''p''"] char_eq_code [of _ "CHR ''P''"] of_char_lower
  by auto

lemma lower_is_dot: "lower_char c = CHR ''.'' \<longleftrightarrow> c = CHR ''.''"
  unfolding char_eq_code [of _ "CHR ''.''"] of_char_lower
  by auto

lemma lower_is_4: "lower_char c = CHR ''4'' \<longleftrightarrow> c = CHR ''4''"
  unfolding char_eq_code [of _ "CHR ''4''"] of_char_lower
  by auto

lemma lower_is_m': "CHR ''m'' = lower_char c \<longleftrightarrow> c = CHR ''m'' \<or> c = CHR ''M''"
  by (rule trans [OF eq_commute lower_is_m])

lemma lower_is_p': "CHR ''p'' = lower_char c \<longleftrightarrow> c = CHR ''p'' \<or> c = CHR ''P''"
  by (rule trans [OF eq_commute lower_is_p])

lemma lower_is_dot': "CHR ''.'' = lower_char c \<longleftrightarrow> c = CHR ''.''"
  by (rule trans [OF eq_commute lower_is_dot])

lemma lower_is_4': "CHR ''4'' = lower_char c \<longleftrightarrow> c = CHR ''4''"
  by (rule trans [OF eq_commute lower_is_4])

lemma HasSuffix_rev: "HasSuffix s sfx = prefix (rev sfx) (rev s)"
proof -
  have "HasSuffix s sfx = suffix sfx s"
    by (auto simp: HasSuffix_def suffix_def) (metis append_take_drop_id)
  then show ?thesis by (simp add: suffix_to_prefix)
qed

lemma prefix_4pm:
  "prefix [CHR ''4'', CHR ''p'', CHR ''m'', CHR ''.''] (map lower_char r) =
     (case r of
        c4 # c3 # c2 # c1 # front \<Rightarrow>
          c1 = CHR ''.'' \<and> (c2 = CHR ''m'' \<or> c2 = CHR ''M'') \<and>
          (c3 = CHR ''p'' \<or> c3 = CHR ''P'') \<and> c4 = CHR ''4''
      | _ \<Rightarrow> False)"
proof (cases r)
  case Nil
  then show ?thesis by simp
next
  case (Cons c4 r1)
  show ?thesis
  proof (cases r1)
    case Nil
    with Cons show ?thesis by simp
  next
    case (Cons c3 r2)
    note r1 = this
    show ?thesis
    proof (cases r2)
      case Nil
      with \<open>r = c4 # r1\<close> r1 show ?thesis by simp
    next
      case (Cons c2 r3)
      note r2 = this
      show ?thesis
      proof (cases r3)
        case Nil
        with \<open>r = c4 # r1\<close> r1 r2 show ?thesis by simp
      next
        case (Cons c1 front)
        have "r = c4 # c3 # c2 # c1 # front"
          using \<open>r = c4 # r1\<close> r1 r2 Cons by simp
        then show ?thesis
          by (simp only: list.map Cons_prefix_Cons Nil_prefix list.case
                lower_is_m' lower_is_p' lower_is_dot' lower_is_4' simp_thms)
             blast
      qed
    qed
  qed
qed

lemma mp4_suffix_refines: "HasSuffix (ToLower path) ''.mp4'' = ends_with_mp4 path"
  using prefix_4pm [of "rev path"]
  by (simp add: HasSuffix_rev ToLower_def ends_with_mp4_def rev_map)

lemma carousel_item_params_refines: "carousel_item_params c path = stated_child_params c path"
  by (simp add: carousel_item_params_def stated_child_params_def mp4_suffix_refines)

subsection \<open>The requests of the Instagram calls\<close>

lemma posts_Nil [simp]: "posts [] = []"
  by (simp add: posts_def)

lemma posts_append [simp]: "posts (a @ b) = posts a @ posts b"
  by (simp add: posts_def)

lemma posts_post [simp]: "posts ((post_request u, r) # tr) = (post_request u, r) # posts tr"
  by (simp add: posts_def post_request_def)

lemma posts_status [simp]: "posts ((statusReq u, r) # tr) = posts tr"
  by (simp add: posts_def statusReq_def)

lemma ig_post_result:
  "(\<exists>e. url_error E u = Some e \<and> ig_post E u what w = (Inl (Error e), w)) \<or>
   (url_error E u = None \<and>
    (\<exists>e. ig_post E u what w = (Inl e, snd (Do E (post_request u) w)))) \<or>
   (url_error E u = None \<and>
    (\<exists>m. ig_post E u what w = (Inr m, snd (Do E (post_request u) w)) \<and>
         media_id_of E (fst (Do E (post_request u) w)) = ID m))"
  by (simp add: ig_post_def NewRequest_def Do_eq post_request_def media_id_of_def
      split: option.split sum.split)

lemma ig_post_since:
  "since w (snd (ig_post E u what w)) =
     (if url_error E u = None then [(post_request u, fst (Do E (post_request u) w))] else [])"
  by (simp add: ig_post_def NewRequest_def Do_eq post_request_def since_self
      split: option.split sum.split)

lemma ig_post_extends: "extends w (snd (ig_post E u what w))"
  by (simp add: ig_post_def NewRequest_def Do_eq extends_def split: option.split sum.split)

lemma ig_post_sent: "fst (ig_post E u what w) = Inr m \<Longrightarrow> url_error E u = None"
  by (simp add: ig_post_def NewRequest_def split: option.splits)

lemma waitLoop_extends: "extends w (snd (waitLoop E u i w))"
  using waitLoop_trace [of E u i w] by (auto simp: extends_def)

lemma waitLoop_requests:
  "x \<in> set (since w (snd (waitLoop E u i w))) \<Longrightarrow> fst x = statusReq u"
proof (induction "30 - i" arbitrary: i w)
  case 0
  then show ?case by (simp add: waitLoop_done since_self)
next
  case (Suc n)
  then have i: "i < 30" and n: "n = 30 - (Suc i)" by simp_all
  let ?w2 = "snd (poll E u w)"
  show ?case
  proof (cases "url_error E (URL u [])")
    case (Some e)
    with i Suc.prems show ?thesis by (simp add: waitLoop_bad_url since_Sleep)
  next
    case None
    show ?thesis
    proof (cases "in_progress E (fst (poll E u w))")
      case True
      have eq: "waitLoop E u i w = waitLoop E u (Suc i) ?w2"
        using i None True by (rule waitLoop_continue)
      obtain ps where ps: "trace (snd (waitLoop E u (Suc i) ?w2)) = trace ?w2 @ ps"
        using waitLoop_trace by blast
      have s: "since w (snd (waitLoop E u (Suc i) ?w2)) =
          (statusReq u, fst (poll E u w)) # since ?w2 (snd (waitLoop E u (Suc i) ?w2))"
        using ps by (rule since_poll)
      from Suc.prems have "x = (statusReq u, fst (poll E u w)) \<or>
          x \<in> set (since ?w2 (snd (waitLoop E u (Suc i) ?w2)))"
        unfolding eq s by simp
      then show ?thesis using Suc.hyps(1) [OF n] by auto
    next
      case False
      have w': "snd (waitLoop E u i w) = ?w2"
        using i None False by (rule waitLoop_stop)
      have "since w ?w2 = [(statusReq u, fst (poll E u w))]"
        by (rule since_append) (simp add: trace_poll)
      with Suc.prems w' show ?thesis by simp
    qed
  qed
qed

lemma wait_extends: "extends w (snd (waitForMediaProcessing E u w))"
  by (simp add: waitForMediaProcessing_def waitLoop_extends)

lemma wait_posts: "posts (since w (snd (waitForMediaProcessing E u w))) = []"
  unfolding posts_def filter_empty_conv waitForMediaProcessing_def
  using waitLoop_requests [of _ w E u 0] by (fastforce simp: statusReq_def)

lemma carouselChildren_posts:
  "extends w (snd (carouselChildren E c paths ids0 w)) \<and>
   length (posts (since w (snd (carouselChildren E c paths ids0 w)))) \<le> length paths \<and>
   map fst (posts (since w (snd (carouselChildren E c paths ids0 w)))) =
     map (\<lambda>p. post_request (media_url c (stated_child_params c p)))
       (take (length (posts (since w (snd (carouselChildren E c paths ids0 w))))) paths) \<and>
   (\<forall>ids. fst (carouselChildren E c paths ids0 w) = Inr ids \<longrightarrow>
      length (posts (since w (snd (carouselChildren E c paths ids0 w)))) = length paths \<and>
      ids = ids0 @ map (\<lambda>x. media_id_of E (snd x))
                     (posts (since w (snd (carouselChildren E c paths ids0 w)))))"
proof (induction paths arbitrary: ids0 w)
  case Nil
  show ?case by (simp add: extends_refl since_self)
next
  case (Cons p rest)
  let ?u = "media_url c (carousel_item_params c p)"
  let ?w1 = "snd (Do E (post_request ?u) w)"
  let ?x = "(post_request (media_url c (stated_child_params c p)), fst (Do E (post_request ?u) w))"
  have x: "since w ?w1 = [?x]"
    by (simp add: since_Do carousel_item_params_refines)
  have e1: "extends w ?w1" by (rule extends_Do)
  from ig_post_result [of E ?u "''failed to create media container''" w]
  consider (bad) e where "ig_post E ?u ''failed to create media container'' w = (Inl (Error e), w)"
    | (failed) e where "ig_post E ?u ''failed to create media container'' w = (Inl e, ?w1)"
    | (ok) m where "ig_post E ?u ''failed to create media container'' w = (Inr m, ?w1)"
        "media_id_of E (fst (Do E (post_request ?u) w)) = ID m"
    by blast
  then show ?case
  proof cases
    case (bad e)
    then show ?thesis by (simp add: extends_refl since_self)
  next
    case (failed e)
    then show ?thesis using x e1 by simp
  next
    case (ok m)
    let ?wt = "if StatusURL m \<noteq> [] then waitForMediaProcessing E (StatusURL m) ?w1
               else (None, ?w1)"
    obtain werr w2 where wt: "?wt = (werr, w2)" by (cases ?wt)
    have "extends ?w1 (snd ?wt)" by (simp add: wait_extends extends_refl)
    then have e2: "extends ?w1 w2" unfolding wt by simp
    have "posts (since ?w1 (snd ?wt)) = []" by (simp add: wait_posts since_self)
    then have p2: "posts (since ?w1 w2) = []" unfolding wt by simp
    have e12: "extends w w2" using e1 e2 by (rule extends_trans)
    have s2: "since w w2 = ?x # since ?w1 w2"
      using since_trans [OF e1 e2] x by simp
    have step: "carouselChildren E c (p # rest) ids0 w =
        (case (werr, w2) of
           (Some e, w2) \<Rightarrow> (Inl e, w2)
         | (None, w2) \<Rightarrow> carouselChildren E c rest (ids0 @ [ID m]) w2)"
      by (simp only: carouselChildren.simps ok(1) prod.case sum.case wt)
    show ?thesis
    proof (cases werr)
      case (Some e)
      with step have "carouselChildren E c (p # rest) ids0 w = (Inl e, w2)" by simp
      then show ?thesis using e12 s2 p2 by simp
    next
      case None
      let ?r = "carouselChildren E c rest (ids0 @ [ID m]) w2"
      from None step have eq: "carouselChildren E c (p # rest) ids0 w = ?r" by simp
      note IH = Cons.IH [of w2 "ids0 @ [ID m]"]
      from IH have e3: "extends w2 (snd ?r)" by simp
      have "since w (snd ?r) = since w w2 @ since w2 (snd ?r)"
        using e12 e3 by (rule since_trans)
      then have P: "posts (since w (snd ?r)) = ?x # posts (since w2 (snd ?r))"
        using s2 p2 by simp
      have "extends w (snd ?r)" using e12 e3 by (rule extends_trans)
      then show ?thesis
        unfolding eq P using IH ok(2) by simp
    qed
  qed
qed
lemma PostCarousel_posts:
  "\<exists>P1 P2. posts (since w (snd (PostCarousel E c paths caption w))) = P1 @ P2 \<and>
     length P1 \<le> length paths \<and>
     map fst P1 =
       map (\<lambda>p. post_request (media_url c (stated_child_params c p))) (take (length P1) paths) \<and>
     (P2 \<noteq> [] \<longrightarrow>
        length P1 = length paths \<and>
        fst (hd P2) =
          post_request (media_url c
            (carousel_params c caption (map (\<lambda>x. media_id_of E (snd x)) P1)))) \<and>
     (\<forall>m. fst (PostCarousel E c paths caption w) = Inr m \<longrightarrow> length P2 = 2)"
proof (cases "ig_AccessToken c = [] \<or> ig_UserID c = []")
  case True
  then have "PostCarousel E c paths caption w =
      (Inl (Error ''access token and user ID are required''), w)"
    by (simp add: PostCarousel_def)
  then show ?thesis by (simp add: since_self)
next
  case False
  obtain r1 w1 where cc: "carouselChildren E c paths [] w = (r1, w1)"
    by (cases "carouselChildren E c paths [] w")
  let ?P1 = "posts (since w w1)"
  from carouselChildren_posts [of w E c paths "[]"] cc
  have e1: "extends w w1"
    and l1: "length ?P1 \<le> length paths"
    and m1: "map fst ?P1 =
       map (\<lambda>p. post_request (media_url c (stated_child_params c p))) (take (length ?P1) paths)"
    and i1: "\<And>ids. r1 = Inr ids \<Longrightarrow>
       length ?P1 = length paths \<and> ids = map (\<lambda>x. media_id_of E (snd x)) ?P1"
    by simp_all
  show ?thesis
  proof (cases r1)
    case (Inl e)
    with False cc have "PostCarousel E c paths caption w = (Inl e, w1)"
      by (simp add: PostCarousel_def)
    then show ?thesis using l1 m1
      by (intro exI [of _ ?P1] exI [of _ "[]"]) simp
  next
    case (Inr ids)
    let ?u = "media_url c (carousel_params c caption ids)"
    let ?x = "(post_request ?u, fst (Do E (post_request ?u) w1))"
    obtain r2 w2 where r2: "ig_post E ?u ''failed to create carousel container'' w1 = (r2, w2)"
      by (cases "ig_post E ?u ''failed to create carousel container'' w1")
    from i1 [OF Inr] have len: "length ?P1 = length paths"
      and ids: "ids = map (\<lambda>x. media_id_of E (snd x)) ?P1" by simp_all
    have e2: "extends w1 w2"
      using ig_post_extends [of w1 E ?u "''failed to create carousel container''"] r2 by simp
    have s12: "since w1 w2 = (if url_error E ?u = None then [?x] else [])"
      using ig_post_since [of w1 E ?u "''failed to create carousel container''"] r2 by simp
    have s2: "since w w2 = since w w1 @ since w1 w2"
      using e1 e2 by (rule since_trans)
    show ?thesis
    proof (cases r2)
      case (Inl e)
      with False cc \<open>r1 = Inr ids\<close> r2 have pc: "PostCarousel E c paths caption w = (Inl e, w2)"
        by (simp add: PostCarousel_def)
      have "posts (since w w2) = ?P1 @ (if url_error E ?u = None then [?x] else [])"
        unfolding s2 s12 by simp
      then show ?thesis unfolding pc using l1 m1 len ids
        by (intro exI [of _ ?P1] exI [of _ "if url_error E ?u = None then [?x] else []"])
           simp
    next
      case (Inr cr)
      let ?v = "publish_url c (ID cr)"
      let ?r3 = "ig_post E ?v ''failed to publish carousel'' w2"
      let ?y = "(post_request ?v, fst (Do E (post_request ?v) w2))"
      from False cc \<open>r1 = Inr ids\<close> r2 Inr
      have pc: "PostCarousel E c paths caption w = ?r3"
        by (simp add: PostCarousel_def)
      have sent: "url_error E ?u = None"
        using ig_post_sent [of E ?u "''failed to create carousel container''" w1 cr] r2 Inr
        by simp
      have e3: "extends w2 (snd ?r3)" by (rule ig_post_extends)
      have "since w (snd ?r3) = since w w2 @ since w2 (snd ?r3)"
        using extends_trans [OF e1 e2] e3 by (rule since_trans)
      then have P: "posts (since w (snd ?r3)) =
          ?P1 @ (?x # (if url_error E ?v = None then [?y] else []))"
        unfolding s2 s12 using sent by (simp add: ig_post_since)
      have "length (?x # (if url_error E ?v = None then [?y] else [])) = 2"
        if "fst ?r3 = Inr m" for m
        using ig_post_sent [OF that] by simp
      then show ?thesis unfolding pc using P l1 m1 len ids
        by (intro exI [of _ ?P1]
              exI [of _ "?x # (if url_error E ?v = None then [?y] else [])"])
           simp
    qed
  qed
qed

text \<open>
  \<^bold>\<open>C10\<close>: in \<^verbatim>\<open>PostCarousel\<close>, the request for the child container of every media path uses
  the media type \<^verbatim>\<open>VIDEO\<close> and the parameter \<^verbatim>\<open>video_url\<close> if and only if the path ends
  case-insensitively with \<^verbatim>\<open>.mp4\<close>, and \<^verbatim>\<open>IMAGE\<close> and \<^verbatim>\<open>image_url\<close> otherwise; the child
  container IDs are joined into the \<^verbatim>\<open>children\<close> parameter of the carousel in the order of the
  input list. Over the \<^verbatim>\<open>POST\<close> requests of a run, in the order sent: the i-th is the child
  request stated for the i-th path; the request after the last child is the carousel's, and its
  \<^verbatim>\<open>children\<close> is the comma-joined list of the IDs decoded from the answers to the child
  requests, in that order; a run that succeeds has sent them all, and the publish request.
\<close>

theorem PostCarousel_children_in_order:
  "let P = posts (since w (snd (PostCarousel E c mediaPaths caption w))) in
     (\<forall>i < length mediaPaths. i < length P \<longrightarrow>
        fst (P ! i) = post_request (media_url c (stated_child_params c (mediaPaths ! i)))) \<and>
     (length mediaPaths < length P \<longrightarrow>
        query_of (fst (P ! length mediaPaths)) =
          [(''media_type'', ''CAROUSEL''), (''caption'', caption),
           (''access_token'', ig_AccessToken c),
           (''children'',
            Join (map (\<lambda>x. media_id_of E (snd x)) (take (length mediaPaths) P)) '','')]) \<and>
     (\<forall>m. fst (PostCarousel E c mediaPaths caption w) = Inr m \<longrightarrow>
        length P = length mediaPaths + 2)"
proof -
  let ?P = "posts (since w (snd (PostCarousel E c mediaPaths caption w)))"
  let ?f = "\<lambda>p. post_request (media_url c (stated_child_params c p))"
  from PostCarousel_posts [of w E c mediaPaths caption]
  obtain P1 P2 where P: "?P = P1 @ P2"
    and l1: "length P1 \<le> length mediaPaths"
    and m1: "map fst P1 = map ?f (take (length P1) mediaPaths)"
    and p2: "P2 \<noteq> [] \<Longrightarrow> length P1 = length mediaPaths \<and>
        fst (hd P2) = post_request (media_url c
            (carousel_params c caption (map (\<lambda>x. media_id_of E (snd x)) P1)))"
    and ok: "\<And>m. fst (PostCarousel E c mediaPaths caption w) = Inr m \<Longrightarrow> length P2 = 2"
    by blast
  have a: "fst (?P ! i) = ?f (mediaPaths ! i)" if "i < length mediaPaths" "i < length ?P" for i
  proof (cases "i < length P1")
    case True
    then have "fst (?P ! i) = map fst P1 ! i" unfolding P by (simp add: nth_append)
    also have "\<dots> = ?f (mediaPaths ! i)" unfolding m1 using True that(1) by simp
    finally show ?thesis .
  next
    case False
    with that(2) P have "P2 \<noteq> []" by auto
    from p2 [OF this] False that(1) show ?thesis by simp
  qed
  have b: "query_of (fst (?P ! length mediaPaths)) =
          [(''media_type'', ''CAROUSEL''), (''caption'', caption),
           (''access_token'', ig_AccessToken c),
           (''children'',
            Join (map (\<lambda>x. media_id_of E (snd x)) (take (length mediaPaths) ?P)) '','')]"
    if "length mediaPaths < length ?P"
  proof -
    from that P l1 have ne: "P2 \<noteq> []" by auto
    from p2 [OF ne] have len: "length P1 = length mediaPaths"
      and h: "fst (hd P2) = post_request (media_url c
            (carousel_params c caption (map (\<lambda>x. media_id_of E (snd x)) P1)))"
      by simp_all
    have "?P ! length mediaPaths = hd P2"
      unfolding P using len ne by (simp add: nth_append hd_conv_nth)
    moreover have "take (length mediaPaths) ?P = P1" unfolding P using len by simp
    ultimately show ?thesis
      using h by (simp add: query_of_def post_request_def media_url_def carousel_params_def)
  qed
  have c: "length ?P = length mediaPaths + 2"
    if "fst (PostCarousel E c mediaPaths caption w) = Inr m" for m
  proof -
    from ok [OF that] have "P2 \<noteq> []" and "length P2 = 2" by auto
    with p2 P show ?thesis by simp
  qed
  from a b c show ?thesis unfolding Let_def by blast
qed

lemma carousel_run:
  \<open>PostCarousel
     (scripted [answer 200 ''{"id":"c1"}'', answer 200 ''{"id":"c2"}'',
                answer 200 ''{"id":"m9"}'', answer 200 ''{"id":"m9"}'']
        (answer 500 ''boom''))
     insta [''a.MP4'', ''b.png''] ''hi'' w0 =
   (Inr \<lparr>ID = ''m9'', StatusURL = []\<rparr>,
    \<lparr>trace =
       [(post_request (media_url insta
           [(''media_type'', ''VIDEO''), (''video_url'', ''a.MP4''),
            (''is_carousel_item'', ''true''), (''access_token'', ''tok'')]),
         answer 200 ''{"id":"c1"}''),
        (post_request (media_url insta
           [(''media_type'', ''IMAGE''), (''image_url'', ''b.png''),
            (''is_carousel_item'', ''true''), (''access_token'', ''tok'')]),
         answer 200 ''{"id":"c2"}''),
        (post_request (media_url insta
           [(''media_type'', ''CAROUSEL''), (''caption'', ''hi''), (''access_token'', ''tok''),
            (''children'', ''c1,c2'')]),
         answer 200 ''{"id":"m9"}''),
        (post_request (publish_url insta ''m9''), answer 200 ''{"id":"m9"}'')],
     slept = 0, printed = [], sent_at = [0, 0, 0, 0]\<rparr>)\<close>
  by (simp add: PostCarousel_def carousel_item_params_refines stated_child_params_def
      ends_with_mp4_def carousel_params_def ig_post_def NewRequest_def Do_eq post_request_def
      answer_def w0_def known_media_def insta_def)

theorem PostCarousel_children_in_order_witness:
  \<open>ends_with_mp4 ''a.MP4'' \<and> \<not> ends_with_mp4 ''b.png'' \<and>
   map (\<lambda>x. query_of (fst x))
     (posts (since w0 (snd (PostCarousel
        (scripted [answer 200 ''{"id":"c1"}'', answer 200 ''{"id":"c2"}'',
                   answer 200 ''{"id":"m9"}'', answer 200 ''{"id":"m9"}'']
           (answer 500 ''boom''))
        insta [''a.MP4'', ''b.png''] ''hi'' w0)))) =
     [[(''media_type'', ''VIDEO''), (''video_url'', ''a.MP4''),
       (''is_carousel_item'', ''true''), (''access_token'', ''tok'')],
      [(''media_type'', ''IMAGE''), (''image_url'', ''b.png''),
       (''is_carousel_item'', ''true''), (''access_token'', ''tok'')],
      [(''media_type'', ''CAROUSEL''), (''caption'', ''hi''), (''access_token'', ''tok''),
       (''children'', ''c1,c2'')],
      [(''creation_id'', ''m9''), (''access_token'', ''tok'')]]\<close>
  using PostCarousel_children_in_order
    [of w0 "scripted [answer 200 ''{\"id\":\"c1\"}'', answer 200 ''{\"id\":\"c2\"}'',
                   answer 200 ''{\"id\":\"m9\"}'', answer 200 ''{\"id\":\"m9\"}'']
           (answer 500 ''boom'')" insta "[''a.MP4'', ''b.png'']" "''hi''"]
  unfolding carousel_run
  by (simp add: since_def w0_def posts_def Let_def query_of_def post_request_def media_url_def
      publish_url_def ends_with_mp4_def insta_def)
subsection \<open>Rejected steps\<close>

lemma aborts_all_accepted:
  "list_all (not_rejected step) tr \<Longrightarrow> aborts_on_rejection step tr msg"
  by (induction step tr msg rule: aborts_on_rejection.induct) auto

lemma aborts_append:
  "list_all (not_rejected step) tr1 \<Longrightarrow> aborts_on_rejection step tr2 msg \<Longrightarrow>
   aborts_on_rejection step (tr1 @ tr2) msg"
  by (induction step tr1 msg rule: aborts_on_rejection.induct) auto

lemma aborts_one [simp]:
  "aborts_on_rejection step [(rq, r)] msg =
     (case r of Inl e \<Rightarrow> True | Inr resp \<Rightarrow> \<not> (step rq \<and> non_2xx resp) \<or> wraps_body msg resp)"
  by (cases r) auto

lemma accepted_one [simp]:
  "not_rejected step (rq, r) =
     (case r of Inl e \<Rightarrow> True | Inr resp \<Rightarrow> \<not> (step rq \<and> non_2xx resp))"
  by (cases r) auto

lemma wraps_longer: "wraps_body (Some m) resp \<Longrightarrow> wraps_body (Some (pre @ m)) resp"
  by (auto simp: wraps_body_def sublist_def) (metis append.assoc)

lemma aborts_longer:
  "aborts_on_rejection step tr (Some m) \<Longrightarrow> aborts_on_rejection step tr (Some (pre @ m))"
  by (induction step tr "Some m" rule: aborts_on_rejection.induct) (auto simp: wraps_longer)

lemma wraps_ig [simp]: "wraps_body (error_message (Inl (ig_status_error what resp))) resp"
  unfolding ig_status_error_def wraps_body_def
  using sublist_appendI [of "Body resp" "what @ '': ''" "'', status: '' @ itoa (StatusCode resp)"]
  by simp

lemma wraps_li [simp]: "wraps_body (error_message (Inl (li_status_error what resp))) resp"
  unfolding li_status_error_def wraps_body_def
  using sublist_appendI [of "Body resp" "what @ '': ''" "'', status: '' @ itoa (StatusCode resp)"]
  by simp

lemma extends_snoc [simp]: "extends w (w\<lparr>trace := trace w @ ps, sent_at := ts\<rparr>)"
  by (simp add: extends_def)

lemma aborting_refl [simp]: "aborting_call step w (r, w)"
  by (simp add: aborting_call_def extends_refl since_self)

lemma aborting_seq:
  assumes "aborting_call step w (Inr v, w1)" and "aborting_call step w1 R"
  shows "aborting_call step w R"
proof -
  from assms have e: "extends w w1" "extends w1 (snd R)"
    by (simp_all add: aborting_call_def)
  have s: "since w (snd R) = since w w1 @ since w1 (snd R)"
    using e by (rule since_trans)
  from assms(1) have "list_all (not_rejected step) (since w w1)"
    by (simp add: aborting_call_def)
  with assms(2) e show ?thesis
    unfolding aborting_call_def s
    by (auto intro: extends_trans aborts_append)
qed

lemma error_message_Inl: "error_message (Inl e) = failure_message (Some e)"
  by (cases e) simp_all

lemma aborting_bind:
  assumes "aborting_call step w G"
    and "\<And>v. fst G = Inr v \<Longrightarrow> aborting_call step (snd G) (K v (snd G))"
  shows "aborting_call step w
           (case G of (Inl e, w1) \<Rightarrow> (Inl e, w1) | (Inr v, w1) \<Rightarrow> K v w1)"
proof (cases G)
  case (Pair r1 w1)
  show ?thesis
  proof (cases r1)
    case (Inl e)
    with Pair assms(1) show ?thesis by (simp add: aborting_call_def error_message_Inl)
  next
    case (Inr v)
    from assms(1) Pair Inr have "aborting_call step w (Inr v, w1)" by simp
    moreover from assms(2) [of v] Pair Inr have "aborting_call step w1 (K v w1)" by simp
    ultimately have "aborting_call step w (K v w1)" by (rule aborting_seq)
    with Pair Inr show ?thesis by simp
  qed
qed

lemma ig_post_aborting: "aborting_call is_post w (ig_post E u what w)"
  by (simp add: aborting_call_def ig_post_def NewRequest_def Do_eq since_self extends_refl
      non_2xx_def split: option.split sum.split)

lemma wait_accepted:
  "list_all (not_rejected is_post) (since w (snd (waitForMediaProcessing E u w)))"
  unfolding list_all_iff waitForMediaProcessing_def
  using waitLoop_requests [of _ w E u 0]
  by (fastforce simp: statusReq_def is_post_def split: sum.split)

lemma aborting_after_wait:
  assumes "\<And>w2. aborting_call is_post w2 (K w2)"
  shows "aborting_call is_post w1
           (case (if s \<noteq> [] then waitForMediaProcessing E s w1 else (None, w1)) of
              (Some e, w2) \<Rightarrow> (Inl e, w2) | (None, w2) \<Rightarrow> K w2)"
proof -
  let ?wt = "if s \<noteq> [] then waitForMediaProcessing E s w1 else (None, w1)"
  obtain werr w2 where wt: "?wt = (werr, w2)" by (cases ?wt)
  have "extends w1 (snd ?wt)" by (simp add: wait_extends extends_refl)
  then have e: "extends w1 w2" unfolding wt by simp
  have "list_all (not_rejected is_post) (since w1 (snd ?wt))"
    by (simp add: wait_accepted since_self)
  then have a: "list_all (not_rejected is_post) (since w1 w2)" unfolding wt by simp
  have c: "aborting_call is_post w1 (Inr (), w2)"
    using e a by (simp add: aborting_call_def aborts_all_accepted)
  show ?thesis
  proof (cases werr)
    case (Some err)
    then show ?thesis unfolding wt using e a
      by (simp add: aborting_call_def aborts_all_accepted)
  next
    case None
    then show ?thesis unfolding wt using aborting_seq [OF c assms [of w2]] by simp
  qed
qed

lemma PostReel_aborting:
  "aborting_call is_post w (PostReel E c videoPath caption coverImagePath shareToFeed w)"
proof (cases "ig_AccessToken c = [] \<or> ig_UserID c = []")
  case True
  then show ?thesis by (simp add: PostReel_def)
next
  case False
  show ?thesis
    unfolding PostReel_def Let_def
    by (simp only: False if_False)
       (intro aborting_bind aborting_after_wait ig_post_aborting)
qed

lemma carouselChildren_aborting:
  "aborting_call is_post w (carouselChildren E c paths ids0 w)"
proof (induction paths arbitrary: ids0 w)
  case Nil
  show ?case by simp
next
  case (Cons p rest)
  show ?case
    by (simp only: carouselChildren.simps)
       (intro aborting_bind aborting_after_wait ig_post_aborting Cons.IH)
qed

lemma PostCarousel_aborting:
  "aborting_call is_post w (PostCarousel E c mediaPaths caption w)"
proof (cases "ig_AccessToken c = [] \<or> ig_UserID c = []")
  case True
  then show ?thesis by (simp add: PostCarousel_def)
next
  case False
  show ?thesis
    unfolding PostCarousel_def
    by (simp only: False if_False)
       (intro aborting_bind carouselChildren_aborting ig_post_aborting)
qed
subsection \<open>Rejected steps of the LinkedIn sequence\<close>

lemma GetUserProfile_aborting:
  "aborting_call any_request w
     (fst (GetUserProfile E c w), snd (snd (GetUserProfile E c w)))"
  by (simp add: GetUserProfile_def aborting_call_def NewRequest_def Do_eq since_self extends_refl
      non_2xx_def Let_def split: option.split sum.split json.split)

lemma aborting_wrapped:
  assumes "aborting_call step w (Inl (Error e), w1)"
  shows "aborting_call step w (Inl (Error (pre @ e)), w1)"
proof -
  from assms have "aborts_on_rejection step (since w w1) (Some e)" and e: "extends w w1"
    by (simp_all add: aborting_call_def)
  then have "aborts_on_rejection step (since w w1) (Some (pre @ e))"
    by (intro aborts_longer)
  with e show ?thesis by (simp add: aborting_call_def)
qed

lemma resolve_author_aborting:
  "aborting_call any_request w
     (fst (resolve_author E c authorType authorID w),
      snd (snd (resolve_author E c authorType authorID w)))"
proof (cases "authorID = [] \<and> (if authorType = [] then ''person'' else authorType) = ''person''
              \<and> li_UserID c = []")
  case False
  then show ?thesis by (auto simp: resolve_author_def Let_def)
next
  case True
  obtain r1 c1 w1 where g: "GetUserProfile E c w = (r1, c1, w1)"
    by (cases "GetUserProfile E c w")
  have s1: "aborting_call any_request w (r1, w1)"
    using GetUserProfile_aborting [of w E c] g by simp
  show ?thesis
  proof (cases r1)
    case (Inl err)
    show ?thesis
    proof (cases err)
      case (Error e)
      from True g Inl Error
      have eq: "resolve_author E c authorType authorID w =
          (Inl (Error (''could not determine user ID: '' @ e)), c1, w1)"
        by (simp add: resolve_author_def Let_def del: append.simps)
      from s1 Inl Error have "aborting_call any_request w (Inl (Error e), w1)"
        by (simp add: aborting_call_def)
      then have "aborting_call any_request w
          (Inl (Error (''could not determine user ID: '' @ e)), w1)"
        by (rule aborting_wrapped)
      then show ?thesis unfolding eq by (simp add: aborting_call_def)
    next
      case (Panic p)
      from True g Inl Panic
      have eq: "resolve_author E c authorType authorID w = (Inl (Panic p), c1, w1)"
        by (simp add: resolve_author_def Let_def)
      from s1 Inl Panic show ?thesis unfolding eq by (simp add: aborting_call_def)
    qed
  next
    case (Inr profile)
    from True g Inr
    have eq: "resolve_author E c authorType authorID w =
        (Inr (if authorType = [] then ''person'' else authorType, up_ID profile), c1, w1)"
      by (simp add: resolve_author_def Let_def)
    from s1 Inr show ?thesis unfolding eq by (simp add: aborting_call_def)
  qed
qed

lemma InitiateImageUpload_aborting:
  "aborting_call any_request w (InitiateImageUpload E c imageType w)"
  by (simp add: InitiateImageUpload_def aborting_call_def NewRequest_def Do_eq since_self
      extends_refl since_Printf non_2xx_def Let_def split: option.split sum.split json.split)

lemma UploadImage_aborting: "aborting_call any_request w (UploadImage E c imagePath w)"
proof (cases "li_AccessToken c = []")
  case True
  then show ?thesis by (simp add: UploadImage_def)
next
  case False
  obtain r1 w1 where g: "InitiateImageUpload E c ''image'' w = (r1, w1)"
    by (cases "InitiateImageUpload E c ''image'' w")
  have s1: "aborting_call any_request w (r1, w1)"
    using InitiateImageUpload_aborting [of w E c "''image''"] g by simp
  show ?thesis
  proof (cases r1)
    case (Inl e)
    with False g have "UploadImage E c imagePath w = (Inl e, w1)"
      by (simp add: UploadImage_def)
    with s1 Inl show ?thesis by (simp add: aborting_call_def error_message_Inl)
  next
    case (Inr v)
    with s1 have "aborting_call any_request w (Inr v, w1)" by simp
    then show ?thesis
    proof (rule aborting_seq)
      show "aborting_call any_request w1 (UploadImage E c imagePath w)"
        using False g Inr
        by (simp add: UploadImage_def aborting_call_def NewRequest_def Do_eq since_self
            extends_refl non_2xx_def split: option.split sum.split prod.split)
    qed
  qed
qed

lemma CreateImagePost_aborting:
  "aborting_call any_request w
     (fst (CreateImagePost E c text imageAssetURN authorType authorID w),
      snd (snd (CreateImagePost E c text imageAssetURN authorType authorID w)))"
proof (cases "li_AccessToken c = []")
  case True
  then show ?thesis by (simp add: CreateImagePost_def)
next
  case False
  obtain r1 c1 w1 where g: "resolve_author E c authorType authorID w = (r1, c1, w1)"
    by (cases "resolve_author E c authorType authorID w")
  have s1: "aborting_call any_request w (r1, w1)"
    using resolve_author_aborting [of w E c authorType authorID] g by simp
  show ?thesis
  proof (cases r1)
    case (Inl e)
    with False g
    have "CreateImagePost E c text imageAssetURN authorType authorID w = (Inl e, c1, w1)"
      by (simp add: CreateImagePost_def)
    with s1 Inl show ?thesis by (simp add: aborting_call_def error_message_Inl)
  next
    case (Inr v)
    with s1 have "aborting_call any_request w (Inr v, w1)" by simp
    then show ?thesis
    proof (rule aborting_seq)
      show "aborting_call any_request w1
         (fst (CreateImagePost E c text imageAssetURN authorType authorID w),
          snd (snd (CreateImagePost E c text imageAssetURN authorType authorID w)))"
        using False g Inr
        by (simp add: CreateImagePost_def aborting_call_def NewRequest_def Do_eq since_self
            extends_refl non_2xx_def
            split: option.split sum.split prod.split json.split)
    qed
  qed
qed

lemma PostWithImage_aborting:
  "aborting_call any_request w
     (fst (PostWithImage E c text imagePath authorType authorID w),
      snd (snd (PostWithImage E c text imagePath authorType authorID w)))"
proof -
  obtain r1 w1 where g: "UploadImage E c imagePath w = (r1, w1)"
    by (cases "UploadImage E c imagePath w")
  have s1: "aborting_call any_request w (r1, w1)"
    using UploadImage_aborting [of w E c imagePath] g by simp
  show ?thesis
  proof (cases r1)
    case (Inl err)
    show ?thesis
    proof (cases err)
      case (Error e)
      from g Inl Error
      have eq: "PostWithImage E c text imagePath authorType authorID w =
          (Inl (Error (''failed to upload image: '' @ e)), c, w1)"
        by (simp add: PostWithImage_def del: append.simps)
      from s1 Inl Error have "aborting_call any_request w (Inl (Error e), w1)"
        by (simp add: aborting_call_def)
      then have "aborting_call any_request w
          (Inl (Error (''failed to upload image: '' @ e)), w1)"
        by (rule aborting_wrapped)
      then show ?thesis unfolding eq by (simp add: aborting_call_def)
    next
      case (Panic p)
      from g Inl Panic
      have eq: "PostWithImage E c text imagePath authorType authorID w = (Inl (Panic p), c, w1)"
        by (simp add: PostWithImage_def)
      from s1 Inl Panic show ?thesis unfolding eq by (simp add: aborting_call_def)
    qed
  next
    case (Inr assetURN)
    with g have eq: "PostWithImage E c text imagePath authorType authorID w =
        CreateImagePost E c text assetURN authorType authorID w1"
      by (simp add: PostWithImage_def)
    from s1 Inr have "aborting_call any_request w (Inr assetURN, w1)" by simp
    then show ?thesis unfolding eq
      using CreateImagePost_aborting by (rule aborting_seq)
  qed
qed
text \<open>
  \<^bold>\<open>C5\<close>, as stated: in the upload and publish handshake, a response outside 2xx at any step
  aborts the operation with an error that wraps the response body, and no further request is
  sent. It fails at the status poll, whose HTTP status the code never reads: in \<^verbatim>\<open>PostReel\<close>,
  a poll answered \<^verbatim>\<open>500\<close> with the body \<^verbatim>\<open>{"status_code":"FINISHED"}\<close> is followed by the
  publish request, and the reel is published.
\<close>

theorem PostReel_rejected_poll_counterexample:
  \<open>PostReel
     (scripted [answer 200 ''{"id":"c3","status_url":"https://s/3"}'',
                answer 500 ''{"status_code":"FINISHED"}'',
                answer 200 ''{"id":"m9"}'']
        (answer 500 ''boom''))
     insta ''https://v/1.mp4'' ''hi'' [] False w0 =
   (Inr \<lparr>ID = ''m9'', StatusURL = []\<rparr>,
    \<lparr>trace =
       [(post_request (media_url insta
           [(''media_type'', ''REELS''), (''video_url'', ''https://v/1.mp4''), (''caption'', ''hi''),
            (''access_token'', ''tok'')]),
         Inr \<lparr>StatusCode = 200, Body = ''{"id":"c3","status_url":"https://s/3"}''\<rparr>),
        (statusReq ''https://s/3'',
         Inr \<lparr>StatusCode = 500, Body = ''{"status_code":"FINISHED"}''\<rparr>),
        (post_request (publish_url insta ''c3''),
         Inr \<lparr>StatusCode = 200, Body = ''{"id":"m9"}''\<rparr>)],
     slept = 2, printed = [], sent_at = [0, 2, 2]\<rparr>) \<and>
   non_2xx \<lparr>StatusCode = 500, Body = ''{"status_code":"FINISHED"}''\<rparr>\<close>
  by (simp add: PostReel_def ig_post_def post_request_def run_defs non_2xx_def insta_def)

text \<open>
  \<^bold>\<open>C5\<close>, amended: in \<^verbatim>\<open>PostReel\<close> and \<^verbatim>\<open>PostCarousel\<close>, a response outside 2xx to a \<^verbatim>\<open>POST\<close>
  (a container or a publish request; the status poll is a \<^verbatim>\<open>GET\<close>), and in the LinkedIn
  sequence \<^verbatim>\<open>PostWithImage\<close> (register the upload, \<^verbatim>\<open>PUT\<close> the file, fetch the profile if the
  author is not known, publish) a response outside 2xx to any request, is the last exchange
  of the operation, and the operation returns an error whose message contains the body of that
  response.
\<close>

theorem handshake_aborts_on_rejected_step:
  "aborts_on_rejection is_post
     (since w (snd (PostReel E c videoPath caption coverImagePath shareToFeed w)))
     (error_message (fst (PostReel E c videoPath caption coverImagePath shareToFeed w))) \<and>
   aborts_on_rejection is_post
     (since w (snd (PostCarousel E c mediaPaths caption w)))
     (error_message (fst (PostCarousel E c mediaPaths caption w))) \<and>
   aborts_on_rejection any_request
     (since w (snd (snd (PostWithImage E l post_text imagePath authorType authorID w))))
     (error_message (fst (PostWithImage E l post_text imagePath authorType authorID w)))"
  using PostReel_aborting [of w E c videoPath caption coverImagePath shareToFeed]
    PostCarousel_aborting [of w E c mediaPaths caption]
    PostWithImage_aborting [of w E l post_text imagePath authorType authorID]
  by (simp add: aborting_call_def)

lemma reel_rejected_run:
  \<open>PostReel (scripted [answer 200 ''{"id":"c1"}'', answer 500 ''boom''] (answer 200 ''{}''))
     insta ''https://v/1.mp4'' ''hi'' [] False w0 =
   (Inl (Error ''failed to publish reel: boom, status: 500''),
    \<lparr>trace =
       [(post_request (media_url insta
           [(''media_type'', ''REELS''), (''video_url'', ''https://v/1.mp4''), (''caption'', ''hi''),
            (''access_token'', ''tok'')]),
         Inr \<lparr>StatusCode = 200, Body = ''{"id":"c1"}''\<rparr>),
        (post_request (publish_url insta ''c1''),
         Inr \<lparr>StatusCode = 500, Body = ''boom''\<rparr>)],
     slept = 0, printed = [], sent_at = [0, 0]\<rparr>)\<close>
  by (simp add: PostReel_def ig_post_def post_request_def run_defs insta_def ig_status_error_def
      itoa_def digits.simps char_of_eq_iff)

theorem handshake_aborts_on_rejected_step_witness:
  \<open>fst (PostReel (scripted [answer 200 ''{"id":"c1"}'', answer 500 ''boom''] (answer 200 ''{}''))
          insta ''https://v/1.mp4'' ''hi'' [] False w0) =
     Inl (Error ''failed to publish reel: boom, status: 500'') \<and>
   map snd (since w0 (snd
     (PostReel (scripted [answer 200 ''{"id":"c1"}'', answer 500 ''boom''] (answer 200 ''{}''))
        insta ''https://v/1.mp4'' ''hi'' [] False w0))) =
     [Inr \<lparr>StatusCode = 200, Body = ''{"id":"c1"}''\<rparr>, Inr \<lparr>StatusCode = 500, Body = ''boom''\<rparr>] \<and>
   non_2xx \<lparr>StatusCode = 500, Body = ''boom''\<rparr> \<and>
   wraps_body (Some ''failed to publish reel: boom, status: 500'')
     \<lparr>StatusCode = 500, Body = ''boom''\<rparr>\<close>
  using handshake_aborts_on_rejected_step
    [of w0 "scripted [answer 200 ''{\"id\":\"c1\"}'', answer 500 ''boom''] (answer 200 ''{}'')"
       insta "''https://v/1.mp4''" "''hi''" "[]" False]
  unfolding reel_rejected_run
  by (simp add: since_def w0_def non_2xx_def is_post_def post_request_def)
subsection \<open>Credentials\<close>

lemma sends_refl [simp]: "sends_only P w w"
  by (simp add: sends_only_def extends_refl since_self requests_def)

lemma sends_trans: "sends_only P w w1 \<Longrightarrow> sends_only P w1 w2 \<Longrightarrow> sends_only P w w2"
  by (auto simp: sends_only_def requests_def since_trans intro: extends_trans)

lemma sends_mono: "(\<And>rq. P rq \<Longrightarrow> Q rq) \<Longrightarrow> sends_only P w w' \<Longrightarrow> sends_only Q w w'"
  by (auto simp: sends_only_def list_all_iff)

lemma sends_one [simp]:
  "sends_only P w (w\<lparr>trace := trace w @ [(rq, r)], sent_at := ts\<rparr>) = P rq"
  by (simp add: sends_only_def requests_def)

lemma sends_Printf [simp]: "sends_only P w (Printf s w') = sends_only P w w'"
  by (simp add: sends_only_def since_Printf)

lemma sends_bind:
  assumes "sends_only P w (snd G)"
    and "\<And>v. sends_only P (snd G) (snd (K v (snd G)))"
  shows "sends_only P w (snd (case G of (Inl e, w1) \<Rightarrow> (Inl e, w1) | (Inr v, w1) \<Rightarrow> K v w1))"
proof (cases G)
  case (Pair r1 w1)
  show ?thesis
  proof (cases r1)
    case (Inl e)
    with Pair assms(1) show ?thesis by simp
  next
    case (Inr v)
    from assms(1) Pair have "sends_only P w w1" by simp
    moreover from assms(2) [of v] Pair have "sends_only P w1 (snd (K v w1))" by simp
    ultimately have "sends_only P w (snd (K v w1))" by (rule sends_trans)
    with Pair Inr show ?thesis by simp
  qed
qed

lemma has_bearer_Header_Set [simp]:
  "has_bearer t (Header_Set k v rq) =
     (has_bearer t rq \<or> (k = ''Authorization'' \<and> v = ''Bearer '' @ t))"
  by (auto simp: has_bearer_def Header_Set_def)

lemma has_bearer_ts [simp]: "has_bearer (ts_AuthToken s) (ts_authorize s rq)"
  by (simp add: ts_authorize_def)

lemma has_bearer_li [simp]:
  "has_bearer (li_AccessToken c) (li_authorize c rq)"
  "has_bearer (li_AccessToken c) (ugc_request c rq)"
  by (simp_all add: li_authorize_def ugc_request_def)

lemma CreateThread_sends:
  "sends_only (has_bearer (ts_AuthToken s)) w (snd (CreateThread E s title content authorID w))"
  by (simp add: CreateThread_def NewRequest_def Do_eq Let_def split: option.split sum.split)

lemma GetThread_sends:
  "sends_only (has_bearer (ts_AuthToken s)) w (snd (GetThread E s threadID w))"
  by (simp add: GetThread_def NewRequest_def Do_eq Let_def split: option.split sum.split)

lemma UpdateThread_sends:
  "sends_only (has_bearer (ts_AuthToken s)) w (snd (UpdateThread E s threadID title content w))"
  by (simp add: UpdateThread_def NewRequest_def Do_eq Let_def split: option.split sum.split)

lemma DeleteThread_sends:
  "sends_only (has_bearer (ts_AuthToken s)) w (snd (DeleteThread E s threadID w))"
  by (simp add: DeleteThread_def NewRequest_def Do_eq Let_def split: option.split sum.split)

lemma ListThreads_sends:
  "sends_only (has_bearer (ts_AuthToken s)) w (snd (ListThreads E s page limit w))"
  by (simp add: ListThreads_def NewRequest_def Do_eq Let_def split: option.split sum.split)

lemma CreateReply_sends:
  "sends_only (has_bearer (ts_AuthToken s)) w
     (snd (CreateReply E s threadID content authorID parentID w))"
  by (simp add: CreateReply_def NewRequest_def Do_eq Let_def split: option.split sum.split)

lemma GetReplies_sends:
  "sends_only (has_bearer (ts_AuthToken s)) w (snd (GetReplies E s threadID page limit w))"
  by (simp add: GetReplies_def NewRequest_def Do_eq Let_def split: option.split sum.split)

lemma UpdateReply_sends:
  "sends_only (has_bearer (ts_AuthToken s)) w (snd (UpdateReply E s replyID content w))"
  by (simp add: UpdateReply_def NewRequest_def Do_eq Let_def split: option.split sum.split)

lemma DeleteReply_sends:
  "sends_only (has_bearer (ts_AuthToken s)) w (snd (DeleteReply E s replyID w))"
  by (simp add: DeleteReply_def NewRequest_def Do_eq Let_def split: option.split sum.split)

lemma SearchThreads_sends:
  "sends_only (has_bearer (ts_AuthToken s)) w (snd (SearchThreads E s query page limit w))"
  by (simp add: SearchThreads_def NewRequest_def Do_eq Let_def split: option.split sum.split)

lemma CreateTweet_sends:
  "sends_only (has_bearer (tw_BearerToken t)) w (snd (CreateTweet E t tweet_text w))"
  by (simp add: CreateTweet_def NewRequest_def Do_eq Let_def split: option.split sum.split)

lemma ReplyToTweet_sends:
  "sends_only (has_bearer (tw_BearerToken t)) w
     (snd (ReplyToTweet E t inReplyToTweetID tweet_text w))"
  by (simp add: ReplyToTweet_def NewRequest_def Do_eq Let_def split: option.split sum.split)

lemma GetTweet_sends:
  "sends_only (has_bearer (tw_BearerToken t)) w (snd (GetTweet E t tweetID w))"
  by (simp add: GetTweet_def NewRequest_def Do_eq Let_def split: option.split sum.split)

lemma DeleteTweet_sends:
  "sends_only (has_bearer (tw_BearerToken t)) w (snd (DeleteTweet E t tweetID w))"
  by (simp add: DeleteTweet_def NewRequest_def Do_eq Let_def split: option.split sum.split)

end
